(* ===== verification/Prelude.thy ===== *)
theory Prelude
  imports Complex_Main "HOL-Library.Word"
begin

text \<open>
  Shared vocabulary of the development: the types that name ROS times, the
  exceptions the node's callback can meet (Python's \<open>ValueError\<close>, \<open>KeyError\<close>,
  \<open>IndexError\<close>, \<open>TypeError\<close> and the four exceptions of \<open>tf2_ros\<close>), the
  Python builtins the node calls (\<open>list.index\<close>, indexing \<open>xs[i]\<close>, \<open>str\<close> of an
  integer) as total functions with their failures as values, and the lemmas about
  them that the component theories use.
\<close>

section \<open>Names of the model's types\<close>

text \<open>A ROS time or duration is read as a whole number of nanoseconds.\<close>

type_synonym stamp = int
type_synonym duration = int

section \<open>Exceptions\<close>

text \<open>
  The exceptions of \<open>tf2_ros.Buffer.lookup_transform\<close>: the frame is unknown (or the
  frame graph has a loop), the frame graph is disconnected, the time is outside the
  buffer's history, the frame name is empty or starts with a slash, or the wait for the
  buffer timed out.
\<close>

datatype tf_error = LookupException | ConnectivityException
  | ExtrapolationException | InvalidArgumentException | TimeoutException

datatype exc = ValueError | IndexError | KeyError | TypeError | TfException tf_error

named_theorems py_simps "evaluation rules of the Python builtins of the model"

section \<open>Python list operations\<close>

text \<open>\<open>xs.index(x)\<close>: the position of the first occurrence, \<open>ValueError\<close> if none.\<close>

fun py_index :: "'a list \<Rightarrow> 'a \<Rightarrow> exc + nat" where
  "py_index [] x = Inl ValueError"
| "py_index (y # ys) x =
     (if y = x then Inr 0
      else (case py_index ys x of Inl e \<Rightarrow> Inl e | Inr i \<Rightarrow> Inr (Suc i)))"

text \<open>\<open>xs[i]\<close> for a non-negative index: \<open>IndexError\<close> past the end.\<close>

definition py_get :: "'a list \<Rightarrow> nat \<Rightarrow> exc + 'a" where
  "py_get xs i = (if i < length xs then Inr (xs ! i) else Inl IndexError)"

section \<open>Python \<open>str\<close> and \<open>int\<close> on integers\<close>

definition digit_char :: "nat \<Rightarrow> char" where
  "digit_char d = char_of (48 + d)"

fun digits10 :: "nat \<Rightarrow> string" where
  "digits10 n =
     (if n < 10 then [digit_char n] else digits10 (n div 10) @ [digit_char (n mod 10)])"

declare digits10.simps [simp del]

text \<open>\<open>str(i)\<close> for a Python integer: its decimal digits, with a leading minus sign.\<close>

definition py_str_int :: "int \<Rightarrow> string" where
  "py_str_int i =
     (if i < 0 then CHR ''-'' # digits10 (nat (- i)) else digits10 (nat i))"

text \<open>\<open>int(s)\<close> on a string of decimal digits with an optional sign; \<open>ValueError\<close> otherwise.\<close>

definition is_digit :: "char \<Rightarrow> bool" where
  "is_digit c \<longleftrightarrow> 48 \<le> (of_char c :: nat) \<and> (of_char c :: nat) \<le> 57"

fun parse_digits :: "nat \<Rightarrow> string \<Rightarrow> nat option" where
  "parse_digits acc [] = Some acc"
| "parse_digits acc (c # cs) =
     (if is_digit c then parse_digits (10 * acc + (of_char c - 48)) cs else None)"

definition py_int :: "string \<Rightarrow> exc + int" where
  "py_int s =
     (case s of
        [] \<Rightarrow> Inl ValueError
      | c # cs \<Rightarrow>
          (if c = CHR ''-'' then
             (if cs = [] then Inl ValueError
              else (case parse_digits 0 cs of None \<Rightarrow> Inl ValueError | Some n \<Rightarrow> Inr (- int n)))
           else (case parse_digits 0 s of None \<Rightarrow> Inl ValueError | Some n \<Rightarrow> Inr (int n))))"

text \<open>\<open>sep.join(xs)\<close>, and \<open>str(xs)\<close> for a list of integers: \<open>'[11, 13]'\<close>.\<close>

fun py_join :: "string \<Rightarrow> string list \<Rightarrow> string" where
  "py_join sep [] = []"
| "py_join sep [x] = x"
| "py_join sep (x # y # xs) = x @ sep @ py_join sep (y # xs)"

definition py_str_int_list :: "int list \<Rightarrow> string" where
  "py_str_int_list xs = ''['' @ py_join '', '' (map py_str_int xs) @ '']''"

section \<open>Lemmas on the list operations\<close>

lemma py_get_simps [py_simps]:
  "py_get [] i = Inl IndexError"
  "py_get (x # xs) 0 = Inr x"
  "py_get (x # xs) (Suc i) = py_get xs i"
  by (simp_all add: py_get_def)

lemma py_get_Inr_iff: "py_get xs i = Inr v \<longleftrightarrow> i < length xs \<and> xs ! i = v"
  by (auto simp: py_get_def)

lemma py_get_Inl_iff: "py_get xs i = Inl e \<longleftrightarrow> length xs \<le> i \<and> e = IndexError"
  by (auto simp: py_get_def)

lemma py_index_Inl: "py_index xs x = Inl e \<Longrightarrow> e = ValueError \<and> x \<notin> set xs"
  by (induction xs) (auto split: if_splits sum.splits)

lemma py_index_Inr:
  "py_index xs x = Inr i \<Longrightarrow> i < length xs \<and> xs ! i = x \<and> x \<notin> set (take i xs)"
proof (induction xs arbitrary: i)
  case Nil
  then show ?case by simp
next
  case (Cons y ys)
  then show ?case by (cases "y = x") (auto split: sum.splits)
qed

lemma py_index_member: "x \<in> set xs \<Longrightarrow> \<exists>i. py_index xs x = Inr i"
  by (induction xs) (auto split: sum.splits)

lemma py_index_distinct:
  "distinct xs \<Longrightarrow> i < length xs \<Longrightarrow> py_index xs (xs ! i) = Inr i"
proof (induction xs arbitrary: i)
  case Nil
  then show ?case by simp
next
  case (Cons y ys)
  then show ?case by (cases i) (auto simp: nth_mem)
qed

section \<open>Round trip of \<open>str\<close> and \<open>int\<close>\<close>

lemma of_char_digit_char: "d < 10 \<Longrightarrow> (of_char (digit_char d) :: nat) = 48 + d"
  by (simp add: digit_char_def)

lemma is_digit_digit_char: "d < 10 \<Longrightarrow> is_digit (digit_char d)"
  by (simp add: is_digit_def of_char_digit_char)

lemma digit_char_not_minus: "d < 10 \<Longrightarrow> digit_char d \<noteq> CHR ''-''"
proof
  assume "d < 10" "digit_char d = CHR ''-''"
  then have "(of_char (digit_char d) :: nat) = of_char CHR ''-''" by simp
  with \<open>d < 10\<close> show False by (simp add: of_char_digit_char)
qed

lemma parse_digits_append:
  "parse_digits acc (xs @ ys) =
     (case parse_digits acc xs of None \<Rightarrow> None | Some a \<Rightarrow> parse_digits a ys)"
  by (induction acc xs rule: parse_digits.induct) auto

lemma digits10_nonempty: "digits10 n \<noteq> []"
  by (subst digits10.simps) simp

lemma parse_digits10:
  "parse_digits acc (digits10 n) = Some (acc * 10 ^ length (digits10 n) + n)"
proof (induction n arbitrary: acc rule: digits10.induct)
  case (1 n)
  show ?case
  proof (cases "n < 10")
    case True
    then show ?thesis
      by (subst (1 2) digits10.simps) (simp add: is_digit_digit_char of_char_digit_char)
  next
    case False
    have d: "n mod 10 < 10" by simp
    have "parse_digits acc (digits10 n)
        = parse_digits acc (digits10 (n div 10) @ [digit_char (n mod 10)])"
      using False by (subst digits10.simps) simp
    also have "\<dots> = Some (10 * (acc * 10 ^ length (digits10 (n div 10)) + n div 10) + n mod 10)"
      using "1" False d
      by (simp add: parse_digits_append is_digit_digit_char of_char_digit_char)
    also have "\<dots> = Some (acc * 10 ^ length (digits10 n) + n)"
      using False by (subst (2) digits10.simps) simp
    finally show ?thesis .
  qed
qed

lemma digits10_hd: "\<exists>d cs. digits10 n = digit_char d # cs \<and> d < 10"
proof (induction n rule: digits10.induct)
  case (1 n)
  then show ?case
    by (cases "n < 10") (subst digits10.simps; force simp: digits10_nonempty)+
qed

lemma py_int_unsigned:
  "s = c # cs \<Longrightarrow> c \<noteq> CHR ''-'' \<Longrightarrow>
   py_int s = (case parse_digits 0 s of None \<Rightarrow> Inl ValueError | Some n \<Rightarrow> Inr (int n))"
  by (simp add: py_int_def)

lemma py_int_py_str_int: "py_int (py_str_int i) = Inr i"
proof -
  have p: "parse_digits 0 (digits10 n) = Some n" for n
    using parse_digits10 [of 0 n] by simp
  show ?thesis
  proof (cases "i < 0")
    case True
    then show ?thesis
      by (simp add: py_str_int_def py_int_def p digits10_nonempty)
  next
    case False
    obtain d cs where h: "digits10 (nat i) = digit_char d # cs" "d < 10"
      using digits10_hd by blast
    have "py_int (digits10 (nat i)) = Inr (int (nat i))"
      using py_int_unsigned [OF h(1) digit_char_not_minus [OF h(2)]] by (simp add: p)
    with False show ?thesis by (simp add: py_str_int_def)
  qed
qed

lemma py_str_int_inj: "py_str_int a = py_str_int b \<longleftrightarrow> a = b"
  by (metis py_int_py_str_int sum.inject(2))

text \<open>Dropping a prefix of a sorted list by a downward-closed test is filtering by its
  negation.\<close>

lemma dropWhile_sorted_filter:
  "sorted_wrt R xs \<Longrightarrow> (\<And>a b. R a b \<Longrightarrow> P b \<Longrightarrow> P a) \<Longrightarrow> dropWhile P xs = filter (\<lambda>x. \<not> P x) xs"
  by (induction xs) (auto intro!: filter_True [symmetric])

text \<open>A lower bound on \<open>cos\<close> from its Taylor expansion, for the numeric
  orientation facts of the scenarios.\<close>

lemma cos_taylor6_lower:
  fixes x :: real
  assumes "0 < x"
  shows "1 - x ^ 2 / 2 + x ^ 4 / 24 - x ^ 6 / 720 \<le> cos x"
proof -
  obtain t where ct: "cos x = (\<Sum>m<6. cos_coeff m * x ^ m) + (cos (t + 1/2 * real 6 * pi) / fact 6) * x ^ 6"
    using Maclaurin_cos_expansion2 [OF assms, of 6] by auto
  have s: "(\<Sum>m<6. cos_coeff m * x ^ m) = 1 - x ^ 2 / 2 + x ^ 4 / 24"
    by (simp add: lessThan_nat_numeral cos_coeff_def fact_numeral)
  have "x ^ 6 * (- 1) \<le> x ^ 6 * cos (t + 1/2 * real 6 * pi)"
    by (rule mult_left_mono) simp_all
  then have "- (x ^ 6) / 720 \<le> (cos (t + 1/2 * real 6 * pi) / fact 6) * x ^ 6"
    by (simp add: fact_numeral mult.commute)
  then show ?thesis using ct s by linarith
qed

end
