(* ===== verification/Msgs.thy ===== *)
theory Msgs
  imports Prelude
begin

text \<open>
  The ROS message types the node reads and writes (\<open>std_msgs/Header\<close>,
  \<open>geometry_msgs\<close> \<open>Vector3\<close>, \<open>Point\<close>, \<open>Quaternion\<close>, \<open>Transform\<close>,
  \<open>TransformStamped\<close>, \<open>Pose\<close>, \<open>PoseStamped\<close>, \<open>PoseWithCovariance\<close>,
  \<open>PoseWithCovarianceStamped\<close>, and \<open>aruco_msgs/Marker\<close>) as records, with the
  defaults that the generated Python classes (genpy) give a message built with no
  arguments, and the positional constructor \<open>Vector3(*xs)\<close> with its
  \<open>TypeError\<close>. Floating-point fields are reals.
\<close>

record header =
  hdr_seq :: nat
  hdr_stamp :: stamp
  hdr_frame_id :: string

text \<open>\<open>Vector3\<close> and \<open>Point\<close> have the same three fields; the node assigns one to
  the other (\<open>pose.position = transform.translation\<close>), so they share one record.\<close>

record vec3 =
  vx :: real
  vy :: real
  vz :: real

record quat =
  qx :: real
  qy :: real
  qz :: real
  qw :: real

record transform =
  translation :: vec3
  rotation :: quat

record transform_stamped =
  ts_header :: header
  child_frame_id :: string
  ts_transform :: transform

record pose =
  position :: vec3
  orientation :: quat

record pose_stamped =
  ps_header :: header
  ps_pose :: pose

record pose_with_covariance =
  pwc_pose :: pose
  covariance :: "real list"

record pose_with_covariance_stamped =
  pwcs_header :: header
  pwcs_pose :: pose_with_covariance

text \<open>\<open>aruco_msgs/Marker\<close>: the detected marker's \<open>uint32\<close> id is a 32-bit word.\<close>

record marker =
  m_header :: header
  m_id :: "32 word"
  m_pose :: pose_with_covariance
  m_confidence :: real

section \<open>Default messages\<close>

text \<open>A genpy message built with no arguments has every number zero, every string
  empty, and a zero-filled fixed-size array; a default \<open>Quaternion\<close> is
  \<open>(0, 0, 0, 0)\<close>, not the identity.\<close>

definition default_header :: header where
  "default_header = \<lparr>hdr_seq = 0, hdr_stamp = 0, hdr_frame_id = []\<rparr>"

definition default_vec3 :: vec3 where
  "default_vec3 = \<lparr>vx = 0, vy = 0, vz = 0\<rparr>"

definition default_quat :: quat where
  "default_quat = \<lparr>qx = 0, qy = 0, qz = 0, qw = 0\<rparr>"

definition default_pose :: pose where
  "default_pose = \<lparr>position = default_vec3, orientation = default_quat\<rparr>"

definition default_transform_stamped :: transform_stamped where
  "default_transform_stamped =
     \<lparr>ts_header = default_header, child_frame_id = [],
      ts_transform = \<lparr>translation = default_vec3, rotation = default_quat\<rparr>\<rparr>"

definition default_pose_stamped :: pose_stamped where
  "default_pose_stamped = \<lparr>ps_header = default_header, ps_pose = default_pose\<rparr>"

definition default_pwcs :: pose_with_covariance_stamped where
  "default_pwcs =
     \<lparr>pwcs_header = default_header,
      pwcs_pose = \<lparr>pwc_pose = default_pose, covariance = replicate 36 0\<rparr>\<rparr>"

section \<open>Positional constructors\<close>

text \<open>
  genpy's \<open>Message.__init__(*args)\<close>: no arguments give the default message; otherwise
  the number of arguments must be the number of fields, or it raises \<open>TypeError\<close>.
\<close>

definition mk_vector3 :: "real list \<Rightarrow> exc + vec3" where
  "mk_vector3 args =
     (if args = [] then Inr default_vec3
      else if length args = 3 then Inr \<lparr>vx = args ! 0, vy = args ! 1, vz = args ! 2\<rparr>
      else Inl TypeError)"

lemma mk_vector3_simps [py_simps]:
  "mk_vector3 [a, b, c] = Inr \<lparr>vx = a, vy = b, vz = c\<rparr>"
  "mk_vector3 [] = Inr default_vec3"
  by (simp_all add: mk_vector3_def)

lemma mk_vector3_Inl: "mk_vector3 args = Inl e \<longleftrightarrow> args \<noteq> [] \<and> length args \<noteq> 3 \<and> e = TypeError"
  by (auto simp: mk_vector3_def)

end
