(* ===== verification/Kdl.thy ===== *)
theory Kdl
  imports Msgs
begin

text \<open>
  The geometry libraries the node calls, modelled after their sources since they are
  not part of this repository: \<open>tf.transformations.quaternion_from_euler\<close> (static
  \<open>sxyz\<close> axes), PyKDL's \<open>Rotation\<close> (a 3x3 matrix), \<open>Vector\<close>, \<open>Frame\<close> and
  their products, \<open>Rotation.Quaternion\<close> and \<open>Rotation.GetQuaternion\<close>, and
  \<open>tf2_geometry_msgs.do_transform_pose\<close> with \<open>transform_to_kdl\<close>.
  Next to them, the quaternion algebra they implement (Hamilton product, rotation of a
  vector by conjugation) serves as their abstract specification; the lemmas of this
  theory show that the matrix code refines it.
\<close>

section \<open>tf.transformations\<close>

text \<open>\<open>quaternion_from_euler(ai, aj, ak)\<close> with the default axes \<open>'sxyz'\<close>
  (\<open>firstaxis = 0\<close>, \<open>parity = repetition = frame = 0\<close>); the result array is
  \<open>(x, y, z, w)\<close>.\<close>

definition quaternion_from_euler :: "real \<Rightarrow> real \<Rightarrow> real \<Rightarrow> quat" where
  "quaternion_from_euler ai aj ak =
     (let ai = ai / 2; aj = aj / 2; ak = ak / 2;
          ci = cos ai; si = sin ai; cj = cos aj; sj = sin aj; ck = cos ak; sk = sin ak;
          cc = ci * ck; cs = ci * sk; sc = si * ck; ss = si * sk
      in \<lparr>qx = cj * sc - sj * cs, qy = cj * ss + sj * cc,
          qz = cj * cs - sj * sc, qw = cj * cc + sj * ss\<rparr>)"

text \<open>The call \<open>quaternion_from_euler(*xs)\<close>: three angles; a fourth argument binds
  \<open>axes\<close>, which a number is not (\<open>KeyError\<close>); any other count is a
  \<open>TypeError\<close>.\<close>

definition euler_call :: "real list \<Rightarrow> exc + quat" where
  "euler_call xs =
     (if length xs = 3 then Inr (quaternion_from_euler (xs ! 0) (xs ! 1) (xs ! 2))
      else if length xs = 4 then Inl KeyError
      else Inl TypeError)"

section \<open>PyKDL\<close>

text \<open>\<open>KDL::Rotation\<close>: nine entries, row by row, as its constructor takes them.\<close>

datatype rotation = Rotation real real real real real real real real real

text \<open>\<open>Rotation::Quaternion(x, y, z, w)\<close>; it does not normalise its argument.\<close>

definition rot_quaternion :: "real \<Rightarrow> real \<Rightarrow> real \<Rightarrow> real \<Rightarrow> rotation" where
  "rot_quaternion x y z w =
     (let x2 = x * x; y2 = y * y; z2 = z * z; w2 = w * w
      in Rotation (w2 + x2 - y2 - z2) (2 * x * y - 2 * w * z) (2 * x * z + 2 * w * y)
                  (2 * x * y + 2 * w * z) (w2 - x2 + y2 - z2) (2 * y * z - 2 * w * x)
                  (2 * x * z - 2 * w * y) (2 * y * z + 2 * w * x) (w2 - x2 - y2 + z2))"

fun rot_mul :: "rotation \<Rightarrow> rotation \<Rightarrow> rotation" where
  "rot_mul (Rotation a00 a01 a02 a10 a11 a12 a20 a21 a22)
           (Rotation b00 b01 b02 b10 b11 b12 b20 b21 b22) =
     Rotation (a00 * b00 + a01 * b10 + a02 * b20) (a00 * b01 + a01 * b11 + a02 * b21)
              (a00 * b02 + a01 * b12 + a02 * b22)
              (a10 * b00 + a11 * b10 + a12 * b20) (a10 * b01 + a11 * b11 + a12 * b21)
              (a10 * b02 + a11 * b12 + a12 * b22)
              (a20 * b00 + a21 * b10 + a22 * b20) (a20 * b01 + a21 * b11 + a22 * b21)
              (a20 * b02 + a21 * b12 + a22 * b22)"

fun rot_apply :: "rotation \<Rightarrow> vec3 \<Rightarrow> vec3" where
  "rot_apply (Rotation a00 a01 a02 a10 a11 a12 a20 a21 a22) v =
     \<lparr>vx = a00 * vx v + a01 * vy v + a02 * vz v,
      vy = a10 * vx v + a11 * vy v + a12 * vz v,
      vz = a20 * vx v + a21 * vy v + a22 * vz v\<rparr>"

definition vec_add :: "vec3 \<Rightarrow> vec3 \<Rightarrow> vec3" where
  "vec_add a b = \<lparr>vx = vx a + vx b, vy = vy a + vy b, vz = vz a + vz b\<rparr>"

text \<open>\<open>Rotation::GetQuaternion\<close>: the branch on the trace and on the largest
  diagonal entry, with KDL's \<open>epsilon = 1e-12\<close>.\<close>

fun get_quaternion :: "rotation \<Rightarrow> quat" where
  "get_quaternion (Rotation a00 a01 a02 a10 a11 a12 a20 a21 a22) =
     (let trace = a00 + a11 + a22 in
      if trace > 1 / 10 ^ 12 then
        (let s = 1 / 2 / sqrt (trace + 1)
         in \<lparr>qx = (a21 - a12) * s, qy = (a02 - a20) * s, qz = (a10 - a01) * s, qw = 1 / 4 / s\<rparr>)
      else if a00 > a11 \<and> a00 > a22 then
        (let s = 2 * sqrt (1 + a00 - a11 - a22)
         in \<lparr>qx = s / 4, qy = (a01 + a10) / s, qz = (a02 + a20) / s, qw = (a21 - a12) / s\<rparr>)
      else if a11 > a22 then
        (let s = 2 * sqrt (1 + a11 - a00 - a22)
         in \<lparr>qx = (a01 + a10) / s, qy = s / 4, qz = (a12 + a21) / s, qw = (a02 - a20) / s\<rparr>)
      else
        (let s = 2 * sqrt (1 + a22 - a00 - a11)
         in \<lparr>qx = (a02 + a20) / s, qy = (a12 + a21) / s, qz = s / 4, qw = (a10 - a01) / s\<rparr>))"

text \<open>\<open>KDL::Frame\<close>: a rotation \<open>M\<close> and a position \<open>p\<close>;
  \<open>F * G = Frame(F.M * G.M, F.M * G.p + F.p)\<close>.\<close>

record kdl_frame =
  fM :: rotation
  fp :: vec3

definition frame_mul :: "kdl_frame \<Rightarrow> kdl_frame \<Rightarrow> kdl_frame" where
  "frame_mul f g = \<lparr>fM = rot_mul (fM f) (fM g), fp = vec_add (rot_apply (fM f) (fp g)) (fp f)\<rparr>"

definition rot_of :: "quat \<Rightarrow> rotation" where
  "rot_of q = rot_quaternion (qx q) (qy q) (qz q) (qw q)"

section \<open>tf2_geometry_msgs\<close>

definition transform_to_kdl :: "transform_stamped \<Rightarrow> kdl_frame" where
  "transform_to_kdl t =
     \<lparr>fM = rot_of (rotation (ts_transform t)), fp = translation (ts_transform t)\<rparr>"

text \<open>\<open>do_transform_pose(pose, transform)\<close>: the frame of the transform times the
  frame of the pose; the result carries the transform's header object.\<close>

definition do_transform_pose :: "pose_stamped \<Rightarrow> transform_stamped \<Rightarrow> pose_stamped" where
  "do_transform_pose p t =
     (let f = frame_mul (transform_to_kdl t)
                \<lparr>fM = rot_of (orientation (ps_pose p)), fp = position (ps_pose p)\<rparr>
      in \<lparr>ps_header = ts_header t,
          ps_pose = \<lparr>position = fp f, orientation = get_quaternion (fM f)\<rparr>\<rparr>)"

section \<open>Quaternion algebra: the abstract specification\<close>

definition qmul :: "quat \<Rightarrow> quat \<Rightarrow> quat" where
  "qmul a b =
     \<lparr>qx = qw a * qx b + qx a * qw b + qy a * qz b - qz a * qy b,
      qy = qw a * qy b - qx a * qz b + qy a * qw b + qz a * qx b,
      qz = qw a * qz b + qx a * qy b - qy a * qx b + qz a * qw b,
      qw = qw a * qw b - qx a * qx b - qy a * qy b - qz a * qz b\<rparr>"

definition qconj :: "quat \<Rightarrow> quat" where
  "qconj q = \<lparr>qx = - qx q, qy = - qy q, qz = - qz q, qw = qw q\<rparr>"

definition qneg :: "quat \<Rightarrow> quat" where
  "qneg q = \<lparr>qx = - qx q, qy = - qy q, qz = - qz q, qw = - qw q\<rparr>"

definition qnorm2 :: "quat \<Rightarrow> real" where
  "qnorm2 q = qx q ^ 2 + qy q ^ 2 + qz q ^ 2 + qw q ^ 2"

definition pure :: "vec3 \<Rightarrow> quat" where
  "pure v = \<lparr>qx = vx v, qy = vy v, qz = vz v, qw = 0\<rparr>"

definition vec_part :: "quat \<Rightarrow> vec3" where
  "vec_part q = \<lparr>vx = qx q, vy = qy q, vz = qz q\<rparr>"

text \<open>A point rotated by a quaternion: \<open>q v q*\<close>.\<close>

definition quat_rotate :: "quat \<Rightarrow> vec3 \<Rightarrow> vec3" where
  "quat_rotate q v = vec_part (qmul (qmul q (pure v)) (qconj q))"

definition frame_apply :: "kdl_frame \<Rightarrow> vec3 \<Rightarrow> vec3" where
  "frame_apply f v = vec_add (rot_apply (fM f) v) (fp f)"

text \<open>Sign of a quaternion chosen by the sign of one of its components, as
  \<open>GetQuaternion\<close> chooses it.\<close>

definition qsign :: "real \<Rightarrow> quat \<Rightarrow> quat" where
  "qsign c q = (if c > 0 then q else qneg q)"

text \<open>Reference definition for the Euler angles: the rotation by angle \<open>a\<close> about a unit
  axis \<open>u\<close> is the quaternion \<open>(sin (a/2) u, cos (a/2))\<close>.\<close>

definition axis_quat :: "real \<Rightarrow> vec3 \<Rightarrow> quat" where
  "axis_quat a u =
     \<lparr>qx = sin (a / 2) * vx u, qy = sin (a / 2) * vy u, qz = sin (a / 2) * vz u, qw = cos (a / 2)\<rparr>"

section \<open>The matrix code refines the quaternion algebra\<close>

named_theorems geom_defs "definitions unfolded by the geometry lemmas"
declare rot_of_def [geom_defs] rot_quaternion_def [geom_defs] qmul_def [geom_defs]
  qconj_def [geom_defs] pure_def [geom_defs] vec_part_def [geom_defs] quat_rotate_def [geom_defs]
  qneg_def [geom_defs] qnorm2_def [geom_defs]

text \<open>\<open>Rotation::Quaternion\<close> turns the Hamilton product into the matrix product
  and applies a point as the conjugation \<open>q v q*\<close>; both hold for any
  quaternion, unit or not, since the matrix is the homogeneous quadratic form.\<close>

lemma rot_of_qmul: "rot_of (qmul a b) = rot_mul (rot_of a) (rot_of b)"
  by (simp add: geom_defs Let_def) algebra

lemma rot_apply_rot_of: "rot_apply (rot_of q) v = quat_rotate q v"
  by (simp add: geom_defs Let_def) algebra

lemma rot_of_qneg: "rot_of (qneg q) = rot_of q"
  by (simp add: geom_defs Let_def)

lemma qnorm2_qmul: "qnorm2 (qmul a b) = qnorm2 a * qnorm2 b"
  by (simp add: geom_defs) algebra

lemma euler_norm_poly:
  fixes ci si cj sj ck sk :: real
  assumes "ci ^ 2 + si ^ 2 = 1" "cj ^ 2 + sj ^ 2 = 1" "ck ^ 2 + sk ^ 2 = 1"
  shows "(cj * (si * ck) - sj * (ci * sk))\<^sup>2 + (cj * (si * sk) + sj * (ci * ck))\<^sup>2 +
         (cj * (ci * sk) - sj * (si * ck))\<^sup>2 + (cj * (ci * ck) + sj * (si * sk))\<^sup>2 = 1"
  using assms by algebra

text \<open>\<open>quaternion_from_euler\<close> always returns a unit quaternion.\<close>

lemma qnorm2_euler: "qnorm2 (quaternion_from_euler a b c) = 1"
  by (simp add: qnorm2_def quaternion_from_euler_def Let_def euler_norm_poly)

text \<open>Frames act on points, and the KDL frame product is composition of the actions.\<close>

lemma frame_apply_mul: "frame_apply (frame_mul f g) v = frame_apply f (frame_apply g v)"
  by (cases "fM f"; cases "fM g") (simp add: frame_apply_def frame_mul_def vec_add_def algebra_simps)

section \<open>\<open>GetQuaternion\<close> inverts \<open>Rotation::Quaternion\<close> up to sign\<close>

text \<open>One lemma per branch of \<open>GetQuaternion\<close>: the square root is that of
  \<open>(2 c)\<^sup>2\<close> for the component \<open>c\<close> the branch divides by, so the result is
  the quaternion scaled by the sign of \<open>c\<close>.\<close>

lemma sqrt_sq2: "a = (2 * c) ^ 2 \<Longrightarrow> sqrt a = 2 * \<bar>c\<bar>"
  by (simp only: real_sqrt_abs abs_mult)

lemma gq_trace:
  assumes t: "a00 + a11 + a22 > 1 / 10 ^ 12" and t1: "a00 + a11 + a22 + 1 = (2 * w) ^ 2"
    and "a21 - a12 = 4 * w * x" "a02 - a20 = 4 * w * y" "a10 - a01 = 4 * w * z"
  shows "get_quaternion (Rotation a00 a01 a02 a10 a11 a12 a20 a21 a22)
         = qsign w \<lparr>qx = x, qy = y, qz = z, qw = w\<rparr>"
proof -
  have w: "w \<noteq> 0" using t t1 by auto
  have s: "sqrt (a00 + a11 + a22 + 1) = 2 * \<bar>w\<bar>" using t1 by (rule sqrt_sq2)
  show ?thesis
  proof (cases "w > 0")
    case True
    with t s assms(3-5) show ?thesis by (simp add: Let_def qsign_def field_simps)
  next
    case False
    with w t s assms(3-5) show ?thesis by (simp add: Let_def qsign_def qneg_def field_simps)
  qed
qed

lemma gq_x:
  assumes t: "\<not> a00 + a11 + a22 > 1 / 10 ^ 12" and c: "a00 > a11" "a00 > a22"
    and t1: "1 + a00 - a11 - a22 = (2 * x) ^ 2" and nz: "x \<noteq> 0"
    and "a21 - a12 = 4 * w * x" "a01 + a10 = 4 * x * y" "a02 + a20 = 4 * x * z"
  shows "get_quaternion (Rotation a00 a01 a02 a10 a11 a12 a20 a21 a22)
         = qsign x \<lparr>qx = x, qy = y, qz = z, qw = w\<rparr>"
proof -
  have s: "sqrt (1 + a00 - a11 - a22) = 2 * \<bar>x\<bar>" using t1 by (rule sqrt_sq2)
  show ?thesis
  proof (cases "x > 0")
    case True
    with t c s assms(6-8) show ?thesis by (simp add: Let_def qsign_def field_simps)
  next
    case False
    with nz t c s assms(6-8) show ?thesis by (simp add: Let_def qsign_def qneg_def field_simps)
  qed
qed

lemma gq_y:
  assumes t: "\<not> a00 + a11 + a22 > 1 / 10 ^ 12" and c: "\<not> (a00 > a11 \<and> a00 > a22)" "a11 > a22"
    and t1: "1 + a11 - a00 - a22 = (2 * y) ^ 2" and nz: "y \<noteq> 0"
    and "a02 - a20 = 4 * w * y" "a01 + a10 = 4 * x * y" "a12 + a21 = 4 * y * z"
  shows "get_quaternion (Rotation a00 a01 a02 a10 a11 a12 a20 a21 a22)
         = qsign y \<lparr>qx = x, qy = y, qz = z, qw = w\<rparr>"
proof -
  have nc: "(a11 < a00 \<and> a22 < a00) = False" using c(1) by blast
  have s: "sqrt (1 + a11 - a00 - a22) = 2 * \<bar>y\<bar>" using t1 by (rule sqrt_sq2)
  show ?thesis
  proof (cases "y > 0")
    case True
    with t c(2) s assms(6-8) show ?thesis by (simp add: nc Let_def qsign_def field_simps)
  next
    case False
    with nz t c(2) s assms(6-8) show ?thesis by (simp add: nc Let_def qsign_def qneg_def field_simps)
  qed
qed

lemma gq_z:
  assumes t: "\<not> a00 + a11 + a22 > 1 / 10 ^ 12" and c: "\<not> (a00 > a11 \<and> a00 > a22)" "\<not> a11 > a22"
    and t1: "1 + a22 - a00 - a11 = (2 * z) ^ 2" and nz: "z \<noteq> 0"
    and "a10 - a01 = 4 * w * z" "a02 + a20 = 4 * x * z" "a12 + a21 = 4 * y * z"
  shows "get_quaternion (Rotation a00 a01 a02 a10 a11 a12 a20 a21 a22)
         = qsign z \<lparr>qx = x, qy = y, qz = z, qw = w\<rparr>"
proof -
  have nc: "(a11 < a00 \<and> a22 < a00) = False" using c(1) by blast
  have s: "sqrt (1 + a22 - a00 - a11) = 2 * \<bar>z\<bar>" using t1 by (rule sqrt_sq2)
  show ?thesis
  proof (cases "z > 0")
    case True
    with t c(2) s assms(6-8) show ?thesis by (simp add: nc Let_def qsign_def field_simps)
  next
    case False
    with nz t c(2) s assms(6-8) show ?thesis by (simp add: nc Let_def qsign_def qneg_def field_simps)
  qed
qed

lemma get_quaternion_rot_of:
  assumes "qnorm2 q = 1"
  shows "get_quaternion (rot_of q) = q \<or> get_quaternion (rot_of q) = qneg q"
proof -
  obtain x y z w where q: "q = \<lparr>qx = x, qy = y, qz = z, qw = w\<rparr>" by (cases q) simp
  have n: "x ^ 2 + y ^ 2 + z ^ 2 + w ^ 2 = 1" using assms by (simp add: q qnorm2_def)
  define a00 a01 a02 a10 a11 a12 a20 a21 a22 where
    "a00 = w * w + x * x - y * y - z * z" and "a01 = 2 * x * y - 2 * w * z"
    and "a02 = 2 * x * z + 2 * w * y" and "a10 = 2 * x * y + 2 * w * z"
    and "a11 = w * w - x * x + y * y - z * z" and "a12 = 2 * y * z - 2 * w * x"
    and "a20 = 2 * x * z - 2 * w * y" and "a21 = 2 * y * z + 2 * w * x"
    and "a22 = w * w - x * x - y * y + z * z"
  note a = a00_def a01_def a02_def a10_def a11_def a12_def a20_def a21_def a22_def
  have R: "rot_of q = Rotation a00 a01 a02 a10 a11 a12 a20 a21 a22"
    by (simp add: q a rot_of_def rot_quaternion_def Let_def)
  have sg: "qsign c q = q \<or> qsign c q = qneg q" for c by (simp add: qsign_def)
  have "\<exists>c. get_quaternion (Rotation a00 a01 a02 a10 a11 a12 a20 a21 a22) = qsign c q"
  proof (cases "a00 + a11 + a22 > 1 / 10 ^ 12")
    case True
    have t1: "a00 + a11 + a22 + 1 = (2 * w) ^ 2" using n unfolding a by algebra
    have "get_quaternion (Rotation a00 a01 a02 a10 a11 a12 a20 a21 a22) = qsign w q"
      unfolding q by (rule gq_trace [OF True t1]) (unfold a; algebra)+
    then show ?thesis ..
  next
    case t: False
    show ?thesis
    proof (cases "a00 > a11 \<and> a00 > a22")
      case True
      have t1: "1 + a00 - a11 - a22 = (2 * x) ^ 2" using n unfolding a by algebra
      have nz: "x \<noteq> 0" using True unfolding a by auto
      have "get_quaternion (Rotation a00 a01 a02 a10 a11 a12 a20 a21 a22) = qsign x q"
        unfolding q by (rule gq_x [OF t conjunct1 [OF True] conjunct2 [OF True] t1 nz])
          (unfold a; algebra)+
      then show ?thesis ..
    next
      case c: False
      show ?thesis
      proof (cases "a11 > a22")
        case True
        have t1: "1 + a11 - a00 - a22 = (2 * y) ^ 2" using n unfolding a by algebra
        have nz: "y \<noteq> 0" using True unfolding a by auto
        have "get_quaternion (Rotation a00 a01 a02 a10 a11 a12 a20 a21 a22) = qsign y q"
          unfolding q by (rule gq_y [OF t c True t1 nz]) (unfold a; algebra)+
        then show ?thesis ..
      next
        case False
        have t1: "1 + a22 - a00 - a11 = (2 * z) ^ 2" using n unfolding a by algebra
        have nz: "z \<noteq> 0"
        proof
          assume "z = 0"
          with False have "y = 0" unfolding a by (auto simp: not_less mult_le_0_iff)
          with c \<open>z = 0\<close> have "x = 0" unfolding a by (auto simp: not_less mult_le_0_iff)
          with n \<open>y = 0\<close> \<open>z = 0\<close> have "w * w = 1" by (simp add: power2_eq_square)
          with t \<open>x = 0\<close> \<open>y = 0\<close> \<open>z = 0\<close> show False unfolding a by simp
        qed
        have "get_quaternion (Rotation a00 a01 a02 a10 a11 a12 a20 a21 a22) = qsign z q"
          unfolding q by (rule gq_z [OF t c False t1 nz]) (unfold a; algebra)+
        then show ?thesis ..
      qed
    qed
  qed
  with R sg show ?thesis by metis
qed

text \<open>When the trace exceeds \<open>epsilon\<close> and \<open>w > 0\<close>, the sign is exact.\<close>

lemma get_quaternion_rot_of_pos:
  assumes "qnorm2 q = 1" and "1 / 10 ^ 12 < 4 * qw q ^ 2 - 1" and "0 < qw q"
  shows "get_quaternion (rot_of q) = q"
proof -
  obtain x y z w where q: "q = \<lparr>qx = x, qy = y, qz = z, qw = w\<rparr>" by (cases q) simp
  have n: "x ^ 2 + y ^ 2 + z ^ 2 + w ^ 2 = 1" using assms(1) by (simp add: q qnorm2_def)
  define a00 a11 a22 where "a00 = w * w + x * x - y * y - z * z"
    and "a11 = w * w - x * x + y * y - z * z" and "a22 = w * w - x * x - y * y + z * z"
  have R: "rot_of \<lparr>qx = x, qy = y, qz = z, qw = w\<rparr> = Rotation a00 (2 * x * y - 2 * w * z) (2 * x * z + 2 * w * y)
             (2 * x * y + 2 * w * z) a11 (2 * y * z - 2 * w * x)
             (2 * x * z - 2 * w * y) (2 * y * z + 2 * w * x) a22"
    by (simp add: a00_def a11_def a22_def rot_of_def rot_quaternion_def Let_def)
  have tr: "a00 + a11 + a22 = 4 * w ^ 2 - 1"
    unfolding a00_def a11_def a22_def using n by algebra
  have "get_quaternion (rot_of \<lparr>qx = x, qy = y, qz = z, qw = w\<rparr>) = qsign w \<lparr>qx = x, qy = y, qz = z, qw = w\<rparr>"
    unfolding R by (rule gq_trace) (use tr assms(2) n in \<open>simp add: q; algebra\<close>)+
  then show ?thesis using assms(3) by (simp add: q qsign_def)
qed
lemma rot_of_qsign: "rot_of (qsign c q) = rot_of q"
  by (simp add: qsign_def rot_of_qneg)

lemma rot_of_get_quaternion: "qnorm2 q = 1 \<Longrightarrow> rot_of (get_quaternion (rot_of q)) = rot_of q"
  using get_quaternion_rot_of [of q] by (auto simp: rot_of_qneg)

text \<open>Rotating by quaternions composes and is linear.\<close>

lemma quat_rotate_zero [simp]: "quat_rotate q \<lparr>vx = 0, vy = 0, vz = 0\<rparr> = \<lparr>vx = 0, vy = 0, vz = 0\<rparr>"
  by (simp add: quat_rotate_def qmul_def qconj_def pure_def vec_part_def)

lemma qmul_one [simp]: "qmul q \<lparr>qx = 0, qy = 0, qz = 0, qw = 1\<rparr> = q"
  by (simp add: qmul_def)

lemma vec_add_zero [simp]: "vec_add \<lparr>vx = 0, vy = 0, vz = 0\<rparr> v = v"
  by (simp add: vec_add_def)

lemma rot_apply_rot_mul: "rot_apply (rot_mul a b) v = rot_apply a (rot_apply b v)"
  by (cases a; cases b) (simp add: algebra_simps)

lemma quat_rotate_qmul: "quat_rotate a (quat_rotate b v) = quat_rotate (qmul a b) v"
  by (simp flip: rot_apply_rot_of add: rot_of_qmul rot_apply_rot_mul)

lemma qmul_qconj_unit: "qnorm2 q = 1 \<Longrightarrow> qmul (qconj q) q = \<lparr>qx = 0, qy = 0, qz = 0, qw = 1\<rparr>"
  by (simp add: qmul_def qconj_def qnorm2_def power2_eq_square algebra_simps)

lemma quat_rotate_one [simp]: "quat_rotate \<lparr>qx = 0, qy = 0, qz = 0, qw = 1\<rparr> v = v"
  by (simp add: quat_rotate_def qmul_def qconj_def pure_def vec_part_def)

lemma quat_rotate_add: "quat_rotate q (vec_add a b) = vec_add (quat_rotate q a) (quat_rotate q b)"
  by (simp add: quat_rotate_def qmul_def qconj_def pure_def vec_part_def vec_add_def algebra_simps)

lemma quat_rotate_neg:
  "quat_rotate q \<lparr>vx = - vx p, vy = - vy p, vz = - vz p\<rparr> = (let r = quat_rotate q p in \<lparr>vx = - vx r, vy = - vy r, vz = - vz r\<rparr>)"
  by (simp add: quat_rotate_def qmul_def qconj_def pure_def vec_part_def algebra_simps)

text \<open>C17. The closed form of \<open>quaternion_from_euler\<close> with the static \<open>sxyz\<close> axes,
  as line 64 calls it with three angles, is the rotation about \<open>x\<close> by \<open>ai\<close>, then
  about the fixed \<open>y\<close> by \<open>aj\<close>, then about the fixed \<open>z\<close> by \<open>ak\<close>.\<close>

theorem euler_call_axis_product:
  "euler_call [ai, aj, ak] =
     Inr (qmul (axis_quat ak \<lparr>vx = 0, vy = 0, vz = 1\<rparr>)
           (qmul (axis_quat aj \<lparr>vx = 0, vy = 1, vz = 0\<rparr>) (axis_quat ai \<lparr>vx = 1, vy = 0, vz = 0\<rparr>)))"
  by (simp add: euler_call_def quaternion_from_euler_def axis_quat_def qmul_def Let_def algebra_simps)

end
