(* ===== verification/Calibration.thy ===== *)
theory Calibration
  imports Kdl
begin

text \<open>
  The state of the node object \<open>static_svea_gps\<close>
  (\<open>src/src/svea_sensors/scripts/static_svea_pose.py\<close>) as a record, and the
  calibration table it holds: the parallel lists \<open>aruco_id\<close>, \<open>aruco_pose\<close> and
  \<open>aruco_ori\<close>, read by \<open>aruco_id.index(msg.id)\<close> and list indexing. Besides the
  lookup as the callback performs it, the theory gives the table's abstract meaning (a
  map from marker id to a rigid pose), the well-formedness the spec asks of a
  configuration, and the refinement lemma that under it the index-based lookup is the
  map lookup.
\<close>

section \<open>The node's state\<close>

text \<open>The transform buffer (\<open>tf2_ros.Buffer\<close>, filled by a
  \<open>TransformListener\<close> thread) is seen only through
  \<open>lookup_transform(target, source, time, timeout)\<close>.\<close>

type_synonym tf_buffer = "string \<Rightarrow> string \<Rightarrow> stamp \<Rightarrow> duration \<Rightarrow> tf_error + transform_stamped"

text \<open>What \<open>rospy.loginfo\<close> writes: the translation line of the callback, and the
  message of a caught exception.\<close>

datatype log_entry = TranslationUsed nat "real list" | ExceptionLog exc

text \<open>The attributes set in \<open>__init__\<close>. The publisher, the broadcaster and the log are
  represented by what has been sent through them.\<close>

record svea_node =
  aruco_pose_topic :: string
  aruco_id :: "int list"
  aruco_pose :: "real list list"
  aruco_ori :: "real list list"
  frame :: string
  lin_cov :: real
  ang_cov :: real
  buffer :: tf_buffer
  published :: "pose_with_covariance_stamped list"
  sent_transforms :: "transform_stamped list"
  log :: "log_entry list"

section \<open>The constructor\<close>

text \<open>A buffer that holds no transform yet: every lookup fails.\<close>

definition empty_buffer :: tf_buffer where
  "empty_buffer = (\<lambda>target source time timeout. Inl LookupException)"

text \<open>\<open>__init__\<close> (lines 22--47): the topic parameter \<open>~aruco_pose_topic\<close>
  (default \<open>aruco_pose\<close>), the calibration written into the code (ids 11 and 13),
  the frame name \<open>'aruco' + str(self.aruco_id)\<close>, the variances \<open>1e-6\<close>, and a
  fresh buffer, publisher and broadcaster.\<close>

definition static_svea_gps_init :: "string option \<Rightarrow> svea_node" where
  "static_svea_gps_init topic_param =
     \<lparr>aruco_pose_topic = (case topic_param of None \<Rightarrow> ''aruco_pose'' | Some t \<Rightarrow> t),
      aruco_id = [11, 13],
      aruco_pose = [[- 2.615, 0, 0], [1.17, 2.305, 0]],
      aruco_ori = [[1.57, 0, 1.57], [1.57, 0, 0]],
      frame = ''aruco'' @ py_str_int_list [11, 13],
      lin_cov = 1 / 10 ^ 6,
      ang_cov = 1 / 10 ^ 6,
      buffer = empty_buffer,
      published = [],
      sent_transforms = [],
      log = []\<rparr>"

section \<open>Lookups of the callback\<close>

text \<open>\<open>msg.id in self.aruco_id\<close>: the message's \<open>uint32\<close> id compared as a Python
  integer.\<close>

definition is_landmark :: "svea_node \<Rightarrow> 32 word \<Rightarrow> bool" where
  "is_landmark s i \<longleftrightarrow> uint i \<in> set (aruco_id s)"

text \<open>The calibration of one marker as the callback reads it: the index of the id, the
  translation \<open>Vector3(*aruco_pose[idx])\<close> and the rotation
  \<open>quaternion_from_euler(*aruco_ori[idx])\<close>, each step with its exception.\<close>

definition calib_lookup :: "svea_node \<Rightarrow> int \<Rightarrow> exc + (vec3 \<times> quat)" where
  "calib_lookup s i =
     (case py_index (aruco_id s) i of
        Inl e \<Rightarrow> Inl e
      | Inr idx \<Rightarrow>
          (case py_get (aruco_pose s) idx of
             Inl e \<Rightarrow> Inl e
           | Inr p \<Rightarrow>
               (case mk_vector3 p of
                  Inl e \<Rightarrow> Inl e
                | Inr t \<Rightarrow>
                    (case py_get (aruco_ori s) idx of
                       Inl e \<Rightarrow> Inl e
                     | Inr ori \<Rightarrow>
                         (case euler_call ori of Inl e \<Rightarrow> Inl e | Inr q \<Rightarrow> Inr (t, q))))))"

section \<open>The table's abstract meaning\<close>

text \<open>A calibration entry: the marker's pose in the map frame.\<close>

definition calib_entry :: "real list \<Rightarrow> real list \<Rightarrow> vec3 \<times> quat" where
  "calib_entry p ori =
     (\<lparr>vx = p ! 0, vy = p ! 1, vz = p ! 2\<rparr>, quaternion_from_euler (ori ! 0) (ori ! 1) (ori ! 2))"

definition calib_map :: "svea_node \<Rightarrow> int \<rightharpoonup> vec3 \<times> quat" where
  "calib_map s = map_of (zip (aruco_id s) (map2 calib_entry (aruco_pose s) (aruco_ori s)))"

text \<open>What the spec asks of a configuration (section 6): unique ids, one translation
  and one orientation triple per id. The code does not check it.\<close>

definition wf_calibration :: "svea_node \<Rightarrow> bool" where
  "wf_calibration s \<longleftrightarrow>
     distinct (aruco_id s) \<and>
     length (aruco_pose s) = length (aruco_id s) \<and>
     length (aruco_ori s) = length (aruco_id s) \<and>
     (\<forall>p \<in> set (aruco_pose s). length p = 3) \<and>
     (\<forall>ori \<in> set (aruco_ori s). length ori = 3)"

lemma mk_vector3_len3: "length p = 3 \<Longrightarrow> mk_vector3 p = Inr \<lparr>vx = p ! 0, vy = p ! 1, vz = p ! 2\<rparr>"
  by (cases p) (auto simp: mk_vector3_def)

lemma euler_call_len3:
  "length ori = 3 \<Longrightarrow> euler_call ori = Inr (quaternion_from_euler (ori ! 0) (ori ! 1) (ori ! 2))"
  by (simp add: euler_call_def)

text \<open>Under well-formedness, the callback's lookup at the \<open>k\<close>-th id is the
  \<open>k\<close>-th entry.\<close>

lemma calib_lookup_nth:
  assumes "wf_calibration s" "k < length (aruco_id s)"
  shows "calib_lookup s (aruco_id s ! k) = Inr (calib_entry (aruco_pose s ! k) (aruco_ori s ! k))"
  using assms
  by (simp add: wf_calibration_def calib_lookup_def py_index_distinct py_get_def calib_entry_def
      mk_vector3_len3 euler_call_len3 nth_mem)

lemma calib_lookup_absent: "i \<notin> set (aruco_id s) \<Longrightarrow> calib_lookup s i = Inl ValueError"
  by (cases "py_index (aruco_id s) i") (auto simp: calib_lookup_def dest: py_index_Inl py_index_Inr)

lemma map_of_zip_nth:
  "distinct ks \<Longrightarrow> length vs = length ks \<Longrightarrow> k < length ks \<Longrightarrow> map_of (zip ks vs) (ks ! k) = Some (vs ! k)"
proof (induction ks arbitrary: vs k)
  case Nil
  then show ?case by simp
next
  case (Cons a ks)
  then show ?case by (cases vs; cases k) (auto simp: nth_mem)
qed

lemma calib_map_absent: "i \<notin> set (aruco_id s) \<Longrightarrow> calib_map s i = None"
  by (auto simp: calib_map_def map_of_eq_None_iff dest: set_zip_leftD)

section \<open>Properties of the calibration table\<close>

text \<open>C8. Refinement: for a well-formed calibration, the callback's index-based lookup
  (\<open>aruco_id.index\<close>, then the parallel lists) is the lookup in the abstract table,
  and a marker outside the table is the \<open>ValueError\<close> of \<open>index\<close>.\<close>

theorem calib_lookup_refines_map:
  assumes wf: "wf_calibration s"
  shows "calib_lookup s i = (case calib_map s i of None \<Rightarrow> Inl ValueError | Some c \<Rightarrow> Inr c)"
proof (cases "i \<in> set (aruco_id s)")
  case True
  then obtain k where k: "k < length (aruco_id s)" "i = aruco_id s ! k"
    by (metis in_set_conv_nth)
  have "calib_map s i = Some (calib_entry (aruco_pose s ! k) (aruco_ori s ! k))"
    using wf k unfolding calib_map_def wf_calibration_def by (simp add: map_of_zip_nth)
  with calib_lookup_nth [OF wf k(1)] k show ?thesis by simp
next
  case False
  then show ?thesis by (simp add: calib_lookup_absent calib_map_absent)
qed

end
