(* ===== verification/Engine.thy ===== *)
theory Engine
  imports Calibration
begin

text \<open>
  The relocalisation engine: \<open>aruco_callback\<close> of \<open>static_svea_gps\<close>
  (\<open>static_svea_pose.py\<close>, lines 52--78) with the methods it calls,
  \<open>publish_pose\<close> (80--87) and \<open>set_covariance\<close> (98--104), and the unused
  \<open>broadcast_aruco\<close> (89--96). The callback takes the node's state and the
  incoming message and returns both updated: the state gains what was published and
  logged, and the message comes back because the callback writes into its header
  (\<open>adjust_orientation.header = msg.header\<close> shares the header object, and the next
  line sets its \<open>frame_id\<close>). Every exception of the \<open>try\<close> block is a value
  of type \<open>exc\<close> that the \<open>except\<close> branch logs; the effects that happened
  before it stay.
\<close>

section \<open>Pieces of the callback\<close>

text \<open>\<open>'aruco' + str(msg.id)\<close>: the marker's frame in the transform tree.\<close>

definition aruco_frame :: "32 word \<Rightarrow> string" where
  "aruco_frame i = ''aruco'' @ py_str_int (uint i)"

text \<open>\<open>rospy.Duration(0.5)\<close>, the wait for the buffer.\<close>

definition lookup_timeout :: duration where
  "lookup_timeout = 500000000"

text \<open>Lines 58--65: the transform from the map frame to the marker frame, built from
  the calibration; its header is the message's header object, already renamed
  \<open>map\<close>.\<close>

definition adjust_orientation :: "header \<Rightarrow> 32 word \<Rightarrow> vec3 \<Rightarrow> quat \<Rightarrow> transform_stamped" where
  "adjust_orientation h i t q =
     default_transform_stamped
       \<lparr>ts_header := h, child_frame_id := aruco_frame i,
        ts_transform := \<lparr>translation = t, rotation = q\<rparr>\<rparr>"

text \<open>Lines 67--69: the looked-up transform (base_link in the marker frame) read as a
  pose.\<close>

definition inverse_pose :: "transform_stamped \<Rightarrow> pose_stamped" where
  "inverse_pose t =
     default_pose_stamped
       \<lparr>ps_pose := \<lparr>position = translation (ts_transform t),
                     orientation = rotation (ts_transform t)\<rparr>\<rparr>"

text \<open>Line 72: \<open>position.pose.position.z = 0.0\<close>.\<close>

definition clamp_z :: "pose_stamped \<Rightarrow> pose_stamped" where
  "clamp_z p = p\<lparr>ps_pose := (ps_pose p)\<lparr>position := (position (ps_pose p))\<lparr>vz := 0\<rparr>\<rparr>\<rparr>"

text \<open>Lines 58--72 without their exceptions: the corrected pose of base_link in the
  map frame.\<close>

definition corrected_pose :: "transform_stamped \<Rightarrow> header \<Rightarrow> 32 word \<Rightarrow> vec3 \<Rightarrow> quat \<Rightarrow> pose_stamped" where
  "corrected_pose tr h i t q = clamp_z (do_transform_pose (inverse_pose tr) (adjust_orientation h i t q))"

section \<open>The node's methods\<close>

definition set_covariance :: "svea_node \<Rightarrow> real list" where
  "set_covariance s =
     [lin_cov s, 0, 0, 0, 0, 0,
      0, lin_cov s, 0, 0, 0, 0,
      0, 0, lin_cov s, 0, 0, 0,
      0, 0, 0, ang_cov s, 0, 0,
      0, 0, 0, 0, ang_cov s, 0,
      0, 0, 0, 0, 0, ang_cov s]"

text \<open>The message \<open>publish_pose\<close> builds and sends on \<open>/global/set_pose\<close>.\<close>

definition pose_msg :: "svea_node \<Rightarrow> vec3 \<Rightarrow> quat \<Rightarrow> stamp \<Rightarrow> pose_with_covariance_stamped" where
  "pose_msg s t q time =
     default_pwcs
       \<lparr>pwcs_header := default_header\<lparr>hdr_stamp := time, hdr_frame_id := ''map''\<rparr>,
        pwcs_pose := \<lparr>pwc_pose = \<lparr>position = t, orientation = q\<rparr>, covariance = set_covariance s\<rparr>\<rparr>"

definition publish_pose :: "vec3 \<Rightarrow> quat \<Rightarrow> stamp \<Rightarrow> svea_node \<Rightarrow> svea_node" where
  "publish_pose t q time s = s\<lparr>published := published s @ [pose_msg s t q time]\<rparr>"

definition broadcast_aruco :: "vec3 \<Rightarrow> quat \<Rightarrow> stamp \<Rightarrow> svea_node \<Rightarrow> svea_node" where
  "broadcast_aruco t q time s =
     s\<lparr>sent_transforms := sent_transforms s @
        [default_transform_stamped
           \<lparr>ts_header := default_header\<lparr>hdr_stamp := time, hdr_frame_id := ''map''\<rparr>,
            child_frame_id := ''basebase'', ts_transform := \<lparr>translation = t, rotation = q\<rparr>\<rparr>]\<rparr>"

text \<open>Lines 77--78: \<open>except Exception as e: rospy.loginfo(...)\<close>.\<close>

definition log_exception :: "exc \<Rightarrow> svea_node \<Rightarrow> svea_node" where
  "log_exception e s = s\<lparr>log := log s @ [ExceptionLog e]\<rparr>"

section \<open>The abstract specification\<close>

text \<open>
  What the callback is meant to compute (spec, section 4.2, steps 4--5): the calibrated
  pose of the marker in the map frame, composed with the looked-up pose of base_link in
  the marker frame, as a rigid motion in quaternion form; then the ground-plane clamp.
\<close>

definition relocalize :: "vec3 \<times> quat \<Rightarrow> transform \<Rightarrow> vec3 \<times> quat" where
  "relocalize c tr = (vec_add (quat_rotate (snd c) (translation tr)) (fst c), qmul (snd c) (rotation tr))"

definition planar :: "vec3 \<Rightarrow> vec3" where
  "planar v = v\<lparr>vz := 0\<rparr>"

section \<open>The callback\<close>

text \<open>
  Lines 52--78 in order: the guard; the lookup (line 57); the header write (59--61);
  the index, the translation and its log line (62--63; the code computes the index
  three times, with the same result); the orientation (64); the composition (71); the
  clamp (72); the publication (75).
\<close>

definition aruco_callback :: "svea_node \<Rightarrow> marker \<Rightarrow> svea_node \<times> marker" where
  "aruco_callback s msg =
     (if uint (m_id msg) \<in> set (aruco_id s) then
        (case buffer s (aruco_frame (m_id msg)) ''base_link'' (hdr_stamp (m_header msg)) lookup_timeout of
           Inl e \<Rightarrow> (log_exception (TfException e) s, msg)
         | Inr inverse_transform \<Rightarrow>
             (let msg = msg\<lparr>m_header := (m_header msg)\<lparr>hdr_frame_id := ''map''\<rparr>\<rparr>
              in case py_index (aruco_id s) (uint (m_id msg)) of
                   Inl e \<Rightarrow> (log_exception e s, msg)
                 | Inr idx \<Rightarrow>
                     (case py_get (aruco_pose s) idx of
                        Inl e \<Rightarrow> (log_exception e s, msg)
                      | Inr p \<Rightarrow>
                          (let s = s\<lparr>log := log s @ [TranslationUsed idx p]\<rparr>
                           in case mk_vector3 p of
                                Inl e \<Rightarrow> (log_exception e s, msg)
                              | Inr t \<Rightarrow>
                                  (case py_get (aruco_ori s) idx of
                                     Inl e \<Rightarrow> (log_exception e s, msg)
                                   | Inr ori \<Rightarrow>
                                       (case euler_call ori of
                                          Inl e \<Rightarrow> (log_exception e s, msg)
                                        | Inr q \<Rightarrow>
                                            (let pos = corrected_pose inverse_transform (m_header msg)
                                                         (m_id msg) t q
                                             in (publish_pose (position (ps_pose pos)) (orientation (ps_pose pos))
                                                   (hdr_stamp (m_header msg)) s, msg))))))))
      else (s, msg))"

section \<open>The composition refines the specification\<close>

text \<open>The matrix path of \<open>do_transform_pose\<close> computes the specified position
  exactly and the specified rotation through \<open>GetQuaternion\<close>.\<close>

lemma corrected_pose_eq:
  "ps_pose (corrected_pose T h i t q) =
     \<lparr>position = planar (fst (relocalize (t, q) (ts_transform T))),
      orientation = get_quaternion (rot_of (snd (relocalize (t, q) (ts_transform T))))\<rparr>"
  by (simp add: corrected_pose_def clamp_z_def do_transform_pose_def inverse_pose_def
      adjust_orientation_def transform_to_kdl_def frame_mul_def default_pose_stamped_def
      default_transform_stamped_def relocalize_def planar_def rot_apply_rot_of rot_of_qmul Let_def)

lemma pose_msg_log: "pose_msg (s\<lparr>log := l\<rparr>) = pose_msg s"
  by (simp add: pose_msg_def set_covariance_def fun_eq_iff)

lemma qnorm2_calib_entry: "qnorm2 (snd (calib_entry p ori)) = 1"
  by (simp add: calib_entry_def qnorm2_euler)

section \<open>The branches of the callback\<close>

lemma aruco_callback_unknown:
  "uint (m_id m) \<notin> set (aruco_id s) \<Longrightarrow> aruco_callback s m = (s, m)"
  by (simp add: aruco_callback_def)

lemma aruco_callback_ok:
  assumes wf: "wf_calibration s" and k: "k < length (aruco_id s)" "uint (m_id m) = aruco_id s ! k"
    and tf: "buffer s (aruco_frame (m_id m)) ''base_link'' (hdr_stamp (m_header m)) lookup_timeout = Inr T"
  shows "aruco_callback s m =
     (let m' = m\<lparr>m_header := (m_header m)\<lparr>hdr_frame_id := ''map''\<rparr>\<rparr>;
          c = calib_entry (aruco_pose s ! k) (aruco_ori s ! k);
          pos = corrected_pose T (m_header m') (m_id m) (fst c) (snd c)
      in (publish_pose (position (ps_pose pos)) (orientation (ps_pose pos)) (hdr_stamp (m_header m))
            (s\<lparr>log := log s @ [TranslationUsed k (aruco_pose s ! k)]\<rparr>), m'))"
proof -
  from wf k have d: "py_index (aruco_id s) (uint (m_id m)) = Inr k"
    by (simp add: wf_calibration_def py_index_distinct)
  from wf k have p: "py_get (aruco_pose s) k = Inr (aruco_pose s ! k)" "py_get (aruco_ori s) k = Inr (aruco_ori s ! k)"
    by (simp_all add: wf_calibration_def py_get_def)
  from wf k have l: "length (aruco_pose s ! k) = 3" "length (aruco_ori s ! k) = 3"
    by (simp_all add: wf_calibration_def nth_mem)
  have mem: "uint (m_id m) \<in> set (aruco_id s)" using k by simp
  show ?thesis
    using mem tf d p by (simp add: aruco_callback_def mk_vector3_len3 [OF l(1)] euler_call_len3 [OF l(2)] calib_entry_def Let_def)
qed

lemma aruco_callback_published:
  assumes wf: "wf_calibration s" and k: "k < length (aruco_id s)" "uint (m_id m) = aruco_id s ! k"
    and tf: "buffer s (aruco_frame (m_id m)) ''base_link'' (hdr_stamp (m_header m)) lookup_timeout = Inr T"
  shows "published (fst (aruco_callback s m)) = published s @
           [pose_msg s (planar (fst (relocalize (calib_entry (aruco_pose s ! k) (aruco_ori s ! k)) (ts_transform T))))
              (get_quaternion (rot_of (snd (relocalize (calib_entry (aruco_pose s ! k) (aruco_ori s ! k)) (ts_transform T)))))
              (hdr_stamp (m_header m))]"
  using aruco_callback_ok [OF assms]
  by (simp add: Let_def publish_pose_def pose_msg_log corrected_pose_eq split_beta)

lemma aruco_callback_frame:
  "fst (aruco_callback s m) =
     s\<lparr>published := published (fst (aruco_callback s m)), log := log (fst (aruco_callback s m))\<rparr>"
  by (simp add: aruco_callback_def log_exception_def publish_pose_def Let_def split: sum.split)

lemma aruco_callback_buffer: "buffer (fst (aruco_callback s m)) = buffer s"
  by (subst aruco_callback_frame) simp

lemma aruco_callback_published_cases:
  "published (fst (aruco_callback s m)) = published s \<or>
   (\<exists>t q. published (fst (aruco_callback s m)) = published s @ [pose_msg s t q (hdr_stamp (m_header m))]
          \<and> vz t = 0)"
  by (auto simp: aruco_callback_def log_exception_def publish_pose_def pose_msg_log Let_def
      corrected_pose_eq planar_def split: sum.split)

lemma aruco_callback_log_indep:
  "(fst (aruco_callback (s\<lparr>log := l\<rparr>) m))\<lparr>log := []\<rparr> = (fst (aruco_callback s m))\<lparr>log := []\<rparr> \<and>
   snd (aruco_callback (s\<lparr>log := l\<rparr>) m) = snd (aruco_callback s m)"
  by (simp add: aruco_callback_def log_exception_def publish_pose_def pose_msg_log Let_def split: sum.split)

lemma get_quaternion_zero: "get_quaternion (Rotation 0 0 0 0 0 0 0 0 0) = \<lparr>qx = 0, qy = 0, qz = 1 / 2, qw = 0\<rparr>"
  by (simp add: Let_def)

section \<open>Properties of the engine\<close>

text \<open>C1. On a marker of a well-formed calibration whose transform the buffer
  resolves to a unit rotation, the callback publishes exactly one correction: the
  specified world position with its height set to zero and the specified orientation
  up to the sign of the quaternion, stamped with the observation time.\<close>

theorem callback_publishes_relocalized_pose:
  assumes wf: "wf_calibration s" and k: "k < length (aruco_id s)" "uint (m_id m) = aruco_id s ! k"
    and tf: "buffer s (aruco_frame (m_id m)) ''base_link'' (hdr_stamp (m_header m)) lookup_timeout = Inr T"
    and unit: "qnorm2 (rotation (ts_transform T)) = 1"
  shows "\<exists>q. published (fst (aruco_callback s m)) = published s @
           [pose_msg s (planar (fst (relocalize (calib_entry (aruco_pose s ! k) (aruco_ori s ! k)) (ts_transform T))))
              q (hdr_stamp (m_header m))] \<and>
           (q = snd (relocalize (calib_entry (aruco_pose s ! k) (aruco_ori s ! k)) (ts_transform T)) \<or>
            q = qneg (snd (relocalize (calib_entry (aruco_pose s ! k) (aruco_ori s ! k)) (ts_transform T))))"
proof -
  let ?r = "snd (relocalize (calib_entry (aruco_pose s ! k) (aruco_ori s ! k)) (ts_transform T))"
  have "qnorm2 ?r = 1" using unit by (simp add: relocalize_def qnorm2_qmul qnorm2_calib_entry)
  then have "get_quaternion (rot_of ?r) = ?r \<or> get_quaternion (rot_of ?r) = qneg ?r"
    by (rule get_quaternion_rot_of)
  with aruco_callback_published [OF assms(1-4)] show ?thesis by blast
qed

text \<open>C3. Round trip: when the buffer returns the identity transform, the published
  position is the calibrated translation with \<open>z = 0\<close>, and the published orientation
  is the calibrated quaternion or its negation (the same rotation).\<close>

theorem identity_transform_roundtrip:
  assumes wf: "wf_calibration s" and k: "k < length (aruco_id s)" "uint (m_id m) = aruco_id s ! k"
    and tf: "buffer s (aruco_frame (m_id m)) ''base_link'' (hdr_stamp (m_header m)) lookup_timeout = Inr T"
    and ident: "ts_transform T = \<lparr>translation = \<lparr>vx = 0, vy = 0, vz = 0\<rparr>,
                                   rotation = \<lparr>qx = 0, qy = 0, qz = 0, qw = 1\<rparr>\<rparr>"
  defines "p \<equiv> aruco_pose s ! k" and "q \<equiv> quaternion_from_euler (aruco_ori s ! k ! 0) (aruco_ori s ! k ! 1) (aruco_ori s ! k ! 2)"
  shows "\<exists>q'. published (fst (aruco_callback s m)) = published s @
           [pose_msg s \<lparr>vx = p ! 0, vy = p ! 1, vz = 0\<rparr> q' (hdr_stamp (m_header m))] \<and>
           (q' = q \<or> q' = qneg q)"
proof -
  have r: "relocalize (calib_entry (aruco_pose s ! k) (aruco_ori s ! k)) (ts_transform T)
           = (\<lparr>vx = p ! 0, vy = p ! 1, vz = p ! 2\<rparr>, q)"
    by (simp add: ident relocalize_def calib_entry_def p_def q_def quat_rotate_def qmul_def qconj_def
        pure_def vec_part_def vec_add_def)
  have "get_quaternion (rot_of q) = q \<or> get_quaternion (rot_of q) = qneg q"
    by (rule get_quaternion_rot_of) (simp add: q_def qnorm2_euler)
  with aruco_callback_published [OF assms(1-4)] r show ?thesis by (auto simp: planar_def)
qed

text \<open>C5. The covariance of every correction is the diagonal 6x6 matrix, row by row:
  \<open>lin_cov\<close> on the three linear axes, \<open>ang_cov\<close> on the three angular ones,
  zero elsewhere.\<close>

theorem set_covariance_shape:
  "length (set_covariance s) = 36 \<and>
   (\<forall>i<6. \<forall>j<6. set_covariance s ! (6 * i + j) =
      (if i = j then (if i < 3 then lin_cov s else ang_cov s) else 0))"
  by (simp add: set_covariance_def less_Suc_eq numeral_eq_Suc)

text \<open>C7. If the buffer cannot resolve the transform of a known marker, the callback
  publishes nothing, logs the exception and leaves the message alone.\<close>

theorem tf_failure_dropped:
  assumes "uint (m_id m) \<in> set (aruco_id s)"
    and "buffer s (aruco_frame (m_id m)) ''base_link'' (hdr_stamp (m_header m)) lookup_timeout = Inl e"
  shows "aruco_callback s m = (s\<lparr>log := log s @ [ExceptionLog (TfException e)]\<rparr>, m)"
  using assms by (simp add: aruco_callback_def log_exception_def)

text \<open>C9. Distinct marker ids address distinct frames of the transform tree.\<close>

theorem aruco_frame_inj: "aruco_frame a = aruco_frame b \<longleftrightarrow> a = b"
  by (simp add: aruco_frame_def py_str_int_inj word_uint_eq_iff)

text \<open>C10. The callback writes into the incoming message: once the lookup succeeds,
  the message's header has \<open>frame_id = 'map'\<close>, whatever happens later in the
  \<open>try\<close> block; its stamp is unchanged.\<close>

theorem callback_renames_msg_header:
  assumes "uint (m_id m) \<in> set (aruco_id s)"
    and "buffer s (aruco_frame (m_id m)) ''base_link'' (hdr_stamp (m_header m)) lookup_timeout = Inr T"
  shows "snd (aruco_callback s m) = m\<lparr>m_header := (m_header m)\<lparr>hdr_frame_id := ''map''\<rparr>\<rparr>"
  using assms by (simp add: aruco_callback_def Let_def split: sum.split)

text \<open>C11. A zero rotation from the buffer is not rejected: the callback publishes the
  quaternion \<open>(0, 0, 1/2, 0)\<close> that \<open>GetQuaternion\<close> makes of the zero matrix,
  which is not a unit quaternion.\<close>

theorem zero_rotation_published:
  assumes wf: "wf_calibration s" and k: "k < length (aruco_id s)" "uint (m_id m) = aruco_id s ! k"
    and tf: "buffer s (aruco_frame (m_id m)) ''base_link'' (hdr_stamp (m_header m)) lookup_timeout = Inr T"
    and zero: "rotation (ts_transform T) = default_quat"
  shows "published (fst (aruco_callback s m)) = published s @
           [pose_msg s (planar (fst (relocalize (calib_entry (aruco_pose s ! k) (aruco_ori s ! k)) (ts_transform T))))
              \<lparr>qx = 0, qy = 0, qz = 1 / 2, qw = 0\<rparr> (hdr_stamp (m_header m))] \<and>
         qnorm2 \<lparr>qx = 0, qy = 0, qz = 1 / 2, qw = 0\<rparr> \<noteq> 1"
proof -
  have "rot_of (snd (relocalize (calib_entry (aruco_pose s ! k) (aruco_ori s ! k)) (ts_transform T)))
        = Rotation 0 0 0 0 0 0 0 0 0"
    by (simp add: zero relocalize_def default_quat_def qmul_def rot_of_def rot_quaternion_def Let_def)
  with aruco_callback_published [OF assms(1-4)] show ?thesis
    by (simp add: get_quaternion_zero qnorm2_def power2_eq_square)
qed

end
