(* ===== verification/Node.thy ===== *)
theory Node
  imports Engine "HOL-Library.Sublist"
begin

text \<open>
  The node as a state machine. After \<open>__init__\<close> the node only spins
  (\<open>run\<close>, line 50): rospy hands the subscriber's messages to \<open>aruco_callback\<close>
  one at a time, in the order they arrive, while the \<open>TransformListener\<close> fills the
  buffer. An event is either a marker message or a new state of the buffer;
  \<open>node_step\<close> handles one, \<open>node_run\<close> a sequence, and \<open>reachable\<close> collects
  the states some sequence reaches from the constructor. The lemmas show what every run
  keeps: the configuration, the shape of every published correction, at most one
  correction per marker message, in the order of the messages, and that a failed lookup
  changes nothing but the log.
\<close>

section \<open>Events and runs\<close>

datatype event = ArucoMsg marker | TfUpdate tf_buffer

fun node_step :: "svea_node \<Rightarrow> event \<Rightarrow> svea_node" where
  "node_step s (ArucoMsg m) = fst (aruco_callback s m)"
| "node_step s (TfUpdate b) = s\<lparr>buffer := b\<rparr>"

fun node_run :: "svea_node \<Rightarrow> event list \<Rightarrow> svea_node" where
  "node_run s [] = s"
| "node_run s (e # es) = node_run (node_step s e) es"

inductive reachable :: "svea_node \<Rightarrow> bool" where
  init: "reachable (static_svea_gps_init topic)"
| step: "reachable s \<Longrightarrow> reachable (node_step s e)"

fun is_marker_event :: "event \<Rightarrow> bool" where
  "is_marker_event (ArucoMsg m) = True"
| "is_marker_event (TfUpdate b) = False"

text \<open>The observation times of the marker messages of a run, in arrival order.\<close>

definition marker_stamps :: "event list \<Rightarrow> stamp list" where
  "marker_stamps es = [hdr_stamp (m_header m). ArucoMsg m \<leftarrow> es]"

definition pwcs_stamp :: "pose_with_covariance_stamped \<Rightarrow> stamp" where
  "pwcs_stamp p = hdr_stamp (pwcs_header p)"

text \<open>The shape of a correction sent by a node with state \<open>s\<close>.\<close>

definition correction_ok :: "svea_node \<Rightarrow> pose_with_covariance_stamped \<Rightarrow> bool" where
  "correction_ok s p \<longleftrightarrow>
     hdr_frame_id (pwcs_header p) = ''map'' \<and>
     vz (position (pwc_pose (pwcs_pose p))) = 0 \<and>
     covariance (pwcs_pose p) = set_covariance s"

text \<open>The fields no event writes.\<close>

definition same_config :: "svea_node \<Rightarrow> svea_node \<Rightarrow> bool" where
  "same_config s t \<longleftrightarrow>
     aruco_pose_topic s = aruco_pose_topic t \<and> aruco_id s = aruco_id t \<and>
     aruco_pose s = aruco_pose t \<and> aruco_ori s = aruco_ori t \<and> frame s = frame t \<and>
     lin_cov s = lin_cov t \<and> ang_cov s = ang_cov t \<and> sent_transforms s = sent_transforms t"

section \<open>Lemmas on steps and runs\<close>

lemma node_run_append: "node_run s (xs @ ys) = node_run (node_run s xs) ys"
  by (induction xs arbitrary: s) auto

lemma same_config_trans: "same_config s t \<Longrightarrow> same_config t u \<Longrightarrow> same_config s u"
  by (simp add: same_config_def)

lemma same_config_set_covariance: "same_config s t \<Longrightarrow> set_covariance s = set_covariance t"
  by (simp add: same_config_def set_covariance_def)

lemma node_step_config: "same_config (node_step s e) s"
proof (cases e)
  case (ArucoMsg m)
  have "node_step s e = fst (aruco_callback s m)" using ArucoMsg by simp
  also have "\<dots> = s\<lparr>published := published (fst (aruco_callback s m)),
                         log := log (fst (aruco_callback s m))\<rparr>"
    by (rule aruco_callback_frame)
  finally show ?thesis by (simp add: same_config_def)
next
  case (TfUpdate b)
  then show ?thesis by (simp add: same_config_def)
qed

lemma node_run_config: "same_config (node_run s es) s"
proof (induction es arbitrary: s)
  case Nil
  then show ?case by (simp add: same_config_def)
next
  case (Cons e es)
  then show ?case by (metis node_run.simps(2) node_step_config same_config_trans)
qed

lemma pose_msg_ok: "vz t = 0 \<Longrightarrow> correction_ok s (pose_msg s t q time)"
  by (simp add: correction_ok_def pose_msg_def default_pwcs_def default_header_def)

lemma pose_msg_stamp: "pwcs_stamp (pose_msg s t q time) = time"
  by (simp add: pwcs_stamp_def pose_msg_def default_pwcs_def default_header_def)

text \<open>One step publishes at most one correction, well-shaped and stamped with the
  step's marker message.\<close>

lemma node_step_published:
  "\<exists>new. published (node_step s e) = published s @ new \<and>
     length new \<le> (if is_marker_event e then 1 else 0) \<and>
     (\<forall>p \<in> set new. correction_ok s p) \<and>
     subseq (map pwcs_stamp new) (marker_stamps [e])"
proof (cases e)
  case (ArucoMsg m)
  from aruco_callback_published_cases [of s m] show ?thesis
  proof
    assume "published (fst (aruco_callback s m)) = published s"
    with ArucoMsg show ?thesis by (intro exI [of _ "[]"]) simp
  next
    assume "\<exists>t q. published (fst (aruco_callback s m)) =
                   published s @ [pose_msg s t q (hdr_stamp (m_header m))] \<and> vz t = 0"
    then obtain t q where "published (fst (aruco_callback s m)) =
                   published s @ [pose_msg s t q (hdr_stamp (m_header m))]" "vz t = 0"
      by blast
    with ArucoMsg show ?thesis
      by (intro exI [of _ "[pose_msg s t q (hdr_stamp (m_header m))]"])
        (simp add: pose_msg_ok pose_msg_stamp marker_stamps_def)
  qed
next
  case (TfUpdate b)
  then show ?thesis by (intro exI [of _ "[]"]) simp
qed

lemma marker_stamps_Cons: "marker_stamps (e # es) = marker_stamps [e] @ marker_stamps es"
  by (cases e) (simp_all add: marker_stamps_def)

text \<open>A run publishes a correction only for a marker message, in the order of the
  messages, each well-shaped.\<close>

lemma node_run_published:
  "\<exists>new. published (node_run s es) = published s @ new \<and>
     length new \<le> length (filter is_marker_event es) \<and>
     (\<forall>p \<in> set new. correction_ok s p) \<and>
     subseq (map pwcs_stamp new) (marker_stamps es)"
proof (induction es arbitrary: s)
  case Nil
  then show ?case by simp
next
  case (Cons e es)
  obtain new1 where n1: "published (node_step s e) = published s @ new1"
    "length new1 \<le> (if is_marker_event e then 1 else 0)" "\<forall>p \<in> set new1. correction_ok s p"
    "subseq (map pwcs_stamp new1) (marker_stamps [e])"
    using node_step_published by blast
  obtain new2 where n2: "published (node_run (node_step s e) es) = published (node_step s e) @ new2"
    "length new2 \<le> length (filter is_marker_event es)"
    "\<forall>p \<in> set new2. correction_ok (node_step s e) p"
    "subseq (map pwcs_stamp new2) (marker_stamps es)"
    using Cons.IH by blast
  have cov: "set_covariance (node_step s e) = set_covariance s"
    by (rule same_config_set_covariance [OF node_step_config])
  have "subseq (map pwcs_stamp (new1 @ new2)) (marker_stamps (e # es))"
    using list_emb_append_mono [OF n1(4) n2(4)] marker_stamps_Cons [of e es] by simp
  moreover have "\<forall>p \<in> set (new1 @ new2). correction_ok s p"
    using n1(3) n2(3) cov by (auto simp: correction_ok_def)
  moreover have "length (new1 @ new2) \<le> length (filter is_marker_event (e # es))"
    using n1(2) n2(2) by (simp split: if_splits)
  ultimately show ?case using n1(1) n2(1) by (intro exI [of _ "new1 @ new2"]) simp
qed

text \<open>The callback never reads the log, so two states that differ only in their logs
  stay so along any run.\<close>

lemma log_reset_eq: "s\<lparr>log := []\<rparr> = t\<lparr>log := []\<rparr> \<Longrightarrow> s = t\<lparr>log := log s\<rparr>"
proof -
  assume h: "s\<lparr>log := []\<rparr> = t\<lparr>log := []\<rparr>"
  have "s = (s\<lparr>log := []\<rparr>)\<lparr>log := log s\<rparr>" by simp
  also have "\<dots> = (t\<lparr>log := []\<rparr>)\<lparr>log := log s\<rparr>" using h by simp
  also have "\<dots> = t\<lparr>log := log s\<rparr>" by simp
  finally show ?thesis .
qed

lemma node_step_log_indep:
  "(node_step (s\<lparr>log := l\<rparr>) e)\<lparr>log := []\<rparr> = (node_step s e)\<lparr>log := []\<rparr>"
  by (cases e) (simp_all add: aruco_callback_log_indep)

lemma node_run_log_indep:
  "(node_run (s\<lparr>log := l\<rparr>) es)\<lparr>log := []\<rparr> = (node_run s es)\<lparr>log := []\<rparr>"
proof (induction es arbitrary: s l)
  case Nil
  then show ?case by simp
next
  case (Cons e es)
  obtain l' where "node_step (s\<lparr>log := l\<rparr>) e = (node_step s e)\<lparr>log := l'\<rparr>"
    using log_reset_eq [OF node_step_log_indep] by blast
  then show ?case using Cons.IH by simp
qed

lemma correction_ok_step: "correction_ok s p \<Longrightarrow> correction_ok (node_step s e) p"
  by (simp add: correction_ok_def same_config_set_covariance [OF node_step_config])

lemma init_config: "same_config s (static_svea_gps_init topic) \<Longrightarrow>
  aruco_id s = [11, 13] \<and> aruco_pose s = [[- 2.615, 0, 0], [1.17, 2.305, 0]] \<and>
  aruco_ori s = [[1.57, 0, 1.57], [1.57, 0, 0]] \<and> lin_cov s = 1 / 10 ^ 6 \<and>
  ang_cov s = 1 / 10 ^ 6 \<and> sent_transforms s = []"
  by (simp add: same_config_def static_svea_gps_init_def)

section \<open>Properties of the node\<close>

text \<open>C2. A marker whose id is not in the calibration table changes nothing: no
  correction, no log line, no exception.\<close>

theorem unknown_marker_noop:
  "\<not> is_landmark s (m_id m) \<Longrightarrow> node_step s (ArucoMsg m) = s"
  by (simp add: is_landmark_def aruco_callback_unknown)

text \<open>C4. In every reachable state, every correction the node has published is in the
  map frame, lies on the ground plane (\<open>z = 0\<close>) and carries the node's covariance.\<close>

theorem reachable_corrections_planar:
  "reachable s \<Longrightarrow> \<forall>p \<in> set (published s). correction_ok s p"
proof (induction rule: reachable.induct)
  case (init topic)
  then show ?case by (simp add: static_svea_gps_init_def)
next
  case (step s e)
  obtain new where "published (node_step s e) = published s @ new" "\<forall>p \<in> set new. correction_ok s p"
    using node_step_published by blast
  with step.IH show ?case by (auto intro: correction_ok_step)
qed

text \<open>C6. A failed lookup does not cascade: if the buffer cannot resolve a known
  marker, the corrections published by the rest of the run are those published without
  that message.\<close>

theorem tf_failure_isolated:
  assumes "uint (m_id m) \<in> set (aruco_id s)"
    and "buffer s (aruco_frame (m_id m)) ''base_link'' (hdr_stamp (m_header m)) lookup_timeout = Inl e"
  shows "published (node_run s (ArucoMsg m # es)) = published (node_run s es)"
proof -
  have "node_step s (ArucoMsg m) = s\<lparr>log := log s @ [ExceptionLog (TfException e)]\<rparr>"
    using assms by (simp add: aruco_callback_def log_exception_def)
  then have "(node_run s (ArucoMsg m # es))\<lparr>log := []\<rparr> = (node_run s es)\<lparr>log := []\<rparr>"
    by (simp add: node_run_log_indep)
  then show ?thesis by (metis svea_node.select_convs(9) svea_node.surjective svea_node.update_convs(11))
qed

text \<open>C12. The configuration never changes after the constructor: every reachable
  state holds the calibration and variances written in \<open>__init__\<close>, which is
  well-formed, and nothing is ever broadcast (\<open>broadcast_aruco\<close> is never called).\<close>

theorem reachable_config_fixed:
  "reachable s \<Longrightarrow>
     aruco_id s = [11, 13] \<and> aruco_pose s = [[- 2.615, 0, 0], [1.17, 2.305, 0]] \<and>
     aruco_ori s = [[1.57, 0, 1.57], [1.57, 0, 0]] \<and> lin_cov s = 1 / 10 ^ 6 \<and>
     ang_cov s = 1 / 10 ^ 6 \<and> sent_transforms s = [] \<and> wf_calibration s"
proof -
  assume "reachable s"
  then have "\<exists>topic. same_config s (static_svea_gps_init topic)"
  proof (induction rule: reachable.induct)
    case (init topic)
    then show ?case by (auto simp: same_config_def)
  next
    case (step s e)
    then show ?case using node_step_config same_config_trans by blast
  qed
  then show ?thesis using init_config by (fastforce simp: wf_calibration_def)
qed

text \<open>C13. At most one correction per marker message: a run publishes no more
  corrections than it has marker messages.\<close>

theorem published_count_bounded:
  "length (published (node_run s es)) \<le> length (published s) + length (filter is_marker_event es)"
  using node_run_published [of s es] by auto

text \<open>C14. Corrections go out in the order the observations arrived: the stamps of
  the corrections a run publishes are a subsequence of the stamps of its marker
  messages.\<close>

theorem published_stamps_in_order:
  "subseq (map pwcs_stamp (drop (length (published s)) (published (node_run s es)))) (marker_stamps es)"
  using node_run_published [of s es] by auto

end
