(* ===== verification/Refinement.thy ===== *)
theory Refinement
  imports Node
begin

text \<open>
  An abstract specification of the whole node and the simulation theorem that the
  concrete node (\<open>node_run\<close>, with its log, its exceptions and the header it
  overwrites) implements it. The specified node keeps only the calibration table as a
  map (\<open>calib_map\<close>), the current buffer, and the list of corrections it emits, as
  positions, rotations and stamps.
\<close>

section \<open>The specified node\<close>

text \<open>A buffer that only ever answers with unit rotations, as tf2 keeps them.\<close>

definition unit_buffer :: "tf_buffer \<Rightarrow> bool" where
  "unit_buffer b \<longleftrightarrow>
     (\<forall>target source time timeout T. b target source time timeout = Inr T \<longrightarrow>
        qnorm2 (rotation (ts_transform T)) = 1)"

text \<open>
  The node as the spec describes it (sections 4.2 and 5): observations are processed in
  arrival order; an observation of a marker in the table whose transform the buffer
  resolves yields one correction (the specified planar position, rotation and stamp);
  any other observation yields none. Buffer updates only change the buffer.
\<close>

fun spec_run :: "(int \<rightharpoonup> vec3 \<times> quat) \<Rightarrow> tf_buffer \<Rightarrow> event list \<Rightarrow> (vec3 \<times> quat \<times> stamp) list" where
  "spec_run tbl b [] = []"
| "spec_run tbl b (TfUpdate b' # es) = spec_run tbl b' es"
| "spec_run tbl b (ArucoMsg m # es) =
     (case tbl (uint (m_id m)) of
        None \<Rightarrow> []
      | Some c \<Rightarrow>
          (case b (aruco_frame (m_id m)) ''base_link'' (hdr_stamp (m_header m)) lookup_timeout of
             Inl e \<Rightarrow> []
           | Inr T \<Rightarrow> [(planar (fst (relocalize c (ts_transform T))), snd (relocalize c (ts_transform T)),
                        hdr_stamp (m_header m))])) @ spec_run tbl b es"

text \<open>A published message realises a specified correction: it is well-shaped, has
  the specified position and stamp, and its quaternion denotes the specified rotation.\<close>

definition corresponds :: "svea_node \<Rightarrow> pose_with_covariance_stamped \<Rightarrow> vec3 \<times> quat \<times> stamp \<Rightarrow> bool" where
  "corresponds s p a \<longleftrightarrow>
     correction_ok s p \<and> position (pwc_pose (pwcs_pose p)) = fst a \<and>
     rot_of (orientation (pwc_pose (pwcs_pose p))) = rot_of (fst (snd a)) \<and> pwcs_stamp p = snd (snd a)"

section \<open>Lemmas\<close>

lemma calib_map_Some:
  assumes "wf_calibration s" "calib_map s i = Some c"
  shows "\<exists>k < length (aruco_id s). i = aruco_id s ! k \<and> c = calib_entry (aruco_pose s ! k) (aruco_ori s ! k)"
proof -
  have i: "i \<in> set (aruco_id s)" using assms(2) calib_map_absent by force
  then obtain k where k: "k < length (aruco_id s)" "i = aruco_id s ! k" by (metis in_set_conv_nth)
  have "calib_map s i = Some (calib_entry (aruco_pose s ! k) (aruco_ori s ! k))"
    using assms(1) k unfolding calib_map_def wf_calibration_def by (simp add: map_of_zip_nth)
  with assms(2) k show ?thesis by auto
qed

lemma callback_step_spec:
  assumes wf: "wf_calibration s" and u: "unit_buffer (buffer s)"
  shows "\<exists>new. published (fst (aruco_callback s m)) = published s @ new \<and>
           list_all2 (corresponds s) new (spec_run (calib_map s) (buffer s) [ArucoMsg m])"
proof (cases "calib_map s (uint (m_id m))")
  case None
  then have "uint (m_id m) \<notin> set (aruco_id s)"
    using wf by (auto simp: calib_map_def wf_calibration_def map_of_zip_nth in_set_conv_nth)
  with None show ?thesis by (simp add: aruco_callback_unknown)
next
  case (Some c)
  then obtain k where k: "k < length (aruco_id s)" "uint (m_id m) = aruco_id s ! k"
    and c: "c = calib_entry (aruco_pose s ! k) (aruco_ori s ! k)"
    using calib_map_Some [OF wf] by blast
  show ?thesis
  proof (cases "buffer s (aruco_frame (m_id m)) ''base_link'' (hdr_stamp (m_header m)) lookup_timeout")
    case (Inl e)
    have "uint (m_id m) \<in> set (aruco_id s)" using k by simp
    with Inl Some show ?thesis by (simp add: aruco_callback_def log_exception_def)
  next
    case (Inr T)
    let ?r = "relocalize c (ts_transform T)"
    have "qnorm2 (snd ?r) = 1"
      using u Inr by (simp add: unit_buffer_def relocalize_def qnorm2_qmul c qnorm2_calib_entry)
    then have "rot_of (get_quaternion (rot_of (snd ?r))) = rot_of (snd ?r)"
      by (rule rot_of_get_quaternion)
    with aruco_callback_published [OF wf k Inr] Some Inr c show ?thesis
      by (simp add: corresponds_def pose_msg_ok pose_msg_stamp pose_msg_def planar_def
          default_pwcs_def default_header_def correction_ok_def pwcs_stamp_def)
  qed
qed

lemma unit_buffer_step:
  "unit_buffer (buffer s) \<Longrightarrow> (\<forall>b. e = TfUpdate b \<longrightarrow> unit_buffer b) \<Longrightarrow> unit_buffer (buffer (node_step s e))"
proof (cases e)
  case (ArucoMsg m)
  assume "unit_buffer (buffer s)"
  moreover have "buffer (node_step s e) = buffer s"
    using ArucoMsg by (simp add: aruco_callback_buffer)
  ultimately show ?thesis by simp
qed simp

lemma wf_calibration_config: "same_config t s \<Longrightarrow> wf_calibration t \<longleftrightarrow> wf_calibration s"
  by (simp add: same_config_def wf_calibration_def)

lemma calib_map_config: "same_config t s \<Longrightarrow> calib_map t = calib_map s"
  by (simp add: same_config_def calib_map_def)

lemma corresponds_config: "same_config t s \<Longrightarrow> corresponds t = corresponds s"
  by (simp add: corresponds_def correction_ok_def same_config_set_covariance fun_eq_iff)

section \<open>The node refines the specification\<close>

text \<open>C16. Refinement of the whole node: for a well-formed calibration and a buffer
  that answers with unit rotations, the corrections any run publishes correspond one to
  one, in order, to the emissions of the specified node.\<close>

theorem node_run_refines_spec:
  assumes "wf_calibration s" "unit_buffer (buffer s)" "\<forall>b. TfUpdate b \<in> set es \<longrightarrow> unit_buffer b"
  shows "\<exists>new. published (node_run s es) = published s @ new \<and>
           list_all2 (corresponds s) new (spec_run (calib_map s) (buffer s) es)"
  using assms
proof (induction es arbitrary: s)
  case Nil
  then show ?case by simp
next
  case (Cons e es)
  let ?t = "node_step s e"
  have cfg: "same_config ?t s" by (rule node_step_config)
  have wf': "wf_calibration ?t" using Cons.prems(1) wf_calibration_config [OF cfg] by simp
  have u': "unit_buffer (buffer ?t)" using Cons.prems(2,3) by (intro unit_buffer_step) auto
  obtain new2 where n2: "published (node_run ?t es) = published ?t @ new2"
    "list_all2 (corresponds ?t) new2 (spec_run (calib_map ?t) (buffer ?t) es)"
    using Cons.IH [OF wf' u'] Cons.prems(3) by auto
  have n2': "list_all2 (corresponds s) new2 (spec_run (calib_map s) (buffer ?t) es)"
    using n2(2) by (simp add: corresponds_config [OF cfg] calib_map_config [OF cfg])
  show ?case
  proof (cases e)
    case (ArucoMsg m)
    obtain new1 where n1: "published ?t = published s @ new1"
      "list_all2 (corresponds s) new1 (spec_run (calib_map s) (buffer s) [ArucoMsg m])"
      using callback_step_spec [OF Cons.prems(1,2), of m] ArucoMsg by auto
    have b: "buffer ?t = buffer s"
      using ArucoMsg by (simp add: aruco_callback_buffer)
    have "spec_run (calib_map s) (buffer s) (ArucoMsg m # es)
          = spec_run (calib_map s) (buffer s) [ArucoMsg m] @ spec_run (calib_map s) (buffer s) es"
      by simp
    with n1 n2(1) n2' b ArucoMsg show ?thesis
      by (intro exI [of _ "new1 @ new2"]) (simp add: list_all2_appendI)
  next
    case (TfUpdate b)
    with n2(1) n2' show ?thesis by simp
  qed
qed

end
