(* ===== verification/Tf2Cache.thy ===== *)
theory Tf2Cache
  imports Kdl
begin

text \<open>
  The history the tf2 buffer keeps for one frame: \<open>tf2::TimeCache\<close>, which the node
  creates through \<open>tf2_ros.Buffer(rospy.Duration(10))\<close> (line 45). A cache is the
  list of stored transforms from the frame to its parent, newest first (the C++
  \<open>std::list storage_\<close>); a stored transform (\<open>TransformStorage\<close>) carries the same
  fields as a \<open>TransformStamped\<close>, so it is one. \<open>insertData\<close> refuses data older
  than the window or with a stamp already stored, inserts in stamp order and prunes the
  entries that fell out of the window; \<open>getData\<close> finds the entries around the
  requested time and interpolates between them (linearly for the translation, by \<open>slerp\<close> for the rotation).
\<close>

type_synonym time_cache = "transform_stamped list"

text \<open>The cache time the node gives its buffer: \<open>tf2_ros.Buffer(rospy.Duration(10))\<close>.\<close>

definition buffer_cache_time :: duration where
  "buffer_cache_time = 10000000000"

abbreviation st_stamp :: "transform_stamped \<Rightarrow> stamp" where
  "st_stamp d \<equiv> hdr_stamp (ts_header d)"

abbreviation st_parent :: "transform_stamped \<Rightarrow> string" where
  "st_parent d \<equiv> hdr_frame_id (ts_header d)"

section \<open>Insertion and pruning\<close>

text \<open>The insertion loop of \<open>TimeCache::insertData\<close>: walk from the newest entry to the
  first one that is not newer than the new data, and insert before it.\<close>

fun insert_sorted :: "transform_stamped \<Rightarrow> time_cache \<Rightarrow> time_cache" where
  "insert_sorted d [] = [d]"
| "insert_sorted d (x # xs) = (if st_stamp x \<le> st_stamp d then d # x # xs else x # insert_sorted d xs)"

text \<open>\<open>TimeCache::pruneList\<close>: pop the oldest entry while it is more than
  \<open>max_storage_time\<close> older than the newest.\<close>

definition prune_list :: "duration \<Rightarrow> time_cache \<Rightarrow> time_cache" where
  "prune_list max_storage c =
     (case c of [] \<Rightarrow> []
      | x # _ \<Rightarrow> rev (dropWhile (\<lambda>y. st_stamp y + max_storage < st_stamp x) (rev c)))"

text \<open>\<open>TimeCache::insertData\<close>: \<open>None\<close> is its \<open>return false\<close>: the data is older
  than the window (\<open>TF_OLD_DATA\<close>), or the first entry not newer than it has the same
  stamp (\<open>TF_REPEATED_DATA\<close>); otherwise the data goes before that entry and the list
  is pruned.\<close>

definition insert_data :: "duration \<Rightarrow> transform_stamped \<Rightarrow> time_cache \<Rightarrow> time_cache option" where
  "insert_data max_storage d c =
     (if (case c of x # _ \<Rightarrow> st_stamp d + max_storage < st_stamp x | [] \<Rightarrow> False) then None
      else if (case find (\<lambda>y. st_stamp y \<le> st_stamp d) c of
                 Some y \<Rightarrow> st_stamp y = st_stamp d | None \<Rightarrow> False) then None
      else Some (prune_list max_storage (insert_sorted d c)))"

section \<open>Lookup at a time\<close>

text \<open>The result of \<open>TimeCache::findClosest\<close>: one entry, or the pair (older, newer)
  around the requested time.\<close>

datatype closest = Closest1 transform_stamped | Closest2 transform_stamped transform_stamped

text \<open>The loop of \<open>findClosest\<close> that walks from the newest entry to the first one not
  newer than the target; \<open>prev\<close> is the entry before it.\<close>

fun closest_pair :: "stamp \<Rightarrow> transform_stamped \<Rightarrow> time_cache \<Rightarrow> closest option" where
  "closest_pair t prev [] = None"
| "closest_pair t prev (z # zs) = (if st_stamp z \<le> t then Some (Closest2 z prev) else closest_pair t z zs)"

text \<open>\<open>TimeCache::findClosest\<close>; \<open>None\<close> is its \<open>return 0\<close> (empty cache, or an
  extrapolation into the past or the future). Time \<open>0\<close> asks for the latest entry.\<close>

fun find_closest :: "stamp \<Rightarrow> time_cache \<Rightarrow> closest option" where
  "find_closest t [] = None"
| "find_closest t [x] = (if t = 0 \<or> st_stamp x = t then Some (Closest1 x) else None)"
| "find_closest t (x # y # ys) =
     (if t = 0 then Some (Closest1 x)
      else if t = st_stamp x then Some (Closest1 x)
      else if t = st_stamp (last (y # ys)) then Some (Closest1 (last (y # ys)))
      else if st_stamp x < t then None
      else if t < st_stamp (last (y # ys)) then None
      else closest_pair t x (y # ys))"

text \<open>\<open>tf2::Quaternion::slerp\<close> with \<open>angleShortestPath\<close>: the half angle between the
  two rotations (\<open>tf2Acos\<close> clamps its argument to \<open>[-1, 1]\<close>), taking the shorter way
  round when their dot product is negative.\<close>

definition slerp :: "quat \<Rightarrow> quat \<Rightarrow> real \<Rightarrow> quat" where
  "slerp a b t =
     (let dot = (\<lambda>u v. qx u * qx v + qy u * qy v + qz u * qz v + qw u * qw v);
          tf2_acos = (\<lambda>x. arccos (if x < - 1 then - 1 else if 1 < x then 1 else x));
          s = sqrt (qnorm2 a * qnorm2 b);
          theta = (if dot a b < 0 then tf2_acos (dot a (qneg b) / s) * 2
                   else tf2_acos (dot a b / s) * 2) / 2
      in if theta \<noteq> 0 then
           (let d = 1 / sin theta; s0 = sin ((1 - t) * theta); s1 = sin (t * theta);
                b' = (if dot a b < 0 then qneg b else b)
            in \<lparr>qx = (qx a * s0 + qx b' * s1) * d, qy = (qy a * s0 + qy b' * s1) * d,
                qz = (qz a * s0 + qz b' * s1) * d, qw = (qw a * s0 + qw b' * s1) * d\<rparr>)
         else a)"

text \<open>\<open>TimeCache::interpolate\<close> with \<open>Vector3::setInterpolate3\<close> for the translation:
  the result keeps the older entry's stamp and frames.\<close>

definition interpolate :: "transform_stamped \<Rightarrow> transform_stamped \<Rightarrow> stamp \<Rightarrow> transform_stamped" where
  "interpolate one two t =
     (if st_stamp two = st_stamp one then two
      else let ratio = real_of_int (t - st_stamp one) / real_of_int (st_stamp two - st_stamp one);
               lerp = (\<lambda>v0 v1 rt. let s = 1 - rt in
                         \<lparr>vx = s * vx v0 + rt * vx v1, vy = s * vy v0 + rt * vy v1, vz = s * vz v0 + rt * vz v1\<rparr>)
           in one\<lparr>ts_transform := \<lparr>translation = lerp (translation (ts_transform one)) (translation (ts_transform two)) ratio,
                                   rotation = slerp (rotation (ts_transform one)) (rotation (ts_transform two)) ratio\<rparr>\<rparr>)"

text \<open>\<open>TimeCache::getData\<close>: entries with different parents are not interpolated.\<close>

definition get_data :: "stamp \<Rightarrow> time_cache \<Rightarrow> transform_stamped option" where
  "get_data t c =
     (case find_closest t c of
        None \<Rightarrow> None
      | Some (Closest1 a) \<Rightarrow> Some a
      | Some (Closest2 a b) \<Rightarrow> Some (if st_parent a = st_parent b then interpolate a b t else a))"

abbreviation newest_first :: "time_cache \<Rightarrow> bool" where
  "newest_first c \<equiv> sorted_wrt (\<lambda>a b. st_stamp b \<le> st_stamp a) c"

text \<open>The invariant of a cache: stamps do not increase from the front, and every entry
  is within \<open>max_storage_time\<close> of the newest.\<close>

definition cache_ok :: "duration \<Rightarrow> time_cache \<Rightarrow> bool" where
  "cache_ok max_storage c =
     (newest_first c \<and>
      (\<forall>y \<in> set c. st_stamp (hd c) \<le> st_stamp y + max_storage))"

section \<open>Lemmas\<close>

lemma set_insert_sorted [simp]: "set (insert_sorted d c) = insert d (set c)"
  by (induction c) auto

lemma sorted_insert_sorted: "newest_first c \<Longrightarrow> newest_first (insert_sorted d c)"
  by (induction c) auto

lemma hd_insert_sorted:
  "hd (insert_sorted d (x # xs)) = (if st_stamp x \<le> st_stamp d then d else x)"
  by simp

lemma prune_list_filter:
  assumes "newest_first c"
  shows "prune_list m c = filter (\<lambda>y. st_stamp (hd c) \<le> st_stamp y + m) c"
proof (cases c)
  case (Cons x xs)
  have "sorted_wrt (\<lambda>a b. st_stamp a \<le> st_stamp b) (rev c)"
    using assms by (simp add: sorted_wrt_rev)
  then have "dropWhile (\<lambda>y. st_stamp y + m < st_stamp x) (rev c)
             = filter (\<lambda>y. \<not> st_stamp y + m < st_stamp x) (rev c)"
    by (rule dropWhile_sorted_filter) auto
  then show ?thesis by (simp add: Cons prune_list_def rev_filter [symmetric] not_less)
qed (simp add: prune_list_def)

lemma prune_list_ok:
  assumes "newest_first c"
  shows "cache_ok m (prune_list m c)"
proof (cases c)
  case (Cons x xs)
  have le: "st_stamp y \<le> st_stamp x" if "y \<in> set xs" for y
    using assms that by (simp add: Cons)
  show ?thesis
  proof (cases "st_stamp x \<le> st_stamp x + m")
    case True
    then show ?thesis using assms
      by (auto simp: cache_ok_def prune_list_filter Cons sorted_wrt_filter)
  next
    case False
    then have "filter (\<lambda>y. st_stamp x \<le> st_stamp y + m) xs = []"
      using le by (force simp: filter_empty_conv)
    then show ?thesis using False assms by (simp add: cache_ok_def prune_list_filter Cons)
  qed
qed (simp add: cache_ok_def prune_list_def)

lemma insert_data_Some:
  "insert_data m d c = Some c' \<Longrightarrow> c' = prune_list m (insert_sorted d c)"
  by (auto simp: insert_data_def split: list.splits if_splits)

lemma insert_data_not_old:
  "insert_data m d (x # xs) = Some c' \<Longrightarrow> \<not> st_stamp d + m < st_stamp x"
  by (auto simp: insert_data_def split: if_splits)

lemma insert_data_cache_ok:
  assumes "cache_ok m c" and "insert_data m d c = Some c'"
  shows "cache_ok m c'"
proof -
  have "newest_first (insert_sorted d c)"
    using assms(1) by (intro sorted_insert_sorted) (simp add: cache_ok_def)
  then show ?thesis using insert_data_Some [OF assms(2)] by (simp add: prune_list_ok)
qed

lemma cache_ok_last:
  "cache_ok m (x # y # ys) \<Longrightarrow> st_stamp x \<le> st_stamp (last (y # ys)) + m"
  by (simp add: cache_ok_def)

lemma get_data_before_window:
  assumes "cache_ok m c" and "c \<noteq> []" and "t \<noteq> 0" and "t + m < st_stamp (hd c)"
  shows "get_data t c = None"
proof -
  obtain x xs where c: "c = x # xs" using assms(2) by (cases c) auto
  have m: "0 \<le> m" using assms(1) by (simp add: c cache_ok_def)
  show ?thesis
  proof (cases xs)
    case Nil
    then show ?thesis using assms(3,4) m by (simp add: c get_data_def)
  next
    case (Cons y ys)
    have "st_stamp x \<le> st_stamp (last (y # ys)) + m"
      using assms(1) by (intro cache_ok_last) (simp add: c Cons)
    then show ?thesis using assms(3,4) m by (simp add: c Cons get_data_def)
  qed
qed

lemma sin_arccos_clamp:
  fixes x :: real
  defines "y \<equiv> (if x < - 1 then - 1 else if 1 < x then 1 else x)"
  assumes "0 \<le> x" and "arccos y \<noteq> 0"
  shows "sin (arccos y) \<noteq> 0"
proof -
  have y: "0 \<le> y" "y \<le> 1" using assms(2) by (auto simp: y_def)
  have "y \<noteq> 1" using assms(3) by auto
  moreover have "y * y \<le> y" using y by (simp add: mult_left_le_one_le)
  ultimately have "0 < 1 - y\<^sup>2" using y(2) by (simp add: power2_eq_square)
  then show ?thesis using y by (simp add: sin_arccos)
qed

lemma slerp_0 [simp]: "slerp a b 0 = a"
proof -
  define s where "s = sqrt (qnorm2 a * qnorm2 b)"
  have s0: "0 \<le> s" by (simp add: s_def qnorm2_def)
  define dab where "dab = qx a * qx b + qy a * qy b + qz a * qz b + qw a * qw b"
  define x where "x = (if dab < 0 then - dab / s else dab / s)"
  define y where "y = (if x < - 1 then - 1 else if 1 < x then 1 else x)"
  have x: "0 \<le> x" using s0 by (auto simp: x_def divide_nonpos_nonneg)
  have theta: "(if dab < 0
                then arccos (if (qx a * qx (qneg b) + qy a * qy (qneg b) + qz a * qz (qneg b) + qw a * qw (qneg b)) / s < - 1 then - 1
                             else if 1 < (qx a * qx (qneg b) + qy a * qy (qneg b) + qz a * qz (qneg b) + qw a * qw (qneg b)) / s then 1
                             else (qx a * qx (qneg b) + qy a * qy (qneg b) + qz a * qz (qneg b) + qw a * qw (qneg b)) / s) * 2
                else arccos (if dab / s < - 1 then - 1 else if 1 < dab / s then 1 else dab / s) * 2) / 2
               = arccos y"
    by (simp add: x_def y_def qneg_def dab_def minus_divide_left)
  show ?thesis
  proof (cases "arccos y = 0")
    case False
    have "sin (arccos y) \<noteq> 0" using x False unfolding y_def by (rule sin_arccos_clamp)
    then show ?thesis unfolding slerp_def Let_def s_def [symmetric] dab_def [symmetric] theta using False by simp
  qed (unfold slerp_def Let_def s_def [symmetric] dab_def [symmetric] theta, simp)
qed

lemma closest_pair_hit:
  assumes "newest_first zs" "d \<in> set zs" "\<forall>y \<in> set zs. y \<noteq> d \<longrightarrow> st_stamp y \<noteq> st_stamp d"
    and "st_stamp d < st_stamp prev"
  shows "\<exists>p. closest_pair (st_stamp d) prev zs = Some (Closest2 d p) \<and> st_stamp d < st_stamp p"
  using assms
proof (induction zs arbitrary: prev)
  case (Cons z zs)
  show ?case
  proof (cases "z = d")
    case False
    then have "st_stamp d < st_stamp z" using Cons.prems by (auto simp: less_le)
    then show ?thesis using Cons.prems Cons.IH [of z] False by auto
  qed (use Cons.prems in auto)
qed simp

lemma interpolate_own_stamp:
  "st_stamp two \<noteq> st_stamp one \<Longrightarrow> interpolate one two (st_stamp one) = one"
  by (simp add: interpolate_def Let_def)

lemma newest_first_last:
  "newest_first zs \<Longrightarrow> d \<in> set zs \<Longrightarrow> d \<noteq> last zs \<Longrightarrow> st_stamp (last zs) \<le> st_stamp d"
  by (induction zs) (auto split: if_splits)

lemma get_data_unique:
  assumes "newest_first c" "d \<in> set c" "\<forall>y \<in> set c. y \<noteq> d \<longrightarrow> st_stamp y \<noteq> st_stamp d"
    and "st_stamp d \<noteq> 0"
  shows "get_data (st_stamp d) c = Some d"
proof (cases c rule: remdups_adj.cases)
  case (2 x)
  then show ?thesis using assms by (simp add: get_data_def)
next
  case (3 x y ys)
  consider (at_front) "d = x" | (at_back) "d \<noteq> x" "d = last (y # ys)"
    | (inside) "d \<noteq> x" "d \<noteq> last (y # ys)" by blast
  then show ?thesis
  proof cases
    case at_front
    then show ?thesis using assms(4) by (simp add: 3 get_data_def del: closest_pair.simps)
  next
    case at_back
    have "st_stamp x \<noteq> st_stamp d" using assms(3) at_back by (simp add: 3)
    then show ?thesis using assms(4) at_back by (simp add: 3 get_data_def del: closest_pair.simps)
  next
    case inside
    then have d: "d \<in> set (y # ys)" and dl: "d \<noteq> last (y # ys)" and dx: "d \<noteq> x"
      using assms(2) by (auto simp: 3)
    have s: "newest_first (y # ys)" "st_stamp d \<le> st_stamp x"
      using assms(1) d by (auto simp: 3)
    have lm: "last (y # ys) \<in> set c" "x \<in> set c" unfolding 3 by (metis last_in_set list.simps(3) list.set_intros(2), simp)
    have "st_stamp (last (y # ys)) \<le> st_stamp d"
      using newest_first_last [OF s(1) d dl] .
    moreover have "st_stamp (last (y # ys)) \<noteq> st_stamp d" "st_stamp x \<noteq> st_stamp d"
      using bspec [OF assms(3) lm(1)] bspec [OF assms(3) lm(2)] dl dx by simp_all
    ultimately have lt: "st_stamp (last (y # ys)) < st_stamp d" and gt: "st_stamp d < st_stamp x"
      using s(2) by linarith+
    obtain p where p: "closest_pair (st_stamp d) x (y # ys) = Some (Closest2 d p)" "st_stamp d < st_stamp p"
      using closest_pair_hit [of "y # ys" d x] assms(1,3) d gt by (auto simp: 3)
    show ?thesis using p lt gt dx assms(4)
      by (simp add: 3 get_data_def interpolate_own_stamp del: closest_pair.simps)
  qed
qed (use assms in simp)

lemma insert_get_data:
  assumes "cache_ok m c" and "0 \<le> m" and "insert_data m d c = Some c'"
    and "st_stamp d \<noteq> 0" and "st_stamp d \<notin> st_stamp ` set c"
  shows "get_data (st_stamp d) c' = Some d"
proof -
  let ?l = "insert_sorted d c"
  have sl: "newest_first ?l" using assms(1) by (intro sorted_insert_sorted) (simp add: cache_ok_def)
  have c': "c' = filter (\<lambda>y. st_stamp (hd ?l) \<le> st_stamp y + m) ?l"
    using insert_data_Some [OF assms(3)] prune_list_filter [OF sl] by simp
  have "st_stamp (hd ?l) \<le> st_stamp d + m"
  proof (cases c)
    case (Cons x xs)
    have "\<not> st_stamp d + m < st_stamp x" using assms(3) insert_data_not_old [of m d x xs] by (simp add: Cons)
    then show ?thesis using assms(2) by (simp add: Cons)
  qed (use assms(2) in simp)
  then have "d \<in> set c'" by (simp add: c')
  moreover have "newest_first c'" using sl by (simp add: c' sorted_wrt_filter)
  moreover have "\<forall>y \<in> set c'. y \<noteq> d \<longrightarrow> st_stamp y \<noteq> st_stamp d"
  proof (intro ballI impI)
    fix y assume "y \<in> set c'" "y \<noteq> d"
    then have "y \<in> set c" by (simp add: c')
    then show "st_stamp y \<noteq> st_stamp d" using assms(5) by (metis image_eqI)
  qed
  ultimately show ?thesis using get_data_unique assms(4) by blast
qed

section \<open>The node's buffer\<close>

text \<open>C18. The cache invariant of the node's buffer: after every successful
  \<open>insertData\<close> the entries are ordered newest first and none is older than the
  newest by more than the 10 s the node configures.\<close>

theorem insert_data_keeps_window:
  "cache_ok buffer_cache_time c \<Longrightarrow> insert_data buffer_cache_time d c = Some c'
   \<Longrightarrow> cache_ok buffer_cache_time c'"
  by (rule insert_data_cache_ok)

text \<open>C19. The retained history of the node's buffer: a lookup at a (non-zero) time
  more than 10 s older than the newest entry of a frame finds nothing, so the buffer
  reports an extrapolation into the past.\<close>

theorem get_data_outside_window:
  "cache_ok buffer_cache_time c \<Longrightarrow> c \<noteq> [] \<Longrightarrow> t \<noteq> 0 \<Longrightarrow>
   t + buffer_cache_time < st_stamp (hd c) \<Longrightarrow> get_data t c = None"
  by (rule get_data_before_window)

text \<open>C20. Insert and lookup in the node's buffer: once \<open>insertData\<close> has accepted a
  transform whose stamp no other entry has, a lookup at that stamp returns exactly that
  transform (between two entries \<open>getData\<close> interpolates with ratio 0, which gives the
  entry itself).\<close>

theorem insert_get_roundtrip:
  assumes "cache_ok buffer_cache_time c" and "insert_data buffer_cache_time d c = Some c'"
    and "st_stamp d \<noteq> 0" and "st_stamp d \<notin> st_stamp ` set c"
  shows "get_data (st_stamp d) c' = Some d"
  using assms(1) _ assms(2-4) by (rule insert_get_data) (simp add: buffer_cache_time_def)

end
