(* ===== verification/Tf2Core.thy ===== *)
theory Tf2Core
  imports Tf2Cache
begin

text \<open>
  The frame graph of the tf2 buffer (\<open>tf2::BufferCore\<close>): the table of frames with a
  cache each (a \<open>TimeCache\<close> for \<open>/tf\<close>, a \<open>StaticCache\<close> for \<open>/tf_static\<close>),
  \<open>setTransform\<close>, and \<open>lookupTransform\<close> with \<open>walkToTopParent\<close>: walk from the
  source frame up through the parents, accumulating the transform, then from the target
  frame up to the same top frame, and compose the two halves. A walk longer than
  \<open>MAX_GRAPH_DEPTH\<close> reports a loop. Time \<open>0\<close> asks for the latest time at which the
  whole chain is known (\<open>getLatestCommonTime\<close>).
\<close>

definition max_graph_depth :: nat where
  "max_graph_depth = 1000"

text \<open>The frame table: the registered frame names (\<open>frameIDs_\<close>; a name not in it has
  id \<open>0\<close>) and the cache of each frame that is some frame's child (\<open>frames_\<close>). A frame
  has at most one cache, dynamic or static.\<close>

record tf_core =
  core_cache_time :: duration
  frame_ids :: "string list"
  dyn_caches :: "string \<Rightarrow> time_cache option"
  static_caches :: "string \<Rightarrow> transform_stamped option"

definition tf_core_init :: "duration \<Rightarrow> tf_core" where
  "tf_core_init t = \<lparr>core_cache_time = t, frame_ids = [], dyn_caches = (\<lambda>f. None),
                     static_caches = (\<lambda>f. None)\<rparr>"

text \<open>\<open>BufferCore::setTransform\<close>: strip a leading slash from both names, refuse a
  self-transform, an empty name or a quaternion whose squared norm is off by
  \<open>QUATERNION_NORMALIZATION_TOLERANCE = 10e-3\<close>, register the child (allocating its
  cache, static or not) and the parent, and insert. The result is the new table and
  whether the data was accepted; a refused old stamp leaves both names registered.\<close>

definition set_transform :: "bool \<Rightarrow> transform_stamped \<Rightarrow> tf_core \<Rightarrow> tf_core \<times> bool" where
  "set_transform is_static d c =
     (let strip = (\<lambda>s. case s of CHR ''/'' # r \<Rightarrow> r | _ \<Rightarrow> s);
          register = (\<lambda>n ns. if n \<in> set ns then ns else ns @ [n]);
          parent = strip (st_parent d); child = strip (child_frame_id d);
          d' = d\<lparr>ts_header := (ts_header d)\<lparr>hdr_frame_id := parent\<rparr>, child_frame_id := child\<rparr>
      in if child = parent \<or> child = [] \<or> parent = []
            \<or> \<not> \<bar>qnorm2 (rotation (ts_transform d)) - 1\<bar> < 1 / 100 then (c, False)
         else
           (let c' = c\<lparr>frame_ids := register parent (register child (frame_ids c))\<rparr>
            in case static_caches c child of
                 Some _ \<Rightarrow> (c'\<lparr>static_caches := (static_caches c)(child \<mapsto> d')\<rparr>, True)
               | None \<Rightarrow>
                   (case dyn_caches c child of
                      None \<Rightarrow>
                        if is_static then (c'\<lparr>static_caches := (static_caches c)(child \<mapsto> d')\<rparr>, True)
                        else (case insert_data (core_cache_time c) d' [] of
                                Some l \<Rightarrow> (c'\<lparr>dyn_caches := (dyn_caches c)(child \<mapsto> l)\<rparr>, True)
                              | None \<Rightarrow> (c'\<lparr>dyn_caches := (dyn_caches c)(child \<mapsto> [])\<rparr>, False))
                    | Some l \<Rightarrow>
                        (case insert_data (core_cache_time c) d' l of
                           Some l' \<Rightarrow> (c'\<lparr>dyn_caches := (dyn_caches c)(child \<mapsto> l')\<rparr>, True)
                         | None \<Rightarrow> (c', False)))))"

text \<open>\<open>TransformAccum::gather\<close> on the frame's cache (\<open>getFrame\<close>, then
  \<open>getData\<close>; a static cache answers every time with its one transform): \<open>None\<close> when
  the frame has no cache (it is a root), \<open>Some None\<close> when the lookup at that time
  failed (parent id \<open>0\<close>).\<close>

definition gather :: "tf_core \<Rightarrow> stamp \<Rightarrow> string \<Rightarrow> transform_stamped option option" where
  "gather c t f =
     (case static_caches c f of
        Some st \<Rightarrow> Some (Some (st\<lparr>ts_header := (ts_header st)\<lparr>hdr_stamp := t\<rparr>\<rparr>))
      | None \<Rightarrow> (case dyn_caches c f of None \<Rightarrow> None | Some l \<Rightarrow> Some (get_data t l)))"

type_synonym accum = "vec3 \<times> quat"

text \<open>\<open>TransformAccum::accum\<close>: prepend one stored transform to the accumulated chain
  (\<open>quatRotate\<close> rotates by \<open>q v q\<^sup>-\<^sup>1\<close>, and tf2's \<open>inverse\<close> is the conjugate).\<close>

definition accum_step :: "transform_stamped \<Rightarrow> accum \<Rightarrow> accum" where
  "accum_step st acc =
     (vec_add (quat_rotate (rotation (ts_transform st)) (fst acc)) (translation (ts_transform st)),
      qmul (rotation (ts_transform st)) (snd acc))"

definition accum_init :: accum where
  "accum_init = (\<lparr>vx = 0, vy = 0, vz = 0\<rparr>, \<lparr>qx = 0, qy = 0, qz = 0, qw = 1\<rparr>)"

text \<open>How the walk from the source ends: it met the target (\<open>TargetParentOfSource\<close>),
  it stopped at a top frame (with the extrapolation flag), or it found a loop.\<close>

datatype src_end = SrcHit accum | SrcTop string accum bool | SrcLoop

text \<open>The first loop of \<open>walkToTopParent\<close>, from the source frame.\<close>

function walk_src :: "tf_core \<Rightarrow> stamp \<Rightarrow> string \<Rightarrow> nat \<Rightarrow> string \<Rightarrow> accum \<Rightarrow> src_end" where
  "walk_src c t target depth frame acc =
     (case gather c t frame of
        None \<Rightarrow> SrcTop frame acc False
      | Some None \<Rightarrow> SrcTop frame acc True
      | Some (Some st) \<Rightarrow>
          if frame = target then SrcHit acc
          else if max_graph_depth < Suc depth then SrcLoop
          else walk_src c t target (Suc depth) (st_parent st) (accum_step st acc))"
  by pat_completeness auto

termination
  by (relation "measure (\<lambda>(c, t, target, depth, frame, acc). Suc max_graph_depth - depth)") auto

text \<open>How the walk from the target ends: it reached the source's top frame, it
  stopped elsewhere, a lookup failed, it met the source (\<open>SourceParentOfTarget\<close>),
  or it found a loop.\<close>

datatype tgt_end = TgtTop accum | TgtStuck | TgtExtrap | TgtHit accum | TgtLoop

text \<open>The second loop of \<open>walkToTopParent\<close>, from the target frame.\<close>

function walk_tgt :: "tf_core \<Rightarrow> stamp \<Rightarrow> string \<Rightarrow> string \<Rightarrow> nat \<Rightarrow> string \<Rightarrow> accum \<Rightarrow> tgt_end" where
  "walk_tgt c t source top_frame depth frame acc =
     (if frame = top_frame then TgtTop acc
      else case gather c t frame of
        None \<Rightarrow> TgtStuck
      | Some None \<Rightarrow> TgtExtrap
      | Some (Some st) \<Rightarrow>
          if frame = source then TgtHit acc
          else if max_graph_depth < Suc depth then TgtLoop
          else walk_tgt c t source top_frame (Suc depth) (st_parent st) (accum_step st acc))"
  by pat_completeness auto

termination
  by (relation "measure (\<lambda>(c, t, source, top_frame, depth, frame, acc). Suc max_graph_depth - depth)") auto

text \<open>\<open>getLatestTimeAndParent\<close> of the frame's cache: a static cache answers time \<open>0\<close>,
  a dynamic one its newest entry; \<open>None\<close> when the frame has no cache or an empty one
  (parent id \<open>0\<close>).\<close>

definition latest_parent :: "tf_core \<Rightarrow> string \<Rightarrow> (stamp \<times> string) option" where
  "latest_parent c f =
     (case static_caches c f of
        Some st \<Rightarrow> Some (0, st_parent st)
      | None \<Rightarrow> (case dyn_caches c f of Some (x # _) \<Rightarrow> Some (st_stamp x, st_parent x) | _ \<Rightarrow> None))"

text \<open>\<open>common_time = min(latest, common_time)\<close> for a non-zero latest time; \<open>None\<close> is
  \<open>TIME_MAX\<close>.\<close>

abbreviation upd_common :: "stamp option \<Rightarrow> stamp \<Rightarrow> stamp option" where
  "upd_common ct lt \<equiv> (if lt \<noteq> 0 then Some (case ct of None \<Rightarrow> lt | Some x \<Rightarrow> min lt x) else ct)"

datatype lct_src_end = LsDone stamp | LsTop "(stamp \<times> string) list" | LsLoop

text \<open>The first loop of \<open>getLatestCommonTime\<close>, from the source frame, collecting the
  (time, parent) pairs on the way (\<open>lct_cache\<close>).\<close>

function lct_src :: "tf_core \<Rightarrow> string \<Rightarrow> nat \<Rightarrow> string \<Rightarrow> stamp option \<Rightarrow> (stamp \<times> string) list \<Rightarrow> lct_src_end" where
  "lct_src c target depth frame ct lcts =
     (case latest_parent c frame of
        None \<Rightarrow> LsTop lcts
      | Some (lt, parent) \<Rightarrow>
          if parent = target then LsDone (case upd_common ct lt of None \<Rightarrow> 0 | Some x \<Rightarrow> x)
          else if max_graph_depth < Suc depth then LsLoop
          else lct_src c target (Suc depth) parent (upd_common ct lt) (lcts @ [(lt, parent)]))"
  by pat_completeness auto

termination
  by (relation "measure (\<lambda>(c, target, depth, frame, ct, lcts). Suc max_graph_depth - depth)") auto

datatype lct_tgt_end = LtCommon string "stamp option" | LtDone stamp | LtNone | LtLoop

text \<open>The second loop of \<open>getLatestCommonTime\<close>, from the target frame, until a parent
  of the source's chain or the source itself.\<close>

function lct_tgt :: "tf_core \<Rightarrow> string \<Rightarrow> (stamp \<times> string) list \<Rightarrow> nat \<Rightarrow> string \<Rightarrow> stamp option \<Rightarrow> lct_tgt_end" where
  "lct_tgt c source lcts depth frame ct =
     (case latest_parent c frame of
        None \<Rightarrow> LtNone
      | Some (lt, parent) \<Rightarrow>
          if parent \<in> set (map snd lcts) then LtCommon parent (upd_common ct lt)
          else if parent = source then LtDone (case upd_common ct lt of None \<Rightarrow> 0 | Some x \<Rightarrow> x)
          else if max_graph_depth < Suc depth then LtLoop
          else lct_tgt c source lcts (Suc depth) parent (upd_common ct lt))"
  by pat_completeness auto

termination
  by (relation "measure (\<lambda>(c, source, lcts, depth, frame, ct). Suc max_graph_depth - depth)") auto

text \<open>\<open>getLatestCommonTime\<close>: after a common parent is found, the source's entries up to
  it take part in the minimum.\<close>

definition latest_common_time :: "tf_core \<Rightarrow> string \<Rightarrow> string \<Rightarrow> tf_error + stamp" where
  "latest_common_time c target source =
     (case lct_src c target 0 source None [] of
        LsDone t \<Rightarrow> Inr t
      | LsLoop \<Rightarrow> Inl LookupException
      | LsTop lcts \<Rightarrow>
          (case lct_tgt c source lcts 0 target None of
             LtDone t \<Rightarrow> Inr t
           | LtLoop \<Rightarrow> Inl LookupException
           | LtNone \<Rightarrow> Inl ConnectivityException
           | LtCommon p ct \<Rightarrow>
               (let pre = take (Suc (length (takeWhile (\<lambda>e. snd e \<noteq> p) lcts))) lcts
                in Inr (case foldl (\<lambda>ct e. upd_common ct (fst e)) ct pre of None \<Rightarrow> 0 | Some x \<Rightarrow> x))))"

text \<open>\<open>BufferCore::lookupTransform\<close> with \<open>validateFrameId\<close> and
  \<open>walkToTopParent\<close>: the identity when both names are equal (stamped with the frame's
  latest time when asked for time \<open>0\<close>); an empty name or one with a leading slash is an
  invalid argument, an unregistered one is unknown; time \<open>0\<close> becomes the latest
  common time; then the two walks, and \<open>TransformAccum::finalize\<close> composes the source
  half with the inverse of the target half.\<close>

definition lookup_core :: "tf_core \<Rightarrow> string \<Rightarrow> string \<Rightarrow> stamp \<Rightarrow> tf_error + transform_stamped" where
  "lookup_core c target source t =
     (let result = (\<lambda>tm acc. default_transform_stamped
                      \<lparr>ts_header := default_header\<lparr>hdr_stamp := tm, hdr_frame_id := target\<rparr>,
                       child_frame_id := source,
                       ts_transform := \<lparr>translation = fst acc, rotation = snd acc\<rparr>\<rparr>);
          invalid = (\<lambda>f. f = [] \<or> hd f = CHR ''/'');
          inverse = (\<lambda>acc. (quat_rotate (qconj (snd acc))
                               \<lparr>vx = - vx (fst acc), vy = - vy (fst acc), vz = - vz (fst acc)\<rparr>,
                             qconj (snd acc)))
      in if target = source then
           Inr (result (if t = 0 then (case dyn_caches c target of Some (x # _) \<Rightarrow> st_stamp x | _ \<Rightarrow> 0) else t)
                       accum_init)
         else if invalid target then Inl InvalidArgumentException
         else if target \<notin> set (frame_ids c) then Inl LookupException
         else if invalid source then Inl InvalidArgumentException
         else if source \<notin> set (frame_ids c) then Inl LookupException
         else
           (case (if t = 0 then latest_common_time c target source else Inr t) of
              Inl e \<Rightarrow> Inl e
            | Inr tm \<Rightarrow>
                (case walk_src c tm target 0 source accum_init of
                   SrcLoop \<Rightarrow> Inl LookupException
                 | SrcHit sacc \<Rightarrow> Inr (result tm sacc)
                 | SrcTop top_frame sacc extrap \<Rightarrow>
                     (case walk_tgt c tm source top_frame 0 target accum_init of
                        TgtLoop \<Rightarrow> Inl LookupException
                      | TgtExtrap \<Rightarrow> Inl ExtrapolationException
                      | TgtStuck \<Rightarrow> Inl (if extrap then ExtrapolationException else ConnectivityException)
                      | TgtHit tacc \<Rightarrow> Inr (result tm (inverse tacc))
                      | TgtTop tacc \<Rightarrow>
                          (let inv = inverse tacc
                           in Inr (result tm (vec_add (quat_rotate (snd inv) (fst sacc)) (fst inv),
                                              qmul (snd inv) (snd sacc))))))))"

section \<open>Specification: chains of frames\<close>

text \<open>The abstract meaning of a lookup: following the parents from frame \<open>f\<close> reaches
  frame \<open>g\<close> through the frames \<open>fs\<close>, and the stored transforms on the way, composed,
  take \<open>acc\<close> to \<open>acc'\<close>. A rigid transform acts on a point as \<open>q v q* + p\<close>.\<close>

inductive tf_path :: "tf_core \<Rightarrow> stamp \<Rightarrow> string \<Rightarrow> string \<Rightarrow> accum \<Rightarrow> accum \<Rightarrow> string list \<Rightarrow> bool" where
  path_end: "tf_path c t g g acc acc []"
| path_step: "gather c t f = Some (Some st) \<Longrightarrow> f \<noteq> g \<Longrightarrow>
               tf_path c t (st_parent st) g (accum_step st acc) acc' fs \<Longrightarrow> tf_path c t f g acc acc' (f # fs)"

definition tf_apply :: "accum \<Rightarrow> vec3 \<Rightarrow> vec3" where
  "tf_apply a v = vec_add (quat_rotate (snd a) v) (fst a)"

section \<open>Lemmas\<close>

lemma path_not_end: "tf_path c t f g acc acc' fs \<Longrightarrow> g \<notin> set fs"
  by (induction rule: tf_path.induct) auto

lemma walk_tgt_path:
  assumes "tf_path c t f g acc acc' fs" and "depth + length fs \<le> max_graph_depth"
  shows "walk_tgt c t g g depth f acc = TgtTop acc'"
  using assms
proof (induction arbitrary: depth rule: tf_path.induct)
  case (path_step c t f st g acc acc' fs)
  then show ?case by (subst walk_tgt.simps) simp
qed (simp add: walk_tgt.simps)

lemma walk_src_root:
  "static_caches c f = None \<Longrightarrow> dyn_caches c f = None \<Longrightarrow> walk_src c t target 0 f acc = SrcTop f acc False"
  by (simp add: walk_src.simps gather_def)

lemma latest_common_time_not_timeout: "latest_common_time c target source \<noteq> Inl TimeoutException"
  by (simp add: latest_common_time_def Let_def split: lct_src_end.split lct_tgt_end.split)

lemma lookup_core_not_timeout: "lookup_core c target source t \<noteq> Inl TimeoutException"
  unfolding lookup_core_def Let_def
  by (auto simp: latest_common_time_not_timeout simp del: walk_src.simps walk_tgt.simps
      split: sum.split src_end.split tgt_end.split)

lemma lookup_core_root_path:
  assumes p: "tf_path c t target source accum_init acc fs" and l: "length fs \<le> max_graph_depth"
    and r: "static_caches c source = None" "dyn_caches c source = None"
    and ne: "target \<noteq> source" and t: "t \<noteq> 0"
    and v: "target \<noteq> []" "hd target \<noteq> CHR ''/''" "source \<noteq> []" "hd source \<noteq> CHR ''/''"
    and k: "target \<in> set (frame_ids c)" "source \<in> set (frame_ids c)"
  shows "lookup_core c target source t =
           Inr (default_transform_stamped
                  \<lparr>ts_header := default_header\<lparr>hdr_stamp := t, hdr_frame_id := target\<rparr>,
                   child_frame_id := source,
                   ts_transform := \<lparr>translation = quat_rotate (qconj (snd acc))
                                       \<lparr>vx = - vx (fst acc), vy = - vy (fst acc), vz = - vz (fst acc)\<rparr>,
                                    rotation = qconj (snd acc)\<rparr>\<rparr>)"
proof -
  have "walk_tgt c t source source 0 target accum_init = TgtTop acc"
    using walk_tgt_path [OF p] l by simp
  then show ?thesis using ne t v k walk_src_root [OF r]
    by (simp add: lookup_core_def accum_init_def Let_def)
qed

lemma tf_apply_inverse:
  assumes "qnorm2 q = 1"
  shows "tf_apply (quat_rotate (qconj q) \<lparr>vx = - vx p, vy = - vy p, vz = - vz p\<rparr>, qconj q) (tf_apply (p, q) v) = v"
  using assms
  by (simp add: tf_apply_def quat_rotate_add quat_rotate_qmul qmul_qconj_unit quat_rotate_neg Let_def)
     (simp add: vec_add_def)

text \<open>\<open>lookupTransform\<close> refines the composition of the chain: when the source frame
  is a root and the target's parents lead to it with a unit composed rotation, the
  lookup undoes the chain.\<close>

lemma lookup_inverts_path:
  assumes "tf_path c t target source accum_init acc fs" and "length fs \<le> max_graph_depth"
    and "static_caches c source = None" and "dyn_caches c source = None"
    and "target \<noteq> source" and "t \<noteq> 0"
    and "target \<noteq> []" and "hd target \<noteq> CHR ''/''" and "source \<noteq> []" and "hd source \<noteq> CHR ''/''"
    and "target \<in> set (frame_ids c)" and "source \<in> set (frame_ids c)"
    and "qnorm2 (snd acc) = 1"
  shows "\<exists>r. lookup_core c target source t = Inr r \<and> hdr_stamp (ts_header r) = t \<and>
             hdr_frame_id (ts_header r) = target \<and> child_frame_id r = source \<and>
             (\<forall>v. tf_apply (translation (ts_transform r), rotation (ts_transform r)) (tf_apply acc v) = v)"
proof -
  have "tf_apply (quat_rotate (qconj (snd acc)) \<lparr>vx = - vx (fst acc), vy = - vy (fst acc), vz = - vz (fst acc)\<rparr>,
                  qconj (snd acc)) (tf_apply acc v) = v" for v
    using tf_apply_inverse [OF assms(13), of "fst acc" v] by simp
  then show ?thesis using lookup_core_root_path [OF assms(1-12)] by (simp add: default_transform_stamped_def)
qed

end
