(* ===== verification/NodeRt.thy ===== *)
theory NodeRt
  imports Node Tf2Core
begin

text \<open>
  The node's buffer as it runs: \<open>tf2_ros.Buffer.lookup_transform\<close> in Python first
  waits in \<open>can_transform\<close>, polling the C++ core at 20 Hz until it can answer or the
  timeout has passed, and then asks the core once. The core changes while the callback
  waits, because the \<open>TransformListener\<close> (line 46) fills it from its own thread: the
  buffer is a function from wall-clock time to the core at that time.
\<close>

type_synonym tf_world = "stamp \<Rightarrow> tf_core"

text \<open>The loop of \<open>Buffer.can_transform\<close>: while the time is before the deadline, the
  core cannot answer (\<open>can_transform_core\<close>, whose checks and walk are those of
  \<open>lookupTransform\<close>), and the clock has not jumped back by more than 3 s, sleep one
  period of \<open>rospy.Rate(20)\<close>.\<close>

function poll :: "tf_world \<Rightarrow> string \<Rightarrow> string \<Rightarrow> stamp \<Rightarrow> stamp \<Rightarrow> stamp \<Rightarrow> stamp \<Rightarrow> stamp" where
  "poll w target source t start deadline now =
     (if now < deadline \<and> isl (lookup_core (w now) target source t) \<and> start \<le> now + 3000000000
      then poll w target source t start deadline (now + 50000000) else now)"
  by pat_completeness auto

termination
  by (relation "measure (\<lambda>(w, target, source, t, start, deadline, now). nat (deadline - now))") auto

declare poll.simps [simp del]

text \<open>\<open>Buffer.can_transform(target, source, time, timeout)\<close> as \<open>lookup_transform\<close> calls
  it: the wall-clock time at which it returns (its boolean result is not used).\<close>

definition can_transform_wait :: "tf_world \<Rightarrow> string \<Rightarrow> string \<Rightarrow> stamp \<Rightarrow> duration \<Rightarrow> stamp \<Rightarrow> stamp" where
  "can_transform_wait w target source t timeout now =
     (if timeout \<noteq> 0 then poll w target source t now (now + timeout) now else now)"

text \<open>\<open>Buffer.lookup_transform\<close>: wait, then \<open>lookup_transform_core\<close> on the core as it
  is at the end of the wait.\<close>

definition lookup_transform_py :: "tf_world \<Rightarrow> string \<Rightarrow> string \<Rightarrow> stamp \<Rightarrow> duration \<Rightarrow> stamp \<Rightarrow> tf_error + transform_stamped" where
  "lookup_transform_py w target source t timeout now =
     lookup_core (w (can_transform_wait w target source t timeout now)) target source t"

section \<open>The running node\<close>

text \<open>The listener thread (\<open>TransformListener(self.buffer)\<close>, line 46) applies the
  transforms of each \<open>/tf\<close> and \<open>/tf_static\<close> message to the buffer created on line 45
  as it arrives: the core at wall-clock time \<open>now\<close> holds the messages that arrived by
  then, in arrival order. A message is its arrival time, whether it came on
  \<open>/tf_static\<close>, and its transforms.\<close>

type_synonym tf_msgs = "(stamp \<times> bool \<times> transform_stamped list) list"

definition listener_world :: "tf_msgs \<Rightarrow> tf_world" where
  "listener_world msgs now =
     foldl (\<lambda>c msg. if fst msg \<le> now
                     then foldl (\<lambda>c d. fst (set_transform (fst (snd msg)) d c)) c (snd (snd msg))
                     else c)
           (tf_core_init buffer_cache_time) msgs"

text \<open>The node's \<open>self.buffer\<close> as \<open>aruco_callback\<close> calls it (line 57) when the
  callback runs at wall-clock time \<open>now\<close>.\<close>

definition node_buffer :: "tf_world \<Rightarrow> stamp \<Rightarrow> tf_buffer" where
  "node_buffer w now = (\<lambda>target source t timeout. lookup_transform_py w target source t timeout now)"

text \<open>\<open>rospy.spin()\<close> (lines 49--50) with the subscriber of line 34: one thread takes the
  marker messages in arrival order; each callback starts when its message has arrived
  and the previous callback has returned, and returns when its lookup's wait is over
  (at once for an unknown id). The state is the node and the time the thread is
  free.\<close>

fun rt_run :: "tf_world \<Rightarrow> svea_node \<times> stamp \<Rightarrow> (stamp \<times> marker) list \<Rightarrow> svea_node \<times> stamp" where
  "rt_run w (s, free) [] = (s, free)"
| "rt_run w (s, free) ((arr, m) # ms) =
     (let start = max arr free;
          s' = fst (aruco_callback (s\<lparr>buffer := node_buffer w start\<rparr>) m);
          fin = (if uint (m_id m) \<in> set (aruco_id s)
                 then can_transform_wait w (aruco_frame (m_id m)) ''base_link'' (hdr_stamp (m_header m))
                        lookup_timeout start
                 else start)
      in rt_run w (s', fin) ms)"

text \<open>The same run as a sequence of events of the event-loop model: before each
  marker, the buffer as the callback will see it.\<close>

fun rt_trace :: "tf_world \<Rightarrow> svea_node \<Rightarrow> stamp \<Rightarrow> (stamp \<times> marker) list \<Rightarrow> event list" where
  "rt_trace w s free [] = []"
| "rt_trace w s free ((arr, m) # ms) =
     (let start = max arr free;
          fin = (if uint (m_id m) \<in> set (aruco_id s)
                 then can_transform_wait w (aruco_frame (m_id m)) ''base_link'' (hdr_stamp (m_header m))
                        lookup_timeout start
                 else start)
      in TfUpdate (node_buffer w start) # ArucoMsg m # rt_trace w s fin ms)"

section \<open>Lemmas\<close>

lemma aruco_frame_valid:
  "aruco_frame i \<noteq> []" "hd (aruco_frame i) = CHR ''a''" "aruco_frame i \<noteq> ''base_link''"
  by (simp_all add: aruco_frame_def)

text \<open>C21. The node's lookup (line 57) refines the composition of the frame chain: when
  \<open>base_link\<close> is a root of the frame graph and the parents of the marker's frame
  \<open>'aruco' + str(id)\<close> lead to it (through at most \<open>MAX_GRAPH_DEPTH\<close> frames) with a
  unit composed rotation, tf2 answers the lookup at a non-zero stamp with the transform,
  stamped at that time and named by the two frames, that undoes the chain on every
  point: the spec's rigid transform from the body frame to the marker frame.\<close>

theorem node_lookup_inverts_chain:
  assumes "tf_path c t (aruco_frame i) ''base_link'' accum_init acc fs" and "length fs \<le> max_graph_depth"
    and "static_caches c ''base_link'' = None" and "dyn_caches c ''base_link'' = None" and "t \<noteq> 0"
    and "aruco_frame i \<in> set (frame_ids c)" and "''base_link'' \<in> set (frame_ids c)"
    and "qnorm2 (snd acc) = 1"
  shows "\<exists>r. lookup_core c (aruco_frame i) ''base_link'' t = Inr r \<and> hdr_stamp (ts_header r) = t \<and>
             hdr_frame_id (ts_header r) = aruco_frame i \<and> child_frame_id r = ''base_link'' \<and>
             (\<forall>v. tf_apply (translation (ts_transform r), rotation (ts_transform r)) (tf_apply acc v) = v)"
  by (rule lookup_inverts_path [OF assms(1-4) _ assms(5) _ _ _ _ assms(6-8)]) (simp_all add: aruco_frame_valid)

lemma poll_step:
  "now < deadline \<and> isl (lookup_core (w now) target source t) \<and> start \<le> now + 3000000000 \<Longrightarrow>
   poll w target source t start deadline now = poll w target source t start deadline (now + 50000000)"
  using poll.simps [of w target source t start deadline now] by simp

lemma poll_stop:
  "\<not> (now < deadline \<and> isl (lookup_core (w now) target source t) \<and> start \<le> now + 3000000000) \<Longrightarrow>
   poll w target source t start deadline now = now"
  by (subst poll.simps) auto

lemma poll_ge: "now \<le> poll w target source t start deadline now"
proof (induction w target source t start deadline now rule: poll.induct)
  case (1 w target source t start deadline now)
  show ?case
  proof (cases "now < deadline \<and> isl (lookup_core (w now) target source t) \<and> start \<le> now + 3000000000")
    case True
    then have "now + 50000000 \<le> poll w target source t start deadline (now + 50000000)" using 1 by blast
    then show ?thesis using True by (simp add: poll_step poll_stop)
  qed (simp add: poll_stop)
qed

lemma poll_le: "poll w target source t start deadline now \<le> max now (deadline + 49999999)"
proof (induction w target source t start deadline now rule: poll.induct)
  case (1 w target source t start deadline now)
  show ?case
  proof (cases "now < deadline \<and> isl (lookup_core (w now) target source t) \<and> start \<le> now + 3000000000")
    case True
    then have "poll w target source t start deadline (now + 50000000) \<le> max (now + 50000000) (deadline + 49999999)"
      using 1 by blast
    then show ?thesis using True by (simp add: poll_step poll_stop)
  qed (simp add: poll_stop)
qed

lemma poll_finds:
  assumes "start \<le> now" and "now + int k * 50000000 < deadline"
    and "\<not> isl (lookup_core (w (now + int k * 50000000)) target source t)"
  shows "\<not> isl (lookup_core (w (poll w target source t start deadline now)) target source t)"
  using assms
proof (induction k arbitrary: now)
  case 0
  then show ?case by (simp add: poll_step poll_stop)
next
  case (Suc k)
  show ?case
  proof (cases "isl (lookup_core (w now) target source t)")
    case True
    have "\<not> isl (lookup_core (w (poll w target source t start deadline (now + 50000000))) target source t)"
      using Suc.prems by (intro Suc.IH) (simp_all add: algebra_simps)
    then show ?thesis using True Suc.prems by (simp add: poll_step poll_stop)
  qed (simp add: poll_step poll_stop)
qed

lemma can_transform_wait_bounds:
  "0 < timeout \<Longrightarrow> now \<le> can_transform_wait w target source t timeout now \<and>
     can_transform_wait w target source t timeout now < now + timeout + 50000000"
  using poll_ge [of now w target source t now "now + timeout"]
        poll_le [of w target source t now "now + timeout" now]
  by (simp add: can_transform_wait_def)

text \<open>C22. The wait of the node's lookup (line 57, \<open>rospy.Duration(0.5)\<close>) ends: it
  returns no earlier than it started and before the half second plus one polling
  period has passed, whatever the listener does meanwhile.\<close>

theorem node_lookup_wait_bounded:
  "now \<le> can_transform_wait w (aruco_frame i) ''base_link'' t lookup_timeout now \<and>
   can_transform_wait w (aruco_frame i) ''base_link'' t lookup_timeout now < now + lookup_timeout + 50000000"
  by (rule can_transform_wait_bounds) (simp add: lookup_timeout_def)

text \<open>C23. The wait serves its purpose: if the listener has given the buffer what the
  node's lookup needs by one of the polling instants before the half second is over,
  the lookup succeeds.\<close>

theorem node_lookup_catches_up:
  assumes "int k * 50000000 < lookup_timeout"
    and "lookup_core (w (now + int k * 50000000)) (aruco_frame i) ''base_link'' t = Inr r"
  shows "\<exists>r'. lookup_transform_py w (aruco_frame i) ''base_link'' t lookup_timeout now = Inr r'"
proof -
  have "\<not> isl (lookup_core (w (poll w (aruco_frame i) ''base_link'' t now (now + lookup_timeout) now))
                 (aruco_frame i) ''base_link'' t)"
    apply (rule poll_finds [where k = k])
    using assms apply simp_all
    done
  then show ?thesis
    by (cases "lookup_core (w (poll w (aruco_frame i) ''base_link'' t now (now + lookup_timeout) now))
                 (aruco_frame i) ''base_link'' t")
       (simp_all add: lookup_transform_py_def can_transform_wait_def lookup_timeout_def)
qed

text \<open>C24. The timeout is not an error of its own: after the wait, the Python buffer
  reports whatever the core reports at that moment (an unknown frame, a disconnected
  graph, an extrapolation, an invalid name), never \<open>TimeoutException\<close>.\<close>

theorem node_lookup_no_timeout_error:
  "lookup_transform_py w (aruco_frame i) ''base_link'' t lookup_timeout now \<noteq> Inl TimeoutException"
  by (simp add: lookup_transform_py_def lookup_core_not_timeout)

lemma rt_run_node_run:
  "same_config s s0 \<Longrightarrow> fst (rt_run w (s, free) ms) = node_run s (rt_trace w s0 free ms)"
proof (induction ms arbitrary: s free)
  case (Cons a ms)
  obtain arr m where a: "a = (arr, m)" by (cases a)
  let ?s' = "fst (aruco_callback (s\<lparr>buffer := node_buffer w (max arr free)\<rparr>) m)"
  have c: "same_config ?s' s0"
    using node_step_config [of "s\<lparr>buffer := node_buffer w (max arr free)\<rparr>" "ArucoMsg m"] Cons.prems
    by (auto simp: same_config_def)
  have ids: "aruco_id s = aruco_id s0" using Cons.prems by (simp add: same_config_def)
  show ?case using Cons.IH [OF c] by (simp add: a ids Let_def)
qed simp

text \<open>C26. The single subscriber thread serialises the callbacks, and each blocks for
  at most the lookup's wait: when all markers have arrived by time \<open>T\<close> and the thread
  is free by then, it is done with \<open>n\<close> markers before \<open>T + n \<times> 0.55 s\<close>. A marker
  can thus be handled up to that long after it arrived.\<close>

theorem rt_run_finish_bound:
  "(\<forall>a \<in> set ms. fst a \<le> T) \<Longrightarrow> free \<le> T \<Longrightarrow>
   snd (rt_run w (s, free) ms) \<le> T + int (length ms) * (lookup_timeout + 50000000)"
proof (induction ms arbitrary: s free T)
  case (Cons a ms)
  obtain arr m where a: "a = (arr, m)" by (cases a)
  define start where "start = max arr free"
  define fin where "fin = (if uint (m_id m) \<in> set (aruco_id s)
                 then can_transform_wait w (aruco_frame (m_id m)) ''base_link'' (hdr_stamp (m_header m))
                        lookup_timeout start else start)"
  have "start \<le> T" using Cons.prems by (simp add: a start_def)
  moreover have "fin < start + lookup_timeout + 50000000"
    using can_transform_wait_bounds [of lookup_timeout start w] by (simp add: fin_def lookup_timeout_def)
  ultimately have "fin \<le> T + (lookup_timeout + 50000000)" by simp
  moreover have "\<forall>a \<in> set ms. fst a \<le> T + (lookup_timeout + 50000000)"
    using Cons.prems by (auto simp: lookup_timeout_def)
  ultimately have "snd (rt_run w (fst (aruco_callback (s\<lparr>buffer := node_buffer w start\<rparr>) m), fin) ms)
                   \<le> T + (lookup_timeout + 50000000) + int (length ms) * (lookup_timeout + 50000000)"
    using Cons.IH by blast
  moreover have "snd (rt_run w (s, free) (a # ms)) =
                 snd (rt_run w (fst (aruco_callback (s\<lparr>buffer := node_buffer w start\<rparr>) m), fin) ms)"
    by (simp add: a start_def fin_def Let_def)
  ultimately show ?case by (simp add: algebra_simps)
qed simp

lemma reachable_node_run: "reachable s \<Longrightarrow> reachable (node_run s es)"
  by (induction es arbitrary: s) (auto intro: reachable.step)

lemma same_config_refl: "same_config s s"
  by (simp add: same_config_def)

lemma rt_trace_markers:
  "marker_stamps (rt_trace w s free ms) = map (\<lambda>a. hdr_stamp (m_header (snd a))) ms"
  "length (filter is_marker_event (rt_trace w s free ms)) = length ms"
  by (induction w s free ms rule: rt_trace.induct) (simp_all add: marker_stamps_def Let_def)

text \<open>The event sequence of a run: each marker once, in arrival order, preceded by the
  buffer as the listener has filled it at the instant the callback starts; the
  instants never decrease and none is before the message's arrival or the time the
  thread was free.\<close>

lemma rt_trace_shape:
  "\<exists>starts. rt_trace w s free ms =
       concat (map2 (\<lambda>t a. [TfUpdate (node_buffer w t), ArucoMsg (snd a)]) starts ms) \<and>
     list_all2 (\<lambda>t a. fst a \<le> t) starts ms \<and> sorted starts \<and> list_all (\<lambda>t. free \<le> t) starts"
proof (induction w s free ms rule: rt_trace.induct)
  case (1 w s free)
  show ?case by simp
next
  case (2 w s free arr m ms)
  define start where "start = max arr free"
  define fin where "fin = (if uint (m_id m) \<in> set (aruco_id s)
                 then can_transform_wait w (aruco_frame (m_id m)) ''base_link'' (hdr_stamp (m_header m))
                        lookup_timeout start else start)"
  have sf: "start \<le> fin"
    using can_transform_wait_bounds [of lookup_timeout start w] by (simp add: fin_def lookup_timeout_def)
  obtain starts where
    r: "rt_trace w s fin ms = concat (map2 (\<lambda>t a. [TfUpdate (node_buffer w t), ArucoMsg (snd a)]) starts ms)"
    and a: "list_all2 (\<lambda>t a. fst a \<le> t) starts ms" and so: "sorted starts"
    and f: "list_all (\<lambda>t. fin \<le> t) starts"
    using "2" [OF refl refl] unfolding start_def fin_def by blast
  have ge: "\<forall>t \<in> set starts. start \<le> t" using f sf by (auto simp: list_all_iff)
  have tr: "rt_trace w s free ((arr, m) # ms) =
            TfUpdate (node_buffer w start) # ArucoMsg m # rt_trace w s fin ms"
    by (simp only: rt_trace.simps Let_def start_def fin_def)
  have "sorted (start # starts)" using so ge by simp
  moreover have "list_all (\<lambda>t. free \<le> t) (start # starts)"
    using ge by (simp add: list_all_iff start_def)
  moreover have "list_all2 (\<lambda>t a. fst a \<le> t) (start # starts) ((arr, m) # ms)"
    using a by (simp add: start_def)
  ultimately show ?case using r tr by (intro exI [of _ "start # starts"]) simp
qed

text \<open>C25. The running node (tf2 buffer filled by the listener thread, callbacks
  serialised by the subscriber thread, each waiting up to 0.5 s) is the event loop run on
  its marker messages, each exactly once and in arrival order, each handled with the
  buffer as the listener has filled it at an instant no earlier than the message's
  arrival, the instants never decreasing.\<close>

theorem rt_run_arrival_order:
  "\<exists>starts. fst (rt_run w (s, free) ms) =
       node_run s (concat (map2 (\<lambda>t a. [TfUpdate (node_buffer w t), ArucoMsg (snd a)]) starts ms)) \<and>
     list_all2 (\<lambda>t a. fst a \<le> t) starts ms \<and> sorted starts \<and> list_all (\<lambda>t. free \<le> t) starts"
  using rt_trace_shape [of w s free ms] rt_run_node_run [OF same_config_refl, where s = s and w = w and free = free and ms = ms] by metis

text \<open>C27. The running node publishes at most one correction per marker message, in
  the order the messages arrived (their stamps form a subsequence of the arrival
  sequence), whatever the listener and the timing.\<close>

theorem rt_run_published_in_order:
  "\<exists>new. published (fst (rt_run w (s, free) ms)) = published s @ new \<and> length new \<le> length ms \<and>
     subseq (map pwcs_stamp new) (map (\<lambda>a. hdr_stamp (m_header (snd a))) ms)"
  using node_run_published [of s "rt_trace w s free ms"]
  by (auto simp: rt_run_node_run [OF same_config_refl] rt_trace_markers)

lemma digits10_is_digit: "list_all is_digit (digits10 n)"
proof (induction n rule: digits10.induct)
  case (1 n)
  then show ?case by (subst digits10.simps) (simp add: is_digit_digit_char)
qed

lemma digits10_length: "0 < k \<Longrightarrow> n < 10 ^ k \<Longrightarrow> length (digits10 n) \<le> k"
proof (induction n arbitrary: k rule: digits10.induct)
  case (1 n)
  show ?case
  proof (cases "n < 10")
    case False
    obtain k' where k0: "k = Suc k'" using 1(2) by (cases k) auto
    have "k' \<noteq> 0" using False 1(3) k0 by (cases "k' = 0") auto
    then have k: "k = Suc k'" "0 < k'" using k0 by simp_all
    have "n div 10 < 10 ^ k'" using 1(3) k(1) by (simp add: less_mult_imp_div_less mult.commute)
    then have "length (digits10 (n div 10)) \<le> k'" using 1(1) False k(2) by blast
    then show ?thesis using False k(1) by (subst digits10.simps) simp
  qed (use 1(2) in \<open>subst digits10.simps, simp\<close>)
qed

text \<open>C29. The frame the node asks the buffer for (line 57) is well formed: it is
  \<open>'aruco'\<close> followed by the decimal digits of the 32-bit marker id, at least one and
  at most ten of them, which \<open>int()\<close> reads back as the id; so it is never empty and
  never starts with a slash, and tf2 never rejects it as an invalid argument.\<close>

theorem aruco_frame_well_formed:
  "\<exists>ds. aruco_frame i = ''aruco'' @ ds \<and> ds \<noteq> [] \<and> length ds \<le> 10 \<and> list_all is_digit ds \<and>
        py_int ds = Inr (uint i)"
proof -
  have "unat i < 2 ^ 32" using unsigned_less [of i] by simp
  then have "length (digits10 (nat (uint i))) \<le> 10"
    by (intro digits10_length) simp_all
  then show ?thesis
    using py_int_py_str_int [of "uint i"]
    by (simp add: aruco_frame_def py_str_int_def digits10_nonempty digits10_is_digit)
qed

end
