(* ===== verification/Publisher.thy ===== *)
theory Publisher
  imports Node "HOL-Library.Sublist"
begin

text \<open>
  The publisher of corrections (\<open>rospy.Publisher("/global/set_pose", ..., queue_size=1)\<close>,
  line 37). With a \<open>queue_size\<close>, rospy wraps each subscriber connection in a
  \<open>QueuedConnection\<close>: \<open>publish\<close> (line 87) only appends the message to the
  connection's queue, dropping the oldest one when the queue is longer than
  \<open>queue_size\<close>, and a writer thread takes the whole queue and sends it. Which of the
  two threads runs when is a schedule: a sequence of publish calls and writer-thread
  rounds.
\<close>

text \<open>\<open>queue_size=1\<close> of line 37.\<close>

definition set_pose_queue_size :: nat where
  "set_pose_queue_size = 1"

text \<open>A \<open>QueuedConnection\<close>: the queued messages (\<open>_queue\<close>) and what the writer thread
  has sent on the connection so far.\<close>

record 'a queued_conn =
  cq_queue :: "'a list"
  cq_sent :: "'a list"

text \<open>\<open>QueuedConnection.write_data\<close>: append, and drop the oldest message when a positive
  queue size is exceeded.\<close>

definition write_data :: "nat \<Rightarrow> 'a \<Rightarrow> 'a queued_conn \<Rightarrow> 'a queued_conn" where
  "write_data qsize d c =
     (let q = cq_queue c @ [d] in c\<lparr>cq_queue := (if 0 < qsize \<and> qsize < length q then tl q else q)\<rparr>)"

text \<open>One round of \<open>QueuedConnection._run\<close>: take the whole queue and write it, in
  order, to the connection.\<close>

definition writer_round :: "'a queued_conn \<Rightarrow> 'a queued_conn" where
  "writer_round c = \<lparr>cq_queue = [], cq_sent = cq_sent c @ cq_queue c\<rparr>"

datatype 'a pub_event = Publish 'a | WriterRound

text \<open>\<open>self.global_set_pose_pub.publish(msg)\<close> (line 87) on the connection of the publisher
  of line 37, interleaved with the writer thread.\<close>

fun pub_step :: "'a queued_conn \<Rightarrow> 'a pub_event \<Rightarrow> 'a queued_conn" where
  "pub_step c (Publish m) = write_data set_pose_queue_size m c"
| "pub_step c WriterRound = writer_round c"

definition pub_run :: "'a queued_conn \<Rightarrow> 'a pub_event list \<Rightarrow> 'a queued_conn" where
  "pub_run c evs = foldl pub_step c evs"

definition conn_init :: "'a queued_conn" where
  "conn_init = \<lparr>cq_queue = [], cq_sent = []\<rparr>"

text \<open>The messages published in a schedule, in order.\<close>

definition published_of :: "'a pub_event list \<Rightarrow> 'a list" where
  "published_of evs = [m. Publish m \<leftarrow> evs]"

section \<open>The node and its publisher\<close>

text \<open>The two threads of the running node that touch the correction: the subscriber
  thread runs the node's events (each \<open>publish\<close> call of the callback becomes a
  \<open>write_data\<close> on the connection), the connection's writer thread runs rounds.\<close>

datatype sys_event = NodeEv event | WriterEv

type_synonym sys_state = "svea_node \<times> pose_with_covariance_stamped queued_conn"

fun sys_step :: "sys_state \<Rightarrow> sys_event \<Rightarrow> sys_state" where
  "sys_step (s, c) (NodeEv e) =
     (let s' = node_step s e
      in (s', pub_run c (map Publish (drop (length (published s)) (published s')))))"
| "sys_step (s, c) WriterEv = (s, writer_round c)"

definition sys_run :: "sys_state \<Rightarrow> sys_event list \<Rightarrow> sys_state" where
  "sys_run st evs = foldl sys_step st evs"

definition node_events :: "sys_event list \<Rightarrow> event list" where
  "node_events evs = [e. NodeEv e \<leftarrow> evs]"

section \<open>Lemmas\<close>

lemma pub_run_snoc [simp]: "pub_run c (evs @ [e]) = pub_step (pub_run c evs) e"
  by (simp add: pub_run_def)

lemma pub_run_Nil [simp]: "pub_run c [] = c"
  by (simp add: pub_run_def)

lemma published_of_snoc [simp]:
  "published_of (evs @ [Publish m]) = published_of evs @ [m]"
  "published_of (evs @ [WriterRound]) = published_of evs"
  by (simp_all add: published_of_def)

lemma write_data_sent [simp]: "cq_sent (write_data n d c) = cq_sent c"
  by (simp add: write_data_def Let_def)

lemma queue_le_one: "length (cq_queue c) \<le> 1 \<Longrightarrow> length (cq_queue (pub_step c e)) \<le> 1"
  by (cases e) (auto simp: write_data_def writer_round_def set_pose_queue_size_def Let_def)

lemma write_data_one:
  "length (cq_queue c) \<le> 1 \<Longrightarrow> write_data set_pose_queue_size m c = c\<lparr>cq_queue := [m]\<rparr>"
  by (cases "cq_queue c") (auto simp: write_data_def set_pose_queue_size_def Let_def)

text \<open>Sent and queued messages together are, in order, a subsequence of what was
  published.\<close>

lemma pub_run_subseq:
  "subseq (cq_sent (pub_run conn_init evs) @ cq_queue (pub_run conn_init evs)) (published_of evs)"
proof (induction evs rule: rev_induct)
  case (snoc e evs)
  show ?case
  proof (cases e)
    case (Publish m)
    let ?c = "pub_run conn_init evs"
    have "subseq (cq_sent ?c @ cq_queue (write_data set_pose_queue_size m ?c)) (cq_sent ?c @ cq_queue ?c @ [m])"
      by (auto simp: write_data_def Let_def subseq_append' intro: list_emb_Cons)
    moreover have "subseq (cq_sent ?c @ cq_queue ?c @ [m]) (published_of evs @ [m])"
      using snoc.IH list_emb_append_mono [of _ _ _ "[m]" "[m]"] by fastforce
    ultimately have "subseq (cq_sent ?c @ cq_queue (write_data set_pose_queue_size m ?c))
      (published_of evs @ [m])" by (rule subseq_order.order_trans)
    with Publish show ?thesis by simp
  qed (use snoc in \<open>simp add: writer_round_def\<close>)
qed (simp add: conn_init_def published_of_def)

lemma drop_butlast_length: "drop (length xs - 1) xs = (if xs = [] then [] else [last xs])"
  by (induction xs rule: rev_induct) auto

lemma pub_run_append: "pub_run c (xs @ ys) = pub_run (pub_run c xs) ys"
  by (simp add: pub_run_def)

lemma published_of_append: "published_of (xs @ ys) = published_of xs @ published_of ys"
  by (simp add: published_of_def)

lemma published_of_map_Publish [simp]: "published_of (map Publish xs) = xs"
  by (induction xs) (simp_all add: published_of_def)

lemma pub_run_publishes:
  "length (cq_queue c) \<le> 1 \<Longrightarrow>
   pub_run c (map Publish xs) = c\<lparr>cq_queue := (if xs = [] then cq_queue c else [last xs])\<rparr>"
proof (induction xs rule: rev_induct)
  case (snoc x xs)
  then have "length (cq_queue (pub_run c (map Publish xs))) \<le> 1" by simp
  then show ?case using snoc by (simp add: write_data_one)
qed simp

lemma node_run_snoc: "node_run s (es @ [e]) = node_step (node_run s es) e"
  by (induction es arbitrary: s) simp_all

lemma node_events_snoc [simp]:
  "node_events (evs @ [NodeEv e]) = node_events evs @ [e]"
  "node_events (evs @ [WriterEv]) = node_events evs"
  by (simp_all add: node_events_def)

lemma sys_run_snoc [simp]: "sys_run st (evs @ [e]) = sys_step (sys_run st evs) e"
  by (simp add: sys_run_def)

lemma node_run_published_prefix:
  "\<exists>new. published (node_run s es) = published s @ new"
  using node_run_published [of s es] by blast

text \<open>The composed run is the node's own run beside a publisher schedule whose publish
  calls are exactly the node's new corrections.\<close>

lemma sys_run_decomp:
  "\<exists>sched. sys_run (s, conn_init) evs = (node_run s (node_events evs), pub_run conn_init sched) \<and>
     published_of sched = drop (length (published s)) (published (node_run s (node_events evs)))"
proof (induction evs rule: rev_induct)
  case Nil
  show ?case by (intro exI [of _ "[]"]) (simp add: sys_run_def node_events_def published_of_def)
next
  case (snoc e evs)
  then obtain sched where
    r: "sys_run (s, conn_init) evs = (node_run s (node_events evs), pub_run conn_init sched)" and
    p: "published_of sched = drop (length (published s)) (published (node_run s (node_events evs)))"
    by blast
  show ?case
  proof (cases e)
    case (NodeEv x)
    let ?t = "node_run s (node_events evs)"
    let ?new = "drop (length (published ?t)) (published (node_step ?t x))"
    obtain n1 where n1: "published ?t = published s @ n1" using node_run_published_prefix by blast
    obtain n2 where n2: "published (node_step ?t x) = published ?t @ n2"
      using node_run_published_prefix [of ?t "[x]"] by auto
    show ?thesis using r p n1 n2 NodeEv
      by (intro exI [of _ "sched @ map Publish ?new"])
         (simp add: Let_def pub_run_append published_of_append node_run_snoc)
  qed (use r p in \<open>auto intro: exI [of _ "sched @ [WriterRound]"]\<close>)
qed

text \<open>Node events alone publish, on the connection, the node's new corrections in turn.\<close>

lemma sys_run_node_events:
  "sys_run (s, c) (map NodeEv es) =
     (node_run s es, pub_run c (map Publish (drop (length (published s)) (published (node_run s es)))))"
proof (induction es rule: rev_induct)
  case (snoc x es)
  let ?t = "node_run s es"
  obtain n1 where n1: "published ?t = published s @ n1" using node_run_published_prefix by blast
  obtain n2 where n2: "published (node_step ?t x) = published ?t @ n2"
    using node_run_published_prefix [of ?t "[x]"] by auto
  show ?case using snoc n1 n2 by (simp add: Let_def pub_run_append node_run_snoc)
qed (simp add: sys_run_def)

lemma pub_run_queue_le_one: "length (cq_queue (pub_run conn_init evs)) \<le> 1"
proof (induction evs rule: rev_induct)
  case (snoc e evs)
  then show ?case using queue_le_one [of "pub_run conn_init evs" e] by simp
qed (simp add: conn_init_def)

text \<open>C30. At most \<open>queue_size\<close> corrections wait on the connection of the publisher of
  line 37, whatever the interleaving of \<open>publish\<close> calls and writer-thread rounds.\<close>

theorem set_pose_queue_bounded:
  "length (cq_queue (pub_run conn_init evs)) \<le> set_pose_queue_size"
  using pub_run_queue_le_one by (simp add: set_pose_queue_size_def)

text \<open>C31. What the connection delivers is, in order, a subsequence of what the node
  published: nothing is invented, duplicated or reordered.\<close>

theorem set_pose_delivered_subseq:
  "subseq (cq_sent (pub_run conn_init evs)) (published_of evs)"
  using pub_run_subseq [of evs] prefix_imp_subseq [OF prefixI [OF refl]]
  by (blast intro: subseq_order.order_trans)

text \<open>C32. A correction published just before a writer-thread round is the one delivered
  in that round, and the only one: any correction still queued before it is dropped.\<close>

theorem set_pose_latest_delivered:
  "cq_sent (pub_run conn_init (evs @ [Publish m, WriterRound])) =
   cq_sent (pub_run conn_init evs) @ [m]"
proof -
  have "write_data set_pose_queue_size m (pub_run conn_init evs) = (pub_run conn_init evs)\<lparr>cq_queue := [m]\<rparr>"
    using pub_run_queue_le_one by (rule write_data_one)
  then show ?thesis
    using pub_run_snoc [of conn_init "evs @ [Publish m]" WriterRound]
    by (simp add: writer_round_def)
qed

text \<open>C33. Corrections are lost: of the corrections the node publishes while the
  connection's writer thread is not scheduled, only the last one is delivered when it
  runs; every earlier one is dropped by the queue of size 1.\<close>

theorem set_pose_burst_keeps_last:
  "cq_sent (snd (sys_run (s, conn_init) (map NodeEv es @ [WriterEv]))) =
     (let new = drop (length (published s)) (published (node_run s es)) in drop (length new - 1) new)"
proof -
  let ?new = "drop (length (published s)) (published (node_run s es))"
  have "length (cq_queue (conn_init :: pose_with_covariance_stamped queued_conn)) \<le> 1"
    by (simp add: conn_init_def)
  then have "pub_run conn_init (map Publish ?new) =
             conn_init\<lparr>cq_queue := (if ?new = [] then [] else [last ?new])\<rparr>"
    by (simp add: pub_run_publishes conn_init_def)
  moreover have "sys_run (s, conn_init) (map NodeEv es @ [WriterEv]) =
                 (node_run s es, writer_round (pub_run conn_init (map Publish ?new)))"
    by (simp add: sys_run_node_events)
  ultimately show ?thesis
    unfolding Let_def drop_butlast_length by (simp add: writer_round_def conn_init_def)
qed

text \<open>C34. What the estimator receives on \<open>/global/set_pose\<close>, whatever the interleaving
  of the node's events with rounds of the writer thread: every delivered correction is
  in the map frame, on the ground plane and carries the node's covariance, and their
  stamps are, in order, a subsequence of the stamps of the marker messages, so at most
  one correction per marker, in arrival order.\<close>

theorem set_pose_delivered_corrections:
  "list_all (correction_ok s) (cq_sent (snd (sys_run (s, conn_init) evs))) \<and>
   subseq (map pwcs_stamp (cq_sent (snd (sys_run (s, conn_init) evs)))) (marker_stamps (node_events evs))"
proof -
  obtain sched where
    r: "sys_run (s, conn_init) evs = (node_run s (node_events evs), pub_run conn_init sched)" and
    p: "published_of sched = drop (length (published s)) (published (node_run s (node_events evs)))"
    using sys_run_decomp by blast
  obtain new where n: "published (node_run s (node_events evs)) = published s @ new"
    "\<forall>q \<in> set new. correction_ok s q" "subseq (map pwcs_stamp new) (marker_stamps (node_events evs))"
    using node_run_published [of s "node_events evs"] by blast
  have "subseq (cq_sent (pub_run conn_init sched)) (published_of sched)"
    using pub_run_subseq [of sched] prefix_imp_subseq [OF prefixI [OF refl]]
    by (blast intro: subseq_order.order_trans)
  then have sub: "subseq (cq_sent (snd (sys_run (s, conn_init) evs))) new" using r p n(1) by simp
  have "list_all (correction_ok s) (cq_sent (snd (sys_run (s, conn_init) evs)))"
    using list_emb_set [OF sub] n(2) by (auto simp: list_all_iff)
  moreover have "subseq (map pwcs_stamp (cq_sent (snd (sys_run (s, conn_init) evs)))) (marker_stamps (node_events evs))"
    using subseq_map [OF sub, of pwcs_stamp] n(3) by (blast intro: subseq_order.order_trans)
  ultimately show ?thesis ..
qed

end
