(* ===== verification/Bootstrap.thy ===== *)
theory Bootstrap
  imports Node
begin

text \<open>
  Start-up of the node (\<open>static_svea_gps.__init__\<close>, lines 22--34): the node's name
  from \<open>rospy.init_node\<close> (line 24), the private parameter \<open>~aruco_pose_topic\<close> read with
  its default (line 27) and the topic the marker subscriber resolves (line 34). Names
  are resolved as \<open>rospy.names.resolve_name\<close> and \<open>rospy.names.namespace\<close> do, without
  remappings; the parameter server holds the string parameters by resolved name.
\<close>

type_synonym param_server = "string \<rightharpoonup> string"

text \<open>\<open>rospy.names.namespace\<close>: the parent namespace of a name, with its trailing
  slash.\<close>

definition namespace_of :: "string \<Rightarrow> string" where
  "namespace_of name =
     (if name = [] then ''/''
      else let n = (if last name = CHR ''/'' then butlast name else name);
               p = rev (dropWhile (\<lambda>c. c \<noteq> CHR ''/'') (rev n))
           in if p = [] then ''/'' else p)"

text \<open>\<open>rospy.names.resolve_name\<close> for a caller: global names are kept, private names
  (\<open>~\<close>) are placed under the caller, relative names under the caller's namespace.\<close>

definition resolve_name :: "string \<Rightarrow> string \<Rightarrow> string" where
  "resolve_name caller name =
     (if name = [] then namespace_of caller
      else if hd name = CHR ''/'' then name
      else if hd name = CHR ''~'' then caller @ ''/'' @ tl name
      else namespace_of caller @ name)"

text \<open>\<open>rospy.init_node('static_svea_gps')\<close> (line 24) in namespace \<open>ns\<close>
  (\<open>ROS_NAMESPACE\<close>, \<open>/\<close> by default).\<close>

definition node_name :: "string \<Rightarrow> string" where
  "node_name ns = ns @ ''static_svea_gps''"

text \<open>\<open>rospy.get_param(name, default)\<close> (line 27).\<close>

definition get_param :: "param_server \<Rightarrow> string \<Rightarrow> string \<Rightarrow> string \<Rightarrow> string" where
  "get_param ps caller name dflt =
     (case ps (resolve_name caller name) of Some v \<Rightarrow> v | None \<Rightarrow> dflt)"

text \<open>The constructor: lines 24--45, the topic parameter included.\<close>

definition node_boot :: "string \<Rightarrow> param_server \<Rightarrow> svea_node" where
  "node_boot ns ps =
     static_svea_gps_init (Some (get_param ps (node_name ns) ''~aruco_pose_topic'' ''aruco_pose''))"

text \<open>\<open>rospy.Subscriber(self.aruco_pose_topic, Marker, ...)\<close> (line 34): the topic the
  subscriber resolves.\<close>

definition subscribed_topic :: "string \<Rightarrow> svea_node \<Rightarrow> string" where
  "subscribed_topic ns s = resolve_name (node_name ns) (aruco_pose_topic s)"

text \<open>A namespace as \<open>rospy\<close> forms it: global, with a trailing slash.\<close>

definition ns_ok :: "string \<Rightarrow> bool" where
  "ns_ok ns \<longleftrightarrow> ns \<noteq> [] \<and> hd ns = CHR ''/'' \<and> last ns = CHR ''/''"

section \<open>Lemmas\<close>

lemma namespace_of_node_name:
  assumes "ns_ok ns"
  shows "namespace_of (node_name ns) = ns"
proof -
  have r: "rev (node_name ns) = rev ''static_svea_gps'' @ rev ns"
    by (simp add: node_name_def)
  obtain ns' where ns': "ns = ns' @ [CHR ''/'']"
    using assms by (cases ns rule: rev_cases) (auto simp: ns_ok_def)
  have "dropWhile (\<lambda>c. c \<noteq> CHR ''/'') (rev (node_name ns)) = rev ns"
    unfolding r by (simp add: ns')
  moreover have "CHR ''/'' \<in> set ns" using assms hd_in_set [of ns] by (simp add: ns_ok_def)
  ultimately show ?thesis using assms
    by (auto simp: namespace_of_def node_name_def Let_def ns_ok_def)
qed

lemma node_boot_topic:
  "aruco_pose_topic (node_boot ns ps) = get_param ps (node_name ns) ''~aruco_pose_topic'' ''aruco_pose''"
  by (simp add: node_boot_def static_svea_gps_init_def)

lemma node_boot_reachable: "reachable (node_boot ns ps)"
  by (simp add: node_boot_def reachable.init)

text \<open>C35. At start-up in a namespace \<open>ns\<close> the node reads its private parameter
  \<open>ns/static_svea_gps/aruco_pose_topic\<close> and subscribes to the topic it names, resolved
  against the node; without the parameter it subscribes to \<open>ns/aruco_pose\<close>.\<close>

theorem boot_subscription:
  assumes "ns_ok ns"
  shows "subscribed_topic ns (node_boot ns ps) =
           (case ps (ns @ ''static_svea_gps/aruco_pose_topic'') of
              None \<Rightarrow> ns @ ''aruco_pose''
            | Some t \<Rightarrow> resolve_name (ns @ ''static_svea_gps'') t)"
proof -
  have key: "resolve_name (node_name ns) ''~aruco_pose_topic'' = ns @ ''static_svea_gps/aruco_pose_topic''"
    by (simp add: resolve_name_def node_name_def)
  have dflt: "resolve_name (node_name ns) ''aruco_pose'' = ns @ ''aruco_pose''"
    using namespace_of_node_name [OF assms] by (simp add: resolve_name_def)
  show ?thesis
    using key dflt by (simp add: subscribed_topic_def node_boot_topic get_param_def node_name_def
        split: option.split)
qed

end
