(* ===== verification/Spec2Isabelle.thy ===== *)
theory Spec2Isabelle
  imports Refinement NodeRt Publisher Bootstrap
begin

text \<open>
  \<^bold>\<open>A verification model of the marker-based relocalisation node of svea_sensors.\<close>

  \<^bold>\<open>The program.\<close> \<open>src/src/svea_sensors/scripts/static_svea_pose.py\<close> is a ROS
  node (class \<open>static_svea_gps\<close>). Its constructor (\<open>__init__\<close>, lines 22--47) fixes
  a calibration table (marker ids 11 and 13 with their pose in the map frame, as
  translation lists and roll/pitch/yaw lists), two variances, a tf2 buffer with its
  listener, a publisher on \<open>/global/set_pose\<close> and a broadcaster. \<open>run\<close> (49--50)
  spins: each \<open>aruco_msgs/Marker\<close> message goes to \<open>aruco_callback\<close> (52--78),
  which ignores ids outside the table; for a known id it looks up the pose of
  \<open>base_link\<close> in the frame \<open>'aruco' + str(id)\<close> at the message's stamp, composes
  it with the calibrated pose of the marker (\<open>do_transform_pose\<close>), sets the height to
  zero and publishes it with a fixed diagonal covariance (\<open>publish_pose\<close>, 80--87,
  \<open>set_covariance\<close>, 98--104). Any exception in that block is logged and dropped.
  \<open>broadcast_aruco\<close> (89--96) is defined but its call is commented out.

  \<^bold>\<open>The theories.\<close>
  \<^item> \<open>Prelude\<close>: the time types, the exceptions (Python's and tf2's) as a datatype,
    and the Python builtins the node uses, with their failures as values:
    \<open>list.index\<close> (\<open>py_index\<close>), \<open>xs[i]\<close> (\<open>py_get\<close>), \<open>str\<close> of an integer
    and of a list (\<open>py_str_int\<close>, \<open>py_str_int_list\<close>), and \<open>int\<close> of a string
    (\<open>py_int\<close>) with the round trip \<open>py_int (py_str_int i) = Inr i\<close>.
  \<^item> \<open>Msgs\<close>: the ROS messages as records with genpy's defaults and positional
    constructors (\<open>Vector3(*xs)\<close> raises \<open>TypeError\<close> unless it gets 0 or 3
    numbers); the marker id is a 32-bit word.
  \<^item> \<open>Kdl\<close>: the geometry libraries the node calls, which are not part of the
    repository: \<open>quaternion_from_euler\<close> (tf.transformations), PyKDL's rotation
    matrices, frames, \<open>Rotation.Quaternion\<close>, \<open>GetQuaternion\<close>, and
    \<open>do_transform_pose\<close>. Their lemmas relate the matrix code to quaternion algebra:
    \<open>Rotation.Quaternion\<close> maps the Hamilton product to the matrix product and
    applies a point as \<open>q v q*\<close>; \<open>quaternion_from_euler\<close> returns unit
    quaternions; \<open>GetQuaternion\<close> inverts \<open>Rotation.Quaternion\<close> up to sign on
    unit quaternions, branch by branch, and exactly when the trace branch is taken
    with \<open>w > 0\<close>. The closed form of \<open>quaternion_from_euler\<close> equals the product
    of the three axis rotations (C17).
  \<^item> \<open>Tf2Cache\<close>: the history tf2 keeps per frame (\<open>tf2::TimeCache\<close>, created by
    \<open>Buffer(rospy.Duration(10))\<close> on line 45, \<open>buffer_cache_time\<close>): sorted insertion
    that refuses data older than the window or with a stamp already stored and prunes
    (\<open>insert_data\<close>), and the lookup at a time with interpolation (\<open>get_data\<close>, \<open>slerp\<close>). Pruning by popping the
    oldest entry is filtering by the window (\<open>prune_list_filter\<close>); insertion keeps
    the window invariant (C18); lookups older than the window fail (C19); a lookup at
    an inserted stamp returns the inserted transform (C20).
  \<^item> \<open>Calibration\<close>: the node's state (\<open>svea_node\<close>, one field per attribute;
    the publisher, broadcaster and log are the lists of what was sent), the constructor
    \<open>static_svea_gps_init\<close>, the table lookup as the callback performs it
    (\<open>calib_lookup\<close>), its abstract meaning (\<open>calib_map\<close>, a map from id to pose)
    and the well-formedness the spec asks of a configuration (\<open>wf_calibration\<close>).
  \<^item> \<open>Engine\<close>: the callback and the methods it calls. \<open>aruco_callback\<close> takes the
    state and the message and returns both, since it writes into the message's header.
    \<open>relocalize\<close> is the abstract specification of the composition (spec 4.2, step
    4) in quaternion form.
  \<^item> \<open>Node\<close>: the event loop (\<open>node_step\<close>, \<open>node_run\<close> over marker messages and
    buffer updates, in arrival order) and the reachable states (\<open>reachable\<close>).
  \<^item> \<open>Refinement\<close>: the node as the spec describes it (\<open>spec_run\<close>: the
    calibration as a map, the buffer, one correction per resolvable known-marker
    observation, in arrival order) and the simulation theorem that \<open>node_run\<close>
    implements it (\<open>corresponds\<close> relates a published message to a specified
    correction: same position and stamp, same rotation).
  \<^item> \<open>Tf2Core\<close>: \<open>tf2::BufferCore\<close> as the node's buffer uses it: the frame table
    with a dynamic and a static cache per frame (\<open>tf_core\<close>), \<open>setTransform\<close>
    (\<open>set_transform\<close>, with its refusals), the two walks of \<open>walkToTopParent\<close> and of
    \<open>getLatestCommonTime\<close> (\<open>walk_src\<close>, \<open>walk_tgt\<close>, \<open>lct_src\<close>, \<open>lct_tgt\<close>),
    bounded as in tf2 by \<open>MAX_GRAPH_DEPTH = 1000\<close> (\<open>max_graph_depth\<close>, the
    termination measure), and \<open>lookupTransform\<close> (\<open>lookup_core\<close>). Its abstract
    specification is the frame graph as an inductive relation (\<open>tf_path\<close>) with the
    composed transform (\<open>tf_apply\<close>): a lookup along a path undoes the chain.
  \<^item> \<open>NodeRt\<close>: the running node in wall-clock time. \<open>Buffer.lookup_transform\<close>
    (line 57) is \<open>can_transform\<close>'s 20 Hz polling loop (\<open>poll\<close>, terminating by
    the measure \<open>deadline - now\<close>; \<open>can_transform_wait\<close>) followed by the core
    lookup (\<open>lookup_transform_py\<close>). The listener thread's buffer is the fold of the
    received \<open>/tf\<close> messages by arrival time (\<open>listener_world\<close>, \<open>node_buffer\<close>);
    the subscriber thread runs one callback at a time with its own clock
    (\<open>rt_run\<close>), and \<open>rt_trace\<close> maps its run to an event list of \<open>Node\<close>
    (\<open>rt_run_node_run\<close>, a simulation).
  \<^item> \<open>Publisher\<close>: the publisher of line 37 (\<open>queue_size=1\<close>) and rospy's
    \<open>QueuedConnection\<close> behind it: \<open>write_data\<close> (append, drop the oldest beyond the
    queue size), one round of the writer thread (\<open>writer_round\<close>), the publish call of
    line 87 (\<open>pub_step\<close>), schedules of the two threads as event lists
    (\<open>pub_run\<close>), and the node composed with its publisher (\<open>sys_step\<close>,
    \<open>sys_run\<close>).
  \<^item> \<open>Bootstrap\<close>: \<open>rospy.init_node\<close>'s name (line 24), \<open>rospy.get_param\<close> of the
    private topic parameter (line 27) through \<open>rospy.names.resolve_name\<close>, the
    constructor with it (\<open>node_boot\<close>) and the subscribed topic (line 34).
  \<^item> this theory: the scenarios of spec section 8 run through the whole node, the
    runtime scenario of the bounded wait, and the witnesses of the properties.

  \<^bold>\<open>What is proved.\<close> The callback refines the specification: for a well-formed
  calibration and a unit rotation from the buffer it publishes exactly one correction,
  with the specified position at height zero and the specified rotation up to the sign
  of the quaternion (C1); with the identity transform the calibration comes back (C3).
  Unknown markers change nothing, and leave no log line (C2); the covariance is the
  specified diagonal matrix (C5); lookup failures are logged and isolated (C6, C7); the
  table lookup refines a map (C8); marker frames are distinct (C9) and well formed
  (C29). Every reachable state keeps the configuration and has only planar, well-shaped
  corrections (C4, C12); runs publish at most one correction per marker, in arrival
  order (C13, C14). Where the code departs from the spec, the theorems say what it does:
  it writes \<open>'map'\<close> into the incoming header (C10) and publishes a zero rotation from
  the buffer as a non-unit quaternion (C11). The whole node refines the specified node
  (C16), and the spec's first scenario holds of the constructed node, with the exact
  published orientation (C15): its \<open>w = cos\<^sup>2 0.785\<close> is bounded below by the
  sixth-order Taylor polynomial of \<open>cos\<close> (\<open>Prelude.cos_taylor6_lower\<close>), which puts
  \<open>GetQuaternion\<close> on its trace branch with a positive sign.
  The tf2 buffer keeps its 10 s window (C18, C19) and returns inserted data (C20); the
  node's lookup refines the composition of the frame chain (C21); its wait ends within
  0.55 s (C22), succeeds when the data arrives in time (C23) and never reports a timeout
  of its own (C24). The running node is the event loop run on its marker messages, each
  once and in arrival order, with the buffer as the listener has filled it when the
  callback starts (C25); markers queue behind blocked lookups (C26) and corrections stay
  in arrival order (C27); the spec's bounded-wait scenario runs end to end (C28). On the
  publisher, at most one correction waits (C30), deliveries are an ordered subsequence
  of publications (C31), the newest correction goes out at the next writer round (C32),
  and a burst of corrections loses all but its last (C33). End to end, the estimator
  receives only well-shaped corrections, at most one per marker and in arrival order,
  whatever the two threads' interleaving (C34). At start-up the node subscribes to the
  topic of its private parameter, or to \<open>aruco_pose\<close> in its namespace (C35).

  \<^bold>\<open>Modelling choices.\<close> Floating-point numbers are reals: rounding, NaN and
  infinities are not modelled, so \<open>GetQuaternion\<close>'s \<open>epsilon = 1e-12\<close> is the
  only tolerance. A ROS time is an integer number of nanoseconds. In \<open>Node\<close> the tf2
  buffer is the lookup function the callback calls, replaced by the listener's events;
  \<open>Tf2Cache\<close>, \<open>Tf2Core\<close> and \<open>NodeRt\<close> model what stands behind it, and
  \<open>node_buffer\<close> is that function at each instant. Threads are explicit: the
  subscriber thread's clock in \<open>rt_run\<close>, the writer thread's rounds as events of a
  schedule in \<open>Publisher\<close>; any interleaving is an input. Logging is the list of what
  would be logged. No loop needs fuel: the polling loop terminates by the measure
  \<open>deadline - now\<close> (each period adds 50 ms), the frame walks by
  \<open>MAX_GRAPH_DEPTH\<close> as in tf2 (deeper graphs are reported as loops), and the rest
  recurses over lists and decimal digits.

  \<^bold>\<open>Not modelled.\<close> The ROS master, the network transport and message
  serialisation (the publisher's \<open>seq\<close> included); \<open>rospy.Rate\<close>'s drift (each sleep
  is exactly one period); tf2's NaN and authority checks, which only log;
  transformable-request callbacks and lookups with two times, which the node never
  uses; remappings of names; parameter values of types other than strings; a
  connection whose write fails. The marker detector and the estimator that consumes
  \<open>/global/set_pose\<close> are outside the repository.

  \<^bold>\<open>Plan.\<close> Done: every operation of the node's source, the library code it
  calls, the threads it runs in, and the properties above. Next: the tf2 lookup between
  two frames that are both below a common ancestor (not only towards a root), and the
  composed system of \<open>rt_run\<close> with the publisher's writer thread under one clock.
\<close>

section \<open>The scenarios of the spec\<close>

text \<open>The transform of the spec's first scenario: zero translation, identity rotation.\<close>

definition ident_tf :: transform_stamped where
  "ident_tf =
     default_transform_stamped
       \<lparr>ts_transform := \<lparr>translation = \<lparr>vx = 0, vy = 0, vz = 0\<rparr>,
                          rotation = \<lparr>qx = 0, qy = 0, qz = 0, qw = 1\<rparr>\<rparr>\<rparr>"

definition ident_buffer :: tf_buffer where
  "ident_buffer = (\<lambda>target source time timeout. Inr ident_tf)"

definition zero_rot_buffer :: tf_buffer where
  "zero_rot_buffer =
     (\<lambda>target source time timeout. Inr (ident_tf\<lparr>ts_transform := (ts_transform ident_tf)\<lparr>rotation := default_quat\<rparr>\<rparr>))"

text \<open>A detection of marker \<open>i\<close> at \<open>t = 100 s\<close>.\<close>

definition marker_obs :: "32 word \<Rightarrow> marker" where
  "marker_obs i =
     \<lparr>m_header = default_header\<lparr>hdr_stamp := 100000000000, hdr_frame_id := ''usb_cam''\<rparr>,
      m_id = i, m_pose = \<lparr>pwc_pose = default_pose, covariance = replicate 36 0\<rparr>,
      m_confidence = 1\<rparr>"

definition demo_node :: svea_node where
  "demo_node = (static_svea_gps_init None)\<lparr>buffer := ident_buffer\<rparr>"

text \<open>A stored transform of the edge \<open>parent \<rightarrow> child\<close> at time \<open>t\<close>, one metre
  along \<open>x\<close>.\<close>

definition tf_edge :: "string \<Rightarrow> string \<Rightarrow> stamp \<Rightarrow> transform_stamped" where
  "tf_edge parent child t =
     \<lparr>ts_header = \<lparr>hdr_seq = 0, hdr_stamp = t, hdr_frame_id = parent\<rparr>, child_frame_id = child,
      ts_transform = \<lparr>translation = \<lparr>vx = 1, vy = 0, vz = 0\<rparr>,
                      rotation = \<lparr>qx = 0, qy = 0, qz = 0, qw = 1\<rparr>\<rparr>\<rparr>"

abbreviation cam_tf :: "stamp \<Rightarrow> transform_stamped" where
  "cam_tf t \<equiv> tf_edge ''usb_cam'' ''aruco11'' t"

text \<open>The buffer with the static camera mount \<open>base_link \<rightarrow> usb_cam\<close> alone, and
  after one detection \<open>usb_cam \<rightarrow> aruco11\<close> stamped 5 s.\<close>

definition mount_core :: tf_core where
  "mount_core = fst (set_transform True (tf_edge ''base_link'' ''usb_cam'' 0) (tf_core_init buffer_cache_time))"

definition demo_core :: tf_core where
  "demo_core = fst (set_transform False (cam_tf 5000000000) mount_core)"

text \<open>What the listener receives: the mount on \<open>/tf_static\<close> at 0 s, and the detection
  stamped 5 s on \<open>/tf\<close> at time \<open>d\<close>.\<close>

definition tf_feed :: "stamp \<Rightarrow> tf_msgs" where
  "tf_feed d = [(0, True, [tf_edge ''base_link'' ''usb_cam'' 0]), (d, False, [cam_tf 5000000000])]"

text \<open>The detection reaches the buffer 0.1 s after the marker message, or 0.6 s after.\<close>

definition late_world :: tf_world where
  "late_world = listener_world (tf_feed 5100000000)"

definition very_late_world :: tf_world where
  "very_late_world = listener_world (tf_feed 5600000000)"

text \<open>Marker 11 detected in an image stamped 5 s.\<close>

definition marker5 :: marker where
  "marker5 = (marker_obs 11)\<lparr>m_header := (m_header (marker_obs 11))\<lparr>hdr_stamp := 5000000000\<rparr>\<rparr>"

text \<open>What the buffer answers for marker 11 at 5 s: \<open>base_link\<close> seen from the marker.\<close>

definition demo_lookup :: transform_stamped where
  "demo_lookup =
     default_transform_stamped
       \<lparr>ts_header := default_header\<lparr>hdr_stamp := 5000000000, hdr_frame_id := ''aruco11''\<rparr>,
        child_frame_id := ''base_link'',
        ts_transform := \<lparr>translation = \<lparr>vx = - 2, vy = 0, vz = 0\<rparr>, rotation = \<lparr>qx = 0, qy = 0, qz = 0, qw = 1\<rparr>\<rparr>\<rparr>"

lemma demo_node_wf: "wf_calibration demo_node"
  by (simp add: demo_node_def static_svea_gps_init_def wf_calibration_def)

lemma init_wf: "wf_calibration (static_svea_gps_init None)"
  by (simp add: static_svea_gps_init_def wf_calibration_def)

lemma demo_node_buffer: "buffer demo_node target source time timeout = Inr ident_tf"
  by (simp add: demo_node_def ident_buffer_def)

lemma marker_obs_simps [simp]:
  "m_id (marker_obs i) = i" "hdr_stamp (m_header (marker_obs i)) = 100000000000"
  by (simp_all add: marker_obs_def default_header_def)

lemma aruco_frame_11: "aruco_frame 11 = ''aruco11''"
  by code_simp

lemma demo_k0: "0 < length (aruco_id demo_node)" "uint (m_id (marker_obs 11)) = aruco_id demo_node ! 0"
  by (simp_all add: demo_node_def static_svea_gps_init_def)

lemma init_landmark_11: "uint (m_id (marker_obs 11)) \<in> set (aruco_id (static_svea_gps_init None))"
  by (simp add: static_svea_gps_init_def)

lemma init_lookup_fails:
  "buffer (static_svea_gps_init None) target source time timeout = Inl LookupException"
  by (simp add: static_svea_gps_init_def empty_buffer_def)

lemma reachable_demo_run:
  "reachable (node_run (static_svea_gps_init None) [TfUpdate ident_buffer, ArucoMsg (marker_obs 11)])"
proof -
  have "reachable (node_step (node_step (static_svea_gps_init None) (TfUpdate ident_buffer)) (ArucoMsg (marker_obs 11)))"
    by (intro reachable.step reachable.init)
  then show ?thesis by simp
qed

lemma cos_0785: "7072 / 10000 < cos (157 / 200 :: real)"
proof -
  have "7072 / 10000 < 1 - (157 / 200 :: real) ^ 2 / 2 + (157 / 200) ^ 4 / 24 - (157 / 200) ^ 6 / 720"
    by (simp add: power_divide)
  also have "\<dots> \<le> cos (157 / 200)" by (rule cos_taylor6_lower) simp
  finally show ?thesis .
qed

text \<open>The calibrated orientation of marker 11 has \<open>w = cos\<^sup>2 0.785 > 0.5\<close>, so
  \<open>GetQuaternion\<close> takes its trace branch and gives it back with its own sign.\<close>

lemma euler_11_exact:
  "get_quaternion (rot_of (quaternion_from_euler 1.57 0 1.57)) = quaternion_from_euler 1.57 0 1.57"
proof (rule get_quaternion_rot_of_pos)
  have w: "qw (quaternion_from_euler 1.57 0 1.57) = cos (157 / 200) ^ 2"
    by (simp add: quaternion_from_euler_def Let_def power2_eq_square)
  have "(7072 / 10000) ^ 4 < cos (157 / 200 :: real) ^ 4"
    by (rule power_strict_mono [OF cos_0785]) simp_all
  then show "1 / 10 ^ 12 < 4 * qw (quaternion_from_euler 1.57 0 1.57) ^ 2 - 1"
    by (subst w) (simp add: power_divide flip: power_mult)
  show "0 < qw (quaternion_from_euler 1.57 0 1.57)"
    using cos_0785 by (subst w) simp
qed (rule qnorm2_euler)

text \<open>C15. Spec section 8, first scenario: after the listener has the identity
  transform, a detection of marker 11 at 100 s makes the node publish exactly one
  correction: position \<open>(-2.615, 0, 0)\<close>, the orientation of the Euler angles
  \<open>(1.57, 0, 1.57)\<close> with its own sign, stamp 100 s, frame \<open>map\<close>, covariance
  \<open>diag(1e-6, ..., 1e-6)\<close>.\<close>

theorem spec_scenario_marker_11:
  "published (node_run (static_svea_gps_init None) [TfUpdate ident_buffer, ArucoMsg (marker_obs 11)])
     = [pose_msg (static_svea_gps_init None) \<lparr>vx = - 2.615, vy = 0, vz = 0\<rparr>
          (quaternion_from_euler 1.57 0 1.57) 100000000000]"
proof -
  have run: "node_run (static_svea_gps_init None) [TfUpdate ident_buffer, ArucoMsg (marker_obs 11)]
             = fst (aruco_callback demo_node (marker_obs 11))"
    by (simp add: demo_node_def)
  have k: "0 < length (aruco_id demo_node)" "uint (m_id (marker_obs 11)) = aruco_id demo_node ! 0"
    by (simp_all add: demo_node_def static_svea_gps_init_def)
  have p: "published (fst (aruco_callback demo_node (marker_obs 11))) =
           [pose_msg demo_node (planar (fst (relocalize (calib_entry (aruco_pose demo_node ! 0) (aruco_ori demo_node ! 0)) (ts_transform ident_tf))))
              (get_quaternion (rot_of (snd (relocalize (calib_entry (aruco_pose demo_node ! 0) (aruco_ori demo_node ! 0)) (ts_transform ident_tf)))))
              100000000000]"
    using aruco_callback_published [OF demo_node_wf k demo_node_buffer]
    by (simp add: demo_node_def static_svea_gps_init_def)
  have r: "relocalize (calib_entry (aruco_pose demo_node ! 0) (aruco_ori demo_node ! 0)) (ts_transform ident_tf)
           = (\<lparr>vx = - 2.615, vy = 0, vz = 0\<rparr>, quaternion_from_euler 1.57 0 1.57)"
    by (simp add: demo_node_def static_svea_gps_init_def ident_tf_def default_transform_stamped_def
        relocalize_def calib_entry_def quat_rotate_def qmul_def qconj_def pure_def vec_part_def vec_add_def)
  have m: "pose_msg demo_node = pose_msg (static_svea_gps_init None)"
    by (simp add: demo_node_def pose_msg_def set_covariance_def fun_eq_iff)
  show ?thesis using run p r m euler_11_exact by (simp add: planar_def)
qed

section \<open>Witnesses\<close>

theorem callback_publishes_relocalized_pose_witness:
  "wf_calibration demo_node \<and> 0 < length (aruco_id demo_node) \<and>
   uint (m_id (marker_obs 11)) = aruco_id demo_node ! 0 \<and>
   buffer demo_node (aruco_frame (m_id (marker_obs 11))) ''base_link''
     (hdr_stamp (m_header (marker_obs 11))) lookup_timeout = Inr ident_tf \<and>
   qnorm2 (rotation (ts_transform ident_tf)) = 1 \<and>
   (\<exists>q. published (fst (aruco_callback demo_node (marker_obs 11))) = published demo_node @
      [pose_msg demo_node (planar (fst (relocalize (calib_entry (aruco_pose demo_node ! 0) (aruco_ori demo_node ! 0)) (ts_transform ident_tf))))
         q (hdr_stamp (m_header (marker_obs 11)))] \<and>
      (q = snd (relocalize (calib_entry (aruco_pose demo_node ! 0) (aruco_ori demo_node ! 0)) (ts_transform ident_tf)) \<or>
       q = qneg (snd (relocalize (calib_entry (aruco_pose demo_node ! 0) (aruco_ori demo_node ! 0)) (ts_transform ident_tf)))))"
proof -
  have k: "0 < length (aruco_id demo_node)" "uint (m_id (marker_obs 11)) = aruco_id demo_node ! 0"
    by (simp_all add: demo_node_def static_svea_gps_init_def)
  have u: "qnorm2 (rotation (ts_transform ident_tf)) = 1"
    by (simp add: ident_tf_def default_transform_stamped_def qnorm2_def)
  show ?thesis
    using callback_publishes_relocalized_pose [OF demo_node_wf k demo_node_buffer u]
      demo_node_wf k demo_node_buffer u by blast
qed

theorem unknown_marker_noop_witness:
  "\<not> is_landmark (static_svea_gps_init None) (m_id (marker_obs 7)) \<and>
   node_step (static_svea_gps_init None) (ArucoMsg (marker_obs 7)) = static_svea_gps_init None"
proof -
  have h: "\<not> is_landmark (static_svea_gps_init None) (m_id (marker_obs 7))"
    by (simp add: is_landmark_def static_svea_gps_init_def)
  show ?thesis using h unknown_marker_noop [OF h] by blast
qed

theorem identity_transform_roundtrip_witness:
  "wf_calibration demo_node \<and> 0 < length (aruco_id demo_node) \<and>
   uint (m_id (marker_obs 11)) = aruco_id demo_node ! 0 \<and>
   buffer demo_node (aruco_frame (m_id (marker_obs 11))) ''base_link''
     (hdr_stamp (m_header (marker_obs 11))) lookup_timeout = Inr ident_tf \<and>
   ts_transform ident_tf = \<lparr>translation = \<lparr>vx = 0, vy = 0, vz = 0\<rparr>,
                              rotation = \<lparr>qx = 0, qy = 0, qz = 0, qw = 1\<rparr>\<rparr> \<and>
   (\<exists>q'. published (fst (aruco_callback demo_node (marker_obs 11))) = published demo_node @
      [pose_msg demo_node \<lparr>vx = aruco_pose demo_node ! 0 ! 0, vy = aruco_pose demo_node ! 0 ! 1, vz = 0\<rparr>
         q' (hdr_stamp (m_header (marker_obs 11)))] \<and>
      (q' = quaternion_from_euler (aruco_ori demo_node ! 0 ! 0) (aruco_ori demo_node ! 0 ! 1) (aruco_ori demo_node ! 0 ! 2) \<or>
       q' = qneg (quaternion_from_euler (aruco_ori demo_node ! 0 ! 0) (aruco_ori demo_node ! 0 ! 1) (aruco_ori demo_node ! 0 ! 2))))"
proof -
  have i: "ts_transform ident_tf = \<lparr>translation = \<lparr>vx = 0, vy = 0, vz = 0\<rparr>,
                              rotation = \<lparr>qx = 0, qy = 0, qz = 0, qw = 1\<rparr>\<rparr>"
    by (simp add: ident_tf_def default_transform_stamped_def)
  show ?thesis
    using identity_transform_roundtrip [OF demo_node_wf demo_k0 demo_node_buffer i]
      demo_node_wf demo_k0 demo_node_buffer i by blast
qed

theorem reachable_corrections_planar_witness:
  "reachable (node_run (static_svea_gps_init None) [TfUpdate ident_buffer, ArucoMsg (marker_obs 11)]) \<and>
   0 < length (published (node_run (static_svea_gps_init None) [TfUpdate ident_buffer, ArucoMsg (marker_obs 11)])) \<and>
   correction_ok (node_run (static_svea_gps_init None) [TfUpdate ident_buffer, ArucoMsg (marker_obs 11)])
     (published (node_run (static_svea_gps_init None) [TfUpdate ident_buffer, ArucoMsg (marker_obs 11)]) ! 0)"
proof -
  have "length (published (node_run (static_svea_gps_init None) [TfUpdate ident_buffer, ArucoMsg (marker_obs 11)])) = 1"
    using aruco_callback_published [OF demo_node_wf demo_k0 demo_node_buffer]
    by (simp add: demo_node_def static_svea_gps_init_def)
  then show ?thesis
    using reachable_corrections_planar [OF reachable_demo_run] reachable_demo_run by simp
qed

theorem set_covariance_shape_witness:
  "length (set_covariance demo_node) = 36 \<and>
   set_covariance demo_node ! (6 * 1 + 1) = lin_cov demo_node \<and>
   set_covariance demo_node ! (6 * 4 + 4) = ang_cov demo_node \<and>
   set_covariance demo_node ! (6 * 0 + 1) = 0"
proof -
  have h: "\<forall>i<6. \<forall>j<6. set_covariance demo_node ! (6 * i + j) =
      (if i = j then (if i < 3 then lin_cov demo_node else ang_cov demo_node) else 0)"
    using set_covariance_shape [of demo_node] by blast
  have "set_covariance demo_node ! (6 * 1 + 1) = lin_cov demo_node" using h [rule_format, of 1 1] by simp
  moreover have "set_covariance demo_node ! (6 * 4 + 4) = ang_cov demo_node" using h [rule_format, of 4 4] by simp
  moreover have "set_covariance demo_node ! (6 * 0 + 1) = 0" using h [rule_format, of 0 1] by simp
  ultimately show ?thesis using set_covariance_shape [of demo_node] by blast
qed

theorem tf_failure_isolated_witness:
  "uint (m_id (marker_obs 11)) \<in> set (aruco_id (static_svea_gps_init None)) \<and>
   buffer (static_svea_gps_init None) (aruco_frame (m_id (marker_obs 11))) ''base_link''
     (hdr_stamp (m_header (marker_obs 11))) lookup_timeout = Inl LookupException \<and>
   published (node_run (static_svea_gps_init None)
      [ArucoMsg (marker_obs 11), TfUpdate ident_buffer, ArucoMsg (marker_obs 11)]) =
   published (node_run (static_svea_gps_init None) [TfUpdate ident_buffer, ArucoMsg (marker_obs 11)])"
  using tf_failure_isolated [OF init_landmark_11 init_lookup_fails, of "[TfUpdate ident_buffer, ArucoMsg (marker_obs 11)]"]
    init_landmark_11 init_lookup_fails by blast

theorem tf_failure_dropped_witness:
  "uint (m_id (marker_obs 11)) \<in> set (aruco_id (static_svea_gps_init None)) \<and>
   buffer (static_svea_gps_init None) (aruco_frame (m_id (marker_obs 11))) ''base_link''
     (hdr_stamp (m_header (marker_obs 11))) lookup_timeout = Inl LookupException \<and>
   aruco_callback (static_svea_gps_init None) (marker_obs 11) =
     ((static_svea_gps_init None)\<lparr>log := log (static_svea_gps_init None) @ [ExceptionLog (TfException LookupException)]\<rparr>,
      marker_obs 11)"
  using tf_failure_dropped [OF init_landmark_11 init_lookup_fails] init_landmark_11 init_lookup_fails by blast

theorem calib_lookup_refines_map_witness:
  "wf_calibration demo_node \<and>
   calib_lookup demo_node 13 = (case calib_map demo_node 13 of None \<Rightarrow> Inl ValueError | Some c \<Rightarrow> Inr c)"
  using calib_lookup_refines_map [OF demo_node_wf] demo_node_wf by blast

theorem callback_renames_msg_header_witness:
  "uint (m_id (marker_obs 11)) \<in> set (aruco_id demo_node) \<and>
   buffer demo_node (aruco_frame (m_id (marker_obs 11))) ''base_link''
     (hdr_stamp (m_header (marker_obs 11))) lookup_timeout = Inr ident_tf \<and>
   snd (aruco_callback demo_node (marker_obs 11)) =
     (marker_obs 11)\<lparr>m_header := (m_header (marker_obs 11))\<lparr>hdr_frame_id := ''map''\<rparr>\<rparr>"
proof -
  have h: "uint (m_id (marker_obs 11)) \<in> set (aruco_id demo_node)"
    by (simp add: demo_node_def static_svea_gps_init_def)
  show ?thesis using callback_renames_msg_header [OF h demo_node_buffer] h demo_node_buffer by blast
qed

theorem zero_rotation_published_witness:
  "wf_calibration (demo_node\<lparr>buffer := zero_rot_buffer\<rparr>) \<and>
   0 < length (aruco_id (demo_node\<lparr>buffer := zero_rot_buffer\<rparr>)) \<and>
   uint (m_id (marker_obs 11)) = aruco_id (demo_node\<lparr>buffer := zero_rot_buffer\<rparr>) ! 0 \<and>
   buffer (demo_node\<lparr>buffer := zero_rot_buffer\<rparr>) (aruco_frame (m_id (marker_obs 11))) ''base_link''
     (hdr_stamp (m_header (marker_obs 11))) lookup_timeout =
     Inr (ident_tf\<lparr>ts_transform := (ts_transform ident_tf)\<lparr>rotation := default_quat\<rparr>\<rparr>) \<and>
   rotation (ts_transform (ident_tf\<lparr>ts_transform := (ts_transform ident_tf)\<lparr>rotation := default_quat\<rparr>\<rparr>)) = default_quat \<and>
   published (fst (aruco_callback (demo_node\<lparr>buffer := zero_rot_buffer\<rparr>) (marker_obs 11))) =
     published (demo_node\<lparr>buffer := zero_rot_buffer\<rparr>) @
     [pose_msg (demo_node\<lparr>buffer := zero_rot_buffer\<rparr>)
        (planar (fst (relocalize (calib_entry (aruco_pose (demo_node\<lparr>buffer := zero_rot_buffer\<rparr>) ! 0)
                                                (aruco_ori (demo_node\<lparr>buffer := zero_rot_buffer\<rparr>) ! 0))
                                  (ts_transform (ident_tf\<lparr>ts_transform := (ts_transform ident_tf)\<lparr>rotation := default_quat\<rparr>\<rparr>)))))
        \<lparr>qx = 0, qy = 0, qz = 1 / 2, qw = 0\<rparr> (hdr_stamp (m_header (marker_obs 11)))] \<and>
   qnorm2 \<lparr>qx = 0, qy = 0, qz = 1 / 2, qw = 0\<rparr> \<noteq> 1"
proof -
  let ?s = "demo_node\<lparr>buffer := zero_rot_buffer\<rparr>"
  let ?T = "ident_tf\<lparr>ts_transform := (ts_transform ident_tf)\<lparr>rotation := default_quat\<rparr>\<rparr>"
  have h: "wf_calibration ?s" "0 < length (aruco_id ?s)" "uint (m_id (marker_obs 11)) = aruco_id ?s ! 0"
    "buffer ?s (aruco_frame (m_id (marker_obs 11))) ''base_link'' (hdr_stamp (m_header (marker_obs 11))) lookup_timeout = Inr ?T"
    "rotation (ts_transform ?T) = default_quat"
    by (simp_all add: demo_node_def static_svea_gps_init_def wf_calibration_def zero_rot_buffer_def)
  show ?thesis using zero_rotation_published [OF h] h by blast
qed

theorem reachable_config_fixed_witness:
  "reachable (node_run (static_svea_gps_init None) [TfUpdate ident_buffer, ArucoMsg (marker_obs 11)]) \<and>
   wf_calibration (node_run (static_svea_gps_init None) [TfUpdate ident_buffer, ArucoMsg (marker_obs 11)]) \<and>
   sent_transforms (node_run (static_svea_gps_init None) [TfUpdate ident_buffer, ArucoMsg (marker_obs 11)]) = [] \<and>
   aruco_id (node_run (static_svea_gps_init None) [TfUpdate ident_buffer, ArucoMsg (marker_obs 11)]) = [11, 13]"
  using reachable_config_fixed [OF reachable_demo_run] reachable_demo_run by blast

theorem node_run_refines_spec_witness:
  "wf_calibration demo_node \<and> unit_buffer (buffer demo_node) \<and>
   (\<exists>new. published (node_run demo_node [ArucoMsg (marker_obs 11), ArucoMsg (marker_obs 7)]) =
      published demo_node @ new \<and>
      list_all2 (corresponds demo_node) new
        (spec_run (calib_map demo_node) (buffer demo_node) [ArucoMsg (marker_obs 11), ArucoMsg (marker_obs 7)]))"
proof -
  have u: "unit_buffer (buffer demo_node)"
    by (simp add: unit_buffer_def demo_node_buffer ident_tf_def default_transform_stamped_def qnorm2_def)
  have e: "\<forall>b. TfUpdate b \<in> set [ArucoMsg (marker_obs 11), ArucoMsg (marker_obs 7)] \<longrightarrow> unit_buffer b"
    by simp
  show ?thesis using node_run_refines_spec [OF demo_node_wf u e] demo_node_wf u by blast
qed

theorem insert_data_keeps_window_witness:
  "cache_ok buffer_cache_time [cam_tf 9000000000, cam_tf 5000000000] \<and>
   insert_data buffer_cache_time (cam_tf 7000000000) [cam_tf 9000000000, cam_tf 5000000000]
     = Some [cam_tf 9000000000, cam_tf 7000000000, cam_tf 5000000000] \<and>
   cache_ok buffer_cache_time [cam_tf 9000000000, cam_tf 7000000000, cam_tf 5000000000]"
proof -
  have c: "cache_ok buffer_cache_time [cam_tf 9000000000, cam_tf 5000000000]"
    by (simp add: cache_ok_def tf_edge_def buffer_cache_time_def)
  have i: "insert_data buffer_cache_time (cam_tf 7000000000) [cam_tf 9000000000, cam_tf 5000000000]
             = Some [cam_tf 9000000000, cam_tf 7000000000, cam_tf 5000000000]"
    by (simp add: insert_data_def prune_list_def tf_edge_def buffer_cache_time_def)
  show ?thesis using c i insert_data_keeps_window [OF c i] by simp
qed

theorem get_data_outside_window_witness:
  "cache_ok buffer_cache_time [cam_tf 20000000000, cam_tf 15000000000] \<and>
   (3000000000::stamp) \<noteq> 0 \<and> 3000000000 + buffer_cache_time < st_stamp (cam_tf 20000000000) \<and>
   get_data 3000000000 [cam_tf 20000000000, cam_tf 15000000000] = None"
proof -
  have c: "cache_ok buffer_cache_time [cam_tf 20000000000, cam_tf 15000000000]"
    by (simp add: cache_ok_def tf_edge_def buffer_cache_time_def)
  have t: "(3000000000::stamp) + buffer_cache_time < st_stamp (hd [cam_tf 20000000000, cam_tf 15000000000])"
    by (simp add: tf_edge_def buffer_cache_time_def)
  show ?thesis using c t get_data_outside_window [OF c _ _ t] by (simp add: tf_edge_def buffer_cache_time_def)
qed

theorem insert_get_roundtrip_witness:
  "cache_ok buffer_cache_time [cam_tf 9000000000, cam_tf 5000000000] \<and>
   insert_data buffer_cache_time (cam_tf 7000000000) [cam_tf 9000000000, cam_tf 5000000000]
     = Some [cam_tf 9000000000, cam_tf 7000000000, cam_tf 5000000000] \<and>
   get_data 7000000000 [cam_tf 9000000000, cam_tf 7000000000, cam_tf 5000000000] = Some (cam_tf 7000000000)"
proof -
  have c: "cache_ok buffer_cache_time [cam_tf 9000000000, cam_tf 5000000000]"
    by (simp add: cache_ok_def tf_edge_def buffer_cache_time_def)
  have i: "insert_data buffer_cache_time (cam_tf 7000000000) [cam_tf 9000000000, cam_tf 5000000000]
             = Some [cam_tf 9000000000, cam_tf 7000000000, cam_tf 5000000000]"
    by (simp add: insert_data_def prune_list_def tf_edge_def buffer_cache_time_def)
  have u: "st_stamp (cam_tf 7000000000) \<notin> st_stamp ` set [cam_tf 9000000000, cam_tf 5000000000]"
    by (simp add: tf_edge_def)
  show ?thesis using c i insert_get_roundtrip [OF c i _ u] by (simp add: tf_edge_def)
qed

lemma demo_core_simps:
  "frame_ids demo_core = [''usb_cam'', ''base_link'', ''aruco11'']"
  "static_caches demo_core = (\<lambda>f. None)(''usb_cam'' \<mapsto> tf_edge ''base_link'' ''usb_cam'' 0)"
  "dyn_caches demo_core = (\<lambda>f. None)(''aruco11'' \<mapsto> [cam_tf 5000000000])"
  by (simp_all add: demo_core_def mount_core_def set_transform_def tf_core_init_def tf_edge_def qnorm2_def
      insert_data_def prune_list_def buffer_cache_time_def Let_def)

lemma mount_core_simps:
  "frame_ids mount_core = [''usb_cam'', ''base_link'']"
  by (simp add: mount_core_def set_transform_def tf_core_init_def tf_edge_def qnorm2_def Let_def)

lemma feed_world:
  "0 \<le> now \<Longrightarrow> listener_world (tf_feed d) now = (if now < d then mount_core else demo_core)"
  by (simp add: listener_world_def tf_feed_def mount_core_def demo_core_def)

lemma mount_core_lookup: "lookup_core mount_core ''aruco11'' ''base_link'' t = Inl LookupException"
  by (simp add: lookup_core_def mount_core_simps)

lemma demo_core_path:
  "tf_path demo_core 5000000000 ''aruco11'' ''base_link'' accum_init
     (\<lparr>vx = 2, vy = 0, vz = 0\<rparr>, \<lparr>qx = 0, qy = 0, qz = 0, qw = 1\<rparr>) [''aruco11'', ''usb_cam'']"
proof -
  have g1: "gather demo_core 5000000000 ''aruco11'' = Some (Some (cam_tf 5000000000))"
    by (simp add: gather_def demo_core_simps get_data_def tf_edge_def)
  have g2: "gather demo_core 5000000000 ''usb_cam'' = Some (Some (tf_edge ''base_link'' ''usb_cam'' 5000000000))"
    by (simp add: gather_def demo_core_simps tf_edge_def)
  note acc = accum_step_def accum_init_def tf_edge_def vec_add_def qmul_def
    quat_rotate_def qconj_def pure_def vec_part_def
  have p1: "tf_path demo_core 5000000000 ''usb_cam'' ''base_link''
              (\<lparr>vx = 1, vy = 0, vz = 0\<rparr>, \<lparr>qx = 0, qy = 0, qz = 0, qw = 1\<rparr>)
              (\<lparr>vx = 2, vy = 0, vz = 0\<rparr>, \<lparr>qx = 0, qy = 0, qz = 0, qw = 1\<rparr>) [''usb_cam'']"
    by (rule tf_path.path_step [OF g2]) (simp_all add: acc tf_path.path_end)
  show ?thesis
    by (rule tf_path.path_step [OF g1]) (use p1 in \<open>simp_all add: acc\<close>)
qed

lemma demo_core_lookup:
  "lookup_core demo_core ''aruco11'' ''base_link'' 5000000000 = Inr demo_lookup"
  using lookup_core_root_path [OF demo_core_path]
  by (simp add: demo_core_simps max_graph_depth_def demo_lookup_def qconj_def)

theorem node_lookup_inverts_chain_witness:
  "\<exists>r. lookup_core demo_core (aruco_frame 11) ''base_link'' 5000000000 = Inr r \<and>
       hdr_stamp (ts_header r) = 5000000000 \<and> hdr_frame_id (ts_header r) = aruco_frame 11 \<and>
       child_frame_id r = ''base_link'' \<and>
       (\<forall>v. tf_apply (translation (ts_transform r), rotation (ts_transform r))
              (tf_apply (\<lparr>vx = 2, vy = 0, vz = 0\<rparr>, \<lparr>qx = 0, qy = 0, qz = 0, qw = 1\<rparr>) v) = v)"
  by (rule node_lookup_inverts_chain [OF demo_core_path [folded aruco_frame_11]])
     (simp_all add: demo_core_simps max_graph_depth_def qnorm2_def aruco_frame_11)

theorem node_lookup_catches_up_witness:
  "int 2 * 50000000 < lookup_timeout \<and>
   lookup_core (late_world (5000000000 + int 2 * 50000000)) (aruco_frame 11) ''base_link'' 5000000000
     = Inr demo_lookup \<and>
   (\<exists>r'. lookup_transform_py late_world (aruco_frame 11) ''base_link'' 5000000000 lookup_timeout 5000000000 = Inr r')"
proof -
  have t: "int 2 * 50000000 < lookup_timeout" by (simp add: lookup_timeout_def)
  have l: "lookup_core (late_world (5000000000 + int 2 * 50000000)) (aruco_frame 11) ''base_link'' 5000000000
             = Inr demo_lookup"
    by (simp add: late_world_def feed_world aruco_frame_11 demo_core_lookup)
  show ?thesis using t l node_lookup_catches_up [where k = 2 and w = late_world and now = 5000000000
    and i = 11 and t = 5000000000 and r = demo_lookup, OF t l] by blast
qed

theorem rt_run_finish_bound_witness:
  "snd (rt_run late_world (static_svea_gps_init None, 0) [(5000000000, marker_obs 11)])
     \<le> 5000000000 + int 1 * (lookup_timeout + 50000000)"
  using rt_run_finish_bound [of "[(5000000000, marker_obs 11)]" 5000000000 0 late_world "static_svea_gps_init None"]
  by simp

section \<open>A run with the tf2 buffer\<close>

lemma marker5_simps [simp]:
  "m_id marker5 = 11" "hdr_stamp (m_header marker5) = 5000000000"
  by (simp_all add: marker5_def)

lemma late_lookup:
  "lookup_transform_py late_world ''aruco11'' ''base_link'' 5000000000 lookup_timeout 5000000000 = Inr demo_lookup"
  "can_transform_wait late_world ''aruco11'' ''base_link'' 5000000000 lookup_timeout 5000000000 = 5100000000"
  by (simp_all add: lookup_transform_py_def can_transform_wait_def lookup_timeout_def late_world_def
      feed_world poll_step poll_stop mount_core_lookup demo_core_lookup)

lemma very_late_lookup:
  "lookup_transform_py very_late_world ''aruco11'' ''base_link'' 5000000000 lookup_timeout 5000000000
     = Inl LookupException"
  "can_transform_wait very_late_world ''aruco11'' ''base_link'' 5000000000 lookup_timeout 5000000000 = 5500000000"
  by (simp_all add: lookup_transform_py_def can_transform_wait_def lookup_timeout_def very_late_world_def
      feed_world poll_step poll_stop mount_core_lookup)

lemma rt_run_single:
  "rt_run w (s, free) [(arr, m)] =
     (fst (aruco_callback (s\<lparr>buffer := node_buffer w (max arr free)\<rparr>) m),
      if uint (m_id m) \<in> set (aruco_id s)
      then can_transform_wait w (aruco_frame (m_id m)) ''base_link'' (hdr_stamp (m_header m)) lookup_timeout (max arr free)
      else max arr free)"
  by (simp add: Let_def)

text \<open>C28. The spec's bounded wait, end to end through the running node with the tf2
  buffer filled by the listener: marker 11 is seen in an image stamped 5 s and its
  message arrives at 5 s. If the detection's transform reaches the buffer at 5.1 s, the
  callback waits for it, publishes one correction stamped 5 s, and is done at 5.1 s;
  if it only arrives at 5.6 s, the callback gives up at 5.5 s, publishes nothing and logs
  the buffer's \<open>LookupException\<close> (the frame is still unknown).\<close>

theorem runtime_scenario_wait:
  "map pwcs_stamp (published (fst (rt_run late_world (static_svea_gps_init None, 0) [(5000000000, marker5)])))
     = [5000000000] \<and>
   snd (rt_run late_world (static_svea_gps_init None, 0) [(5000000000, marker5)]) = 5100000000 \<and>
   published (fst (rt_run very_late_world (static_svea_gps_init None, 0) [(5000000000, marker5)])) = [] \<and>
   log (fst (rt_run very_late_world (static_svea_gps_init None, 0) [(5000000000, marker5)]))
     = [ExceptionLog (TfException LookupException)] \<and>
   snd (rt_run very_late_world (static_svea_gps_init None, 0) [(5000000000, marker5)]) = 5500000000"
proof -
  let ?s = "(static_svea_gps_init None)\<lparr>buffer := node_buffer late_world 5000000000\<rparr>"
  have wf: "wf_calibration ?s" by (simp add: static_svea_gps_init_def wf_calibration_def)
  have k: "0 < length (aruco_id ?s)" "uint (m_id marker5) = aruco_id ?s ! 0"
    by (simp_all add: static_svea_gps_init_def)
  have tf: "buffer ?s (aruco_frame (m_id marker5)) ''base_link'' (hdr_stamp (m_header marker5)) lookup_timeout
              = Inr demo_lookup"
    by (simp add: node_buffer_def aruco_frame_11 late_lookup)
  have p: "map pwcs_stamp (published (fst (aruco_callback ?s marker5))) = [5000000000]"
    using aruco_callback_published [OF wf k tf] by (simp add: pose_msg_stamp static_svea_gps_init_def)
  let ?v = "(static_svea_gps_init None)\<lparr>buffer := node_buffer very_late_world 5000000000\<rparr>"
  have v: "aruco_callback ?v marker5 = (?v\<lparr>log := log ?v @ [ExceptionLog (TfException LookupException)]\<rparr>, marker5)"
    by (simp add: aruco_callback_def log_exception_def node_buffer_def aruco_frame_11 very_late_lookup
        static_svea_gps_init_def)
  show ?thesis
    using p v by (simp add: rt_run_single aruco_frame_11 late_lookup very_late_lookup static_svea_gps_init_def)
qed

theorem boot_subscription_witness:
  "ns_ok ''/'' \<and> subscribed_topic ''/'' (node_boot ''/'' Map.empty) = ''/aruco_pose'' \<and>
   ns_ok ''/svea/'' \<and>
   subscribed_topic ''/svea/'' (node_boot ''/svea/'' [''/svea/static_svea_gps/aruco_pose_topic'' \<mapsto> ''~markers''])
     = ''/svea/static_svea_gps/markers''"
  using boot_subscription [of "''/''" Map.empty]
    boot_subscription [of "''/svea/''" "[''/svea/static_svea_gps/aruco_pose_topic'' \<mapsto> ''~markers'']"]
  by (simp_all add: ns_ok_def resolve_name_def)

end
